theory Spec2Isabelle
  imports Main "HOL-Library.Word" "HOL-Library.Multiset" "HOL-Library.Char_ord"
    "HOL-Library.List_Lexorder"
begin

unbundle bit_operations_syntax

section \<open>Strings and hashing (site/js/fingerprint.js)\<close>

text \<open>
  A JavaScript string is a sequence of UTF-16 code units; \<open>charCodeAt\<close> reads one of
  them. The strings that are hashed are kept as lists of 16-bit words. Program literals,
  hexadecimal and base-36 output are ASCII and kept as \<open>string\<close>; \<open>ascii\<close> embeds them.
\<close>

type_synonym jsstring = "16 word list"

definition ascii :: "string \<Rightarrow> jsstring" where
  "ascii s = map (\<lambda>c. of_nat (of_char c)) s"

text \<open>
  Numbers are IEEE doubles in the source. Every number of \<open>fallbackHash\<close> is an integer
  of magnitude below \<open>2 ^ 53\<close>, where doubles are exact, so \<open>int\<close> carries them. The
  bitwise operators convert their operands to signed 32-bit (ToInt32) first.
\<close>

definition toInt32 :: "int \<Rightarrow> int" where
  "toInt32 x = sint (word_of_int x :: 32 word)"

definition shiftLeft :: "int \<Rightarrow> nat \<Rightarrow> int" where
  \<comment> \<open>\<open>x << n\<close> for \<open>n < 32\<close>\<close>
  "shiftLeft x n = sint (push_bit n (word_of_int x :: 32 word))"

definition bitAnd :: "int \<Rightarrow> int \<Rightarrow> int" where
  \<comment> \<open>\<open>x & y\<close>\<close>
  "bitAnd x y = sint ((word_of_int x :: 32 word) AND word_of_int y)"

definition digit36 :: "nat \<Rightarrow> char" where
  "digit36 d = ''0123456789abcdefghijklmnopqrstuvwxyz'' ! d"

text \<open>\<open>Number.prototype.toString(36)\<close> on a non-negative integer.\<close>

function toString36 :: "nat \<Rightarrow> string" where
  "toString36 n = (if n < 36 then [digit36 n] else toString36 (n div 36) @ [digit36 (n mod 36)])"
  by pat_completeness auto
termination
  by (relation "measure (\<lambda>n. n)") auto

declare toString36.simps [simp del]

text \<open>
  One round of the loop of \<open>fallbackHash\<close>:
  \<^verbatim>\<open>const char = str.charCodeAt(i); hash = ((hash << 5) - hash) + char; hash = hash & hash;\<close>
\<close>

definition fallbackHash_step :: "int \<Rightarrow> 16 word \<Rightarrow> int" where
  "fallbackHash_step hash c =
     (let char = uint c;
          hash1 = (shiftLeft hash 5 - hash) + char
      in bitAnd hash1 hash1)"

definition fallbackHash_loop :: "jsstring \<Rightarrow> int" where
  "fallbackHash_loop str = foldl fallbackHash_step 0 str"

definition fallbackHash :: "jsstring \<Rightarrow> string" where
  "fallbackHash str = toString36 (nat \<bar>fallbackHash_loop str\<bar>)"

text \<open>
  The rolling hash as the specification words it: \<open>hash = hash * 31 + charCode\<close>,
  wrapped to signed 32-bit. It is compared with the loop of the source below.
\<close>

definition spec_rolling_step :: "int \<Rightarrow> 16 word \<Rightarrow> int" where
  "spec_rolling_step h c = toInt32 (h * 31 + uint c)"

definition spec_rolling_hash :: "jsstring \<Rightarrow> int" where
  "spec_rolling_hash str = foldl spec_rolling_step 0 str"

text \<open>Reading a base-36 numeral back, to say what "representation" means.\<close>

definition value36 :: "char \<Rightarrow> nat" where
  "value36 c = (let k = of_char c in if k < 58 then k - 48 else k - 87)"

definition fromBase36 :: "string \<Rightarrow> nat" where
  "fromBase36 ds = foldl (\<lambda>acc c. acc * 36 + value36 c) 0 ds"

text \<open>
  The cryptographic path of \<open>sha256Hash\<close>:
  \<^verbatim>\<open>hashArray.map(b => b.toString(16).padStart(2, '0')).join('')\<close>
\<close>

definition digit16 :: "nat \<Rightarrow> char" where
  "digit16 d = ''0123456789abcdef'' ! d"

definition hexByte :: "8 word \<Rightarrow> string" where
  "hexByte b = [digit16 (unat b div 16), digit16 (unat b mod 16)]"

definition hexOfBytes :: "8 word list \<Rightarrow> string" where
  "hexOfBytes hashArray = concat (map hexByte hashArray)"

text \<open>
  The outcome of asking the engine for something: it answers or it throws.
\<close>

datatype 'a probe = Throws | Gives 'a

text \<open>
  \<open>sha256Hash\<close>. The digest is the engine's
  \<^verbatim>\<open>crypto.subtle.digest('SHA-256', new TextEncoder().encode(message))\<close>, a parameter:
  it throws where \<open>crypto.subtle\<close> is missing, and the \<open>catch\<close> then takes the fallback.
\<close>

definition sha256Hash :: "(jsstring \<Rightarrow> 8 word list probe) \<Rightarrow> jsstring \<Rightarrow> string" where
  "sha256Hash digest message =
     (case digest message of
        Gives hashArray \<Rightarrow> hexOfBytes hashArray
      | Throws \<Rightarrow> fallbackHash message)"

section \<open>Error mapping (the API module in site/js/fingerprint.js)\<close>

datatype error_code =
  ALREADY_VOTED | INVALID_DATA | RATE_LIMIT | SERVER_ERROR | UNKNOWN_ERROR | NETWORK_ERROR

text \<open>\<open>class ApiError extends Error\<close> with its three fields.\<close>

datatype api_error = ApiError (message: string) (err_status: int) (code: error_code)

text \<open>
  \<open>mapError(status, data)\<close>. \<open>data\<close> is the parsed error body; all that is read of it is
  \<open>data?.message\<close>, here \<open>None\<close> when \<open>data\<close> is null or has no message. The empty
  string is falsy, so \<open>||\<close> replaces it too.
\<close>

definition mapError :: "int \<Rightarrow> string option \<Rightarrow> api_error" where
  "mapError status data_message =
     (if status = 409 then ApiError ''You have already voted'' status ALREADY_VOTED
      else if status = 422 then ApiError ''Invalid request data'' status INVALID_DATA
      else if status = 429 then
        ApiError ''Too many requests. Please try again later'' status RATE_LIMIT
      else if status = 500 \<or> status = 502 \<or> status = 503 then
        ApiError ''Server error. Please try again'' status SERVER_ERROR
      else
        ApiError (case data_message of
                    Some m \<Rightarrow> if m = [] then ''An error occurred'' else m
                  | None \<Rightarrow> ''An error occurred'') status UNKNOWN_ERROR)"

section \<open>The retrying HTTP client (the API module in site/js/fingerprint.js)\<close>

text \<open>
  Rows are JSON objects with scalar columns, kept as association lists in column order.
  A timestamp (\<open>new Date().toISOString()\<close>, a \<open>created_at\<close> column) is kept as the
  instant it names.
\<close>

datatype val = VNull | VBool bool | VNum int | VStr string | VTime int

type_synonym row = "(string \<times> val) list"

definition column :: "row \<Rightarrow> string \<Rightarrow> val option" where
  "column r k = map_of r k"

text \<open>
  A request as \<open>fetchWithRetry\<close> receives it: the resource under \<open>/rest/v1/\<close> with the
  query parameters of the URL in order, or the resource with the JSON object of the body.
  The headers are the same on every request (\<open>SUPABASE_ANON_KEY\<close>, from a configuration
  module that is not part of the sources) and are left out.
\<close>

datatype request = Get string "(string \<times> string) list" | Post string row

text \<open>
  What \<open>response.json()\<close> can meet: a body that does not parse, \<open>null\<close>, an array of
  rows, or an object that is not an array, of which only \<open>message\<close> is ever read.
\<close>

datatype body = Unparsable | JsonNull | Rows "row list" | ErrorObject "string option"

record response =
  status :: int
  body :: body

definition ok :: "response \<Rightarrow> bool" where
  "ok r \<longleftrightarrow> 200 \<le> status r \<and> status r \<le> 299"

text \<open>\<open>fetch\<close> resolves to a response, or rejects when no response was received.\<close>

datatype outcome = Rejected | Responded response

datatype exn = Api api_error | FetchRejected | JsonRejected | TypeError

definition MAX_RETRIES :: nat where
  "MAX_RETRIES = 3"

definition RETRY_DELAY :: int where
  "RETRY_DELAY = 1000"

text \<open>
  The state the module runs in: its own variables \<open>MOCK_MODE\<close> and \<open>MOCK_DATA\<close>, the
  world behind \<open>fetch\<close>, the delays handed to \<open>sleep\<close> so far, and the clock that
  \<open>Date\<close> reads, which a sleep of \<open>ms\<close> moves on by \<open>ms\<close>.
\<close>

record 'w state =
  MOCK_MODE :: bool
  mock_candidates :: "row list"
  mock_voters :: "string set"
  mock_votes :: "row list"
  world :: 'w
  slept :: "int list"
  clock :: int

definition sleep :: "int \<Rightarrow> 'w state \<Rightarrow> 'w state" where
  "sleep ms st = st\<lparr>slept := slept st @ [ms], clock := clock st + ms\<rparr>"

text \<open>
  \<open>fetchWithRetry(url, options, retryCount = 0)\<close>. \<open>fetch\<close> is the platform's: a
  parameter that answers a request and moves the world on.
\<close>

function fetchWithRetry ::
  "(request \<Rightarrow> 'w \<Rightarrow> outcome \<times> 'w) \<Rightarrow> request \<Rightarrow> nat \<Rightarrow> 'w state
     \<Rightarrow> (exn + response) \<times> 'w state" where
  "fetchWithRetry fetch req retryCount st =
     (let st1 = st\<lparr>world := snd (fetch req (world st))\<rparr> in
      case fst (fetch req (world st)) of
        Responded response \<Rightarrow>
          if status response \<ge> 400 \<and> status response < 500 \<and> status response \<noteq> 429
          then (Inr response, st1)
          else if \<not> ok response \<and> retryCount < MAX_RETRIES
          then fetchWithRetry fetch req (retryCount + 1)
                 (sleep (RETRY_DELAY * 2 ^ retryCount) st1)
          else (Inr response, st1)
      | Rejected \<Rightarrow>
          if retryCount < MAX_RETRIES
          then fetchWithRetry fetch req (retryCount + 1)
                 (sleep (RETRY_DELAY * 2 ^ retryCount) st1)
          else (Inl FetchRejected, st1))"
  by pat_completeness auto
termination
  by (relation "measure (\<lambda>(fetch, req, retryCount, st). MAX_RETRIES - retryCount)") auto

declare fetchWithRetry.simps [simp del]

text \<open>
  A server that answers the \<open>n\<close>-th request it receives with \<open>script n\<close>; its state is
  the number of requests received.
\<close>

definition scripted :: "(nat \<Rightarrow> outcome) \<Rightarrow> request \<Rightarrow> nat \<Rightarrow> outcome \<times> nat" where
  "scripted script req n = (script n, Suc n)"

text \<open>
  The outcomes after which \<open>fetchWithRetry\<close> tries again while retries are left, and
  what it ends with when the last attempt had the outcome \<open>out\<close>.
\<close>

definition retried :: "outcome \<Rightarrow> bool" where
  "retried out =
     (case out of
        Rejected \<Rightarrow> True
      | Responded r \<Rightarrow> \<not> ok r \<and> \<not> (400 \<le> status r \<and> status r < 500 \<and> status r \<noteq> 429))"

definition final :: "outcome \<Rightarrow> exn + response" where
  "final out = (case out of Rejected \<Rightarrow> Inl FetchRejected | Responded r \<Rightarrow> Inr r)"

section \<open>Candidates, voters and votes (the API module in site/js/fingerprint.js)\<close>

text \<open>\<open>MOCK_DATA\<close> as the module creates it.\<close>

definition MOCK_DATA_candidates :: "row list" where
  "MOCK_DATA_candidates =
     [[(''id'', VNum 1), (''name'', VStr ''Alice Johnson''),
       (''description'', VStr ''Experienced leader''), (''image_url'', VStr [])],
      [(''id'', VNum 2), (''name'', VStr ''Bob Smith''),
       (''description'', VStr ''Innovation focused''), (''image_url'', VStr [])],
      [(''id'', VNum 3), (''name'', VStr ''Carol Davis''),
       (''description'', VStr ''Community advocate''), (''image_url'', VStr [])]]"

definition module_state :: "bool \<Rightarrow> 'w \<Rightarrow> int \<Rightarrow> 'w state" where
  "module_state mock w now =
     \<lparr>MOCK_MODE = mock, mock_candidates = MOCK_DATA_candidates, mock_voters = {},
      mock_votes = [], world = w, slept = [], clock = now\<rparr>"

text \<open>
  Reading a response. \<open>response.json()\<close> rejects on a body that does not parse;
  \<open>response.json().catch(() => ({}))\<close> takes the empty object then. \<open>data?.message\<close>,
  \<open>voters.length > 0\<close> and \<open>voters[0]\<close> on each kind of body: \<open>null\<close> has no
  properties (a \<open>TypeError\<close>, except under \<open>?.\<close>), an object that is not an array has
  neither \<open>length\<close> nor an element \<open>0\<close> (\<open>undefined\<close>, here \<open>None\<close>).
\<close>

definition json :: "response \<Rightarrow> exn + body" where
  "json r = (case body r of Unparsable \<Rightarrow> Inl JsonRejected | b \<Rightarrow> Inr b)"

definition json_or_empty :: "response \<Rightarrow> body" where
  "json_or_empty r = (case body r of Unparsable \<Rightarrow> ErrorObject None | b \<Rightarrow> b)"

definition data_message :: "body \<Rightarrow> string option" where
  "data_message d = (case d of ErrorObject m \<Rightarrow> m | _ \<Rightarrow> None)"

definition length_gt0 :: "body \<Rightarrow> exn + bool" where
  "length_gt0 b =
     (case b of
        Rows xs \<Rightarrow> Inr (xs \<noteq> [])
      | ErrorObject m \<Rightarrow> Inr False
      | JsonNull \<Rightarrow> Inl TypeError
      | Unparsable \<Rightarrow> Inl JsonRejected)"

definition element0 :: "body \<Rightarrow> exn + row option" where
  "element0 b =
     (case b of
        Rows xs \<Rightarrow> Inr (case xs of [] \<Rightarrow> None | x # rest \<Rightarrow> Some x)
      | ErrorObject m \<Rightarrow> Inr None
      | JsonNull \<Rightarrow> Inl TypeError
      | Unparsable \<Rightarrow> Inl JsonRejected)"

text \<open>
  The \<open>catch\<close> that ends each operation:
  \<^verbatim>\<open>if (error instanceof ApiError) throw error; throw new ApiError(msg, 0, 'NETWORK_ERROR');\<close>
\<close>

definition catch_rethrow :: "string \<Rightarrow> (exn + 'a) \<times> 's \<Rightarrow> (exn + 'a) \<times> 's" where
  "catch_rethrow msg r =
     (case fst r of
        Inl (Api e) \<Rightarrow> r
      | Inl other \<Rightarrow> (Inl (Api (ApiError msg 0 NETWORK_ERROR)), snd r)
      | Inr v \<Rightarrow> r)"

text \<open>\<open>if (!response.ok) { const data = ...; throw mapError(response.status, data); }\<close>\<close>

definition error_of :: "response \<Rightarrow> exn" where
  "error_of r = Api (mapError (status r) (data_message (json_or_empty r)))"

text \<open>\<open>fetchCandidates()\<close>; the result is whatever JSON the response holds.\<close>

definition fetchCandidates ::
  "(request \<Rightarrow> 'w \<Rightarrow> outcome \<times> 'w) \<Rightarrow> 'w state \<Rightarrow> (exn + body) \<times> 'w state" where
  "fetchCandidates fetch st =
     (if MOCK_MODE st then
        (let st1 = sleep 300 st in (Inr (Rows (mock_candidates st1)), st1))
      else catch_rethrow ''Failed to fetch candidates''
        (case fetchWithRetry fetch
                (Get ''candidates'' [(''select'', ''*''), (''order'', ''id.asc'')]) 0 st of
           (Inl e, st1) \<Rightarrow> (Inl e, st1)
         | (Inr response, st1) \<Rightarrow>
             if \<not> ok response then (Inl (error_of response), st1)
             else (json response, st1)))"

text \<open>
  \<open>ensureVoter(fingerprint)\<close>. The first half of the \<open>try\<close> block: the voter that the
  GET found, if any.
\<close>

definition existing_voter :: "response \<Rightarrow> exn + row option option" where
  "existing_voter getResponse =
     (if ok getResponse then
        (case json getResponse of
           Inl e \<Rightarrow> Inl e
         | Inr voters \<Rightarrow>
             (case length_gt0 voters of
                Inl e \<Rightarrow> Inl e
              | Inr True \<Rightarrow> (case element0 voters of Inl e \<Rightarrow> Inl e | Inr v \<Rightarrow> Inr (Some v))
              | Inr False \<Rightarrow> Inr None))
      else Inr None)"

definition created_row :: "response \<Rightarrow> exn + row option" where
  "created_row createResponse =
     (if \<not> ok createResponse then Inl (error_of createResponse)
      else (case json createResponse of
              Inl e \<Rightarrow> Inl e
            | Inr newRows \<Rightarrow> element0 newRows))"

definition ensureVoter_try ::
  "(request \<Rightarrow> 'w \<Rightarrow> outcome \<times> 'w) \<Rightarrow> string \<Rightarrow> 'w state
     \<Rightarrow> (exn + row option) \<times> 'w state" where
  "ensureVoter_try fetch fingerprint st =
     (case fetchWithRetry fetch
             (Get ''voters'' [(''fingerprint'', ''eq.'' @ fingerprint), (''select'', ''*'')])
             0 st of
        (Inl e, st1) \<Rightarrow> (Inl e, st1)
      | (Inr getResponse, st1) \<Rightarrow>
          (case existing_voter getResponse of
             Inl e \<Rightarrow> (Inl e, st1)
           | Inr (Some voter) \<Rightarrow> (Inr voter, st1)
           | Inr None \<Rightarrow>
               (case fetchWithRetry fetch
                       (Post ''voters'' [(''fingerprint'', VStr fingerprint)]) 0 st1 of
                  (Inl e, st2) \<Rightarrow> (Inl e, st2)
                | (Inr createResponse, st2) \<Rightarrow> (created_row createResponse, st2))))"

definition mock_voter :: "string \<Rightarrow> 'w state \<Rightarrow> row" where
  "mock_voter fingerprint st =
     [(''id'', VStr fingerprint), (''fingerprint'', VStr fingerprint),
      (''created_at'', VTime (clock st))]"

definition ensureVoter ::
  "(request \<Rightarrow> 'w \<Rightarrow> outcome \<times> 'w) \<Rightarrow> string \<Rightarrow> 'w state
     \<Rightarrow> (exn + row option) \<times> 'w state" where
  "ensureVoter fetch fingerprint st =
     (if MOCK_MODE st then
        (let st1 = sleep 200 st in
         if fingerprint \<in> mock_voters st1 then (Inr (Some (mock_voter fingerprint st1)), st1)
         else (Inr (Some (mock_voter fingerprint st1)),
               st1\<lparr>mock_voters := insert fingerprint (mock_voters st1)\<rparr>))
      else catch_rethrow ''Failed to register voter'' (ensureVoter_try fetch fingerprint st))"

text \<open>\<open>submitVote(voterId, candidateId)\<close>.\<close>

definition submitVote_try ::
  "(request \<Rightarrow> 'w \<Rightarrow> outcome \<times> 'w) \<Rightarrow> val \<Rightarrow> val \<Rightarrow> 'w state
     \<Rightarrow> (exn + row option) \<times> 'w state" where
  "submitVote_try fetch voterId candidateId st =
     (case fetchWithRetry fetch
             (Post ''votes'' [(''voter_id'', voterId), (''candidate_id'', candidateId)]) 0 st of
        (Inl e, st1) \<Rightarrow> (Inl e, st1)
      | (Inr response, st1) \<Rightarrow> (created_row response, st1))"

definition mock_vote :: "val \<Rightarrow> val \<Rightarrow> 'w state \<Rightarrow> row" where
  "mock_vote voterId candidateId st =
     [(''id'', VNum (clock st)), (''voter_id'', voterId), (''candidate_id'', candidateId),
      (''created_at'', VTime (clock st))]"

definition submitVote ::
  "(request \<Rightarrow> 'w \<Rightarrow> outcome \<times> 'w) \<Rightarrow> val \<Rightarrow> val \<Rightarrow> 'w state
     \<Rightarrow> (exn + row option) \<times> 'w state" where
  "submitVote fetch voterId candidateId st =
     (if MOCK_MODE st then
        (let st1 = sleep 400 st in
         if list_ex (\<lambda>v. column v ''voter_id'' = Some voterId) (mock_votes st1)
         then (Inl (Api (ApiError ''You have already voted'' 409 ALREADY_VOTED)), st1)
         else if \<not> list_ex (\<lambda>c. column c ''id'' = Some candidateId) (mock_candidates st1)
         then (Inl (Api (ApiError ''Invalid candidate'' 422 INVALID_DATA)), st1)
         else (Inr (Some (mock_vote voterId candidateId st1)),
               st1\<lparr>mock_votes := mock_votes st1 @ [mock_vote voterId candidateId st1]\<rparr>))
      else catch_rethrow ''Failed to submit vote'' (submitVote_try fetch voterId candidateId st))"

section \<open>The remote store\<close>

text \<open>
  Modelled from the spec: the persistence service behind \<open>fetch\<close> is not part of the
  sources. The specification describes it: GET on a collection lists the rows that match
  the filter, POST inserts and returns the inserted row, a violated uniqueness constraint
  is answered with the conflict status 409, there is at most one Voter per
  (election, fingerprint) and one Vote per (voter, position), the position being that of
  the candidate voted for. The requests of this client name no election: a GET by
  fingerprint lists the Voters of every election, and an inserted Voter gets the election
  the store serves at that time (\<open>current_election\<close>, \<open>None\<close> for a store that names
  none) as its \<open>election_id\<close>. A POST that names no fingerprint or no known candidate is
  answered 422, any other resource 404.
\<close>

record store =
  voters :: "row list"
  votes :: "row list"
  candidates :: "row list"
  next_id :: int
  store_now :: int
  current_election :: "val option"

fun eq_filter :: "string \<Rightarrow> string option" where
  "eq_filter (a # b # c # x) =
     (if a = CHR ''e'' \<and> b = CHR ''q'' \<and> c = CHR ''.'' then Some x else None)"
| "eq_filter other = None"

definition matches :: "(string \<times> string) list \<Rightarrow> row \<Rightarrow> bool" where
  "matches params r =
     list_all (\<lambda>p. case eq_filter (snd p) of
                      Some x \<Rightarrow> column r (fst p) = Some (VStr x)
                    | None \<Rightarrow> True) params"

definition respond :: "int \<Rightarrow> body \<Rightarrow> outcome" where
  "respond s b = Responded \<lparr>status = s, body = b\<rparr>"

definition conflict :: outcome where
  "conflict = respond 409
     (ErrorObject (Some ''duplicate key value violates unique constraint''))"

definition voter_row :: "store \<Rightarrow> string \<Rightarrow> row" where
  "voter_row s f =
     [(''id'', VNum (next_id s)), (''fingerprint'', VStr f),
      (''created_at'', VTime (store_now s))]
     @ (case current_election s of Some e \<Rightarrow> [(''election_id'', e)] | None \<Rightarrow> [])"

text \<open>
  Modelled from the spec: the insert into the Voter table, which the uniqueness
  constraint on (election, fingerprint) rejects with 409.
\<close>

definition insert_voter :: "row \<Rightarrow> store \<Rightarrow> outcome \<times> store" where
  "insert_voter r s =
     (case column r ''fingerprint'' of
        Some (VStr f) \<Rightarrow>
          if list_ex (\<lambda>v. column v ''fingerprint'' = Some (VStr f)
                           \<and> column v ''election_id'' = current_election s) (voters s)
          then (conflict, s)
          else (respond 201 (Rows [voter_row s f]),
                s\<lparr>voters := voters s @ [voter_row s f], next_id := next_id s + 1\<rparr>)
      | other \<Rightarrow> (respond 422 (ErrorObject None), s))"

definition position_of :: "store \<Rightarrow> val \<Rightarrow> val option option" where
  "position_of s candidateId =
     (case find (\<lambda>c. column c ''id'' = Some candidateId) (candidates s) of
        Some c \<Rightarrow> Some (column c ''position'')
      | None \<Rightarrow> None)"

definition vote_row :: "store \<Rightarrow> val \<Rightarrow> val \<Rightarrow> val option \<Rightarrow> row" where
  "vote_row s voter candidate position =
     [(''id'', VNum (next_id s)), (''voter_id'', voter), (''candidate_id'', candidate),
      (''created_at'', VTime (store_now s))]
     @ (case position of Some p \<Rightarrow> [(''position'', p)] | None \<Rightarrow> [])"

text \<open>
  Modelled from the spec: the insert into the Vote table, which the uniqueness
  constraint on (voter, position) rejects with 409.
\<close>

definition insert_vote :: "row \<Rightarrow> store \<Rightarrow> outcome \<times> store" where
  "insert_vote r s =
     (case (column r ''voter_id'', column r ''candidate_id'') of
        (Some voter, Some candidate) \<Rightarrow>
          (case position_of s candidate of
             Some position \<Rightarrow>
               if list_ex (\<lambda>v. column v ''voter_id'' = Some voter
                                \<and> column v ''position'' = position) (votes s)
               then (conflict, s)
               else (respond 201 (Rows [vote_row s voter candidate position]),
                     s\<lparr>votes := votes s @ [vote_row s voter candidate position],
                       next_id := next_id s + 1\<rparr>)
           | None \<Rightarrow> (respond 422 (ErrorObject None), s))
      | other \<Rightarrow> (respond 422 (ErrorObject None), s))"

text \<open>
  Modelled from the spec: how the store answers a request. It always answers; transport
  failures and server errors are the business of \<open>scripted\<close> servers.
\<close>

definition store_fetch :: "request \<Rightarrow> store \<Rightarrow> outcome \<times> store" where
  "store_fetch req s =
     (case req of
        Get resource params \<Rightarrow>
          if resource = ''voters''
          then (respond 200 (Rows (filter (matches params) (voters s))), s)
          else if resource = ''candidates'' then (respond 200 (Rows (candidates s)), s)
          else if resource = ''votes''
          then (respond 200 (Rows (filter (matches params) (votes s))), s)
          else (respond 404 (ErrorObject None), s)
      | Post resource r \<Rightarrow>
          if resource = ''voters'' then insert_voter r s
          else if resource = ''votes'' then insert_vote r s
          else (respond 404 (ErrorObject None), s))"

text \<open>
  Other sessions share the store. \<open>racing\<close> lets the requests of rival sessions reach it
  between the requests of this one: the head of the schedule is served before the next
  request of this session.
\<close>

definition racing ::
  "(request \<Rightarrow> 'w \<Rightarrow> outcome \<times> 'w) \<Rightarrow> request
     \<Rightarrow> 'w \<times> request list list \<Rightarrow> outcome \<times> ('w \<times> request list list)" where
  "racing fetch req ws =
     (let rivals = (case snd ws of [] \<Rightarrow> [] | rs # rest \<Rightarrow> rs);
          w1 = foldl (\<lambda>w r. snd (fetch r w)) (fst ws) rivals
      in (fst (fetch req w1), (snd (fetch req w1), tl (snd ws))))"

text \<open>\<open>recording\<close> keeps the list of the requests that were sent.\<close>

definition recording ::
  "(request \<Rightarrow> 'w \<Rightarrow> outcome \<times> 'w) \<Rightarrow> request
     \<Rightarrow> 'w \<times> request list \<Rightarrow> outcome \<times> ('w \<times> request list)" where
  "recording fetch req wl =
     (fst (fetch req (fst wl)), (snd (fetch req (fst wl)), snd wl @ [req]))"

text \<open>The store before anyone has registered, and what its constraints keep true.\<close>

definition empty_store :: store where
  "empty_store =
     \<lparr>voters = [], votes = [], candidates = [], next_id = 1, store_now = 0,
      current_election = None\<rparr>"

definition voters_with :: "string \<Rightarrow> store \<Rightarrow> row list" where
  "voters_with f s = filter (\<lambda>v. column v ''fingerprint'' = Some (VStr f)) (voters s)"

definition voters_of :: "val option \<Rightarrow> string \<Rightarrow> store \<Rightarrow> row list" where
  "voters_of e f s =
     filter (\<lambda>v. column v ''fingerprint'' = Some (VStr f) \<and> column v ''election_id'' = e)
       (voters s)"

definition voters_unique :: "store \<Rightarrow> bool" where
  "voters_unique s \<longleftrightarrow>
     distinct (map (\<lambda>v. (column v ''election_id'', column v ''fingerprint'')) (voters s))"

text \<open>
  A fingerprint as the hasher makes it: digits and lowercase letters. The URL of the GET
  of \<open>ensureVoter\<close> is built without encoding, so only for such strings is the filter
  that reaches the store the one on the whole fingerprint.
\<close>

definition plain_fingerprint :: "string \<Rightarrow> bool" where
  "plain_fingerprint f \<longleftrightarrow> set f \<subseteq> set ''0123456789abcdefghijklmnopqrstuvwxyz''"

text \<open>
  An operation ends by returning its data or by throwing; \<open>throws_ApiError_only\<close> says
  that whatever it throws is an \<open>ApiError\<close>.
\<close>

definition throws_ApiError_only :: "exn + 'a \<Rightarrow> bool" where
  "throws_ApiError_only r =
     (case r of Inl (Api e) \<Rightarrow> True | Inl other \<Rightarrow> False | Inr v \<Rightarrow> True)"

text \<open>A store with two candidates for one position and one for another.\<close>

definition sample_store :: store where
  "sample_store = empty_store\<lparr>candidates :=
       [[(''id'', VNum 1), (''name'', VStr ''Alice Johnson''), (''position'', VStr ''President'')],
        [(''id'', VNum 2), (''name'', VStr ''Bob Smith''), (''position'', VStr ''President'')],
        [(''id'', VNum 3), (''name'', VStr ''Carol Davis''), (''position'', VStr ''Treasurer'')]]\<rparr>"

section \<open>Signals and the fingerprint (site/js/fingerprint.js, site/js/voting.js)\<close>

text \<open>
  The primitive values a signal can hold. Numbers are kept as integers: the counts, sizes
  and offsets read here are integers in every browser.
\<close>

datatype jsval = Undefined | Null | Bool bool | Num int | Str jsstring

definition truthy :: "jsval \<Rightarrow> bool" where
  "truthy v =
     (case v of Undefined \<Rightarrow> False | Null \<Rightarrow> False | Bool b \<Rightarrow> b
      | Num n \<Rightarrow> n \<noteq> 0 | Str s \<Rightarrow> s \<noteq> [])"

definition or_else :: "jsval \<Rightarrow> jsval \<Rightarrow> jsval" where
  \<comment> \<open>\<open>a || b\<close>\<close>
  "or_else a b = (if truthy a then a else b)"

function decimal :: "nat \<Rightarrow> string" where
  "decimal n = (if n < 10 then [digit16 n] else decimal (n div 10) @ [digit16 (n mod 10)])"
  by pat_completeness auto
termination
  by (relation "measure (\<lambda>n. n)") auto

declare decimal.simps [simp del]

definition toString :: "jsval \<Rightarrow> jsstring" where
  \<comment> \<open>the conversion a template literal applies\<close>
  "toString v =
     (case v of
        Undefined \<Rightarrow> ascii ''undefined''
      | Null \<Rightarrow> ascii ''null''
      | Bool b \<Rightarrow> ascii (if b then ''true'' else ''false'')
      | Num n \<Rightarrow> ascii (if n < 0 then ''-'' @ decimal (nat (- n)) else decimal (nat n))
      | Str s \<Rightarrow> s)"

fun join_comma :: "jsstring list \<Rightarrow> jsstring" where
  \<comment> \<open>\<open>.join(',')\<close> on an array of strings\<close>
  "join_comma [] = []"
| "join_comma [x] = x"
| "join_comma (x # y # rest) = x @ ascii '','' @ join_comma (y # rest)"

text \<open>
  The environment: what each read of the engine gives when the module asks. A property
  that is absent reads as \<open>Undefined\<close>; a read can also throw (\<open>Intl\<close> missing, a getter
  that fails). \<open>nav_languages\<close> and \<open>nav_plugins\<close> are \<open>None\<close> when the property is
  falsy and otherwise the strings that \<open>join\<close> meets (the languages, the \<open>name\<close> of each
  plugin). The canvas and WebGL fields follow the steps of the two functions that use
  them: whether a context (an extension) was obtained, and what the last call returned.
\<close>

record env =
  nav_userAgent :: "jsval probe"
  nav_language :: "jsval probe"
  nav_languages :: "jsstring list option probe"
  nav_platform :: "jsval probe"
  nav_hardwareConcurrency :: "jsval probe"
  nav_deviceMemory :: "jsval probe"
  nav_maxTouchPoints :: "jsval probe"
  screen_width :: "jsval probe"
  screen_height :: "jsval probe"
  screen_colorDepth :: "jsval probe"
  screen_pixelDepth :: "jsval probe"
  screen_availWidth :: "jsval probe"
  screen_availHeight :: "jsval probe"
  intl_timeZone :: "jsval probe"
  date_timezoneOffset :: "jsval probe"
  nav_cookieEnabled :: "jsval probe"
  nav_doNotTrack :: "jsval probe"
  nav_plugins :: "jsstring list option probe"
  canvas_context2d :: "bool probe"
  canvas_toDataURL :: "jsval probe"
  webgl_context :: "bool probe"
  webgl_debugInfo :: "bool probe"
  webgl_vendor :: "jsval probe"
  webgl_renderer :: "jsval probe"
  crypto_digest :: "jsstring \<Rightarrow> 8 word list probe"

text \<open>\<open>getCanvasFingerprint()\<close>: the whole body is inside \<open>try\<close>, \<open>catch\<close> returns \<open>''\<close>.\<close>

definition getCanvasFingerprint :: "env \<Rightarrow> jsval" where
  "getCanvasFingerprint e =
     (case canvas_context2d e of
        Throws \<Rightarrow> Str []
      | Gives ctx \<Rightarrow>
          if \<not> ctx then Str []
          else (case canvas_toDataURL e of Throws \<Rightarrow> Str [] | Gives url \<Rightarrow> url))"

text \<open>\<open>getWebGLFingerprint()\<close>, guarded in the same way.\<close>

definition getWebGLFingerprint :: "env \<Rightarrow> jsval" where
  "getWebGLFingerprint e =
     (case webgl_context e of
        Throws \<Rightarrow> Str []
      | Gives gl \<Rightarrow>
          if \<not> gl then Str []
          else (case webgl_debugInfo e of
                  Throws \<Rightarrow> Str []
                | Gives debugInfo \<Rightarrow>
                    if \<not> debugInfo then Str []
                    else (case webgl_vendor e of
                            Throws \<Rightarrow> Str []
                          | Gives vendor \<Rightarrow>
                              (case webgl_renderer e of
                                 Throws \<Rightarrow> Str []
                               | Gives renderer \<Rightarrow>
                                   Str (toString vendor @ ascii ''~''
                                        @ toString renderer)))))"

text \<open>
  An object literal evaluates its property values in order; the first that throws ends
  the evaluation.
\<close>

fun object_literal :: "(string \<times> jsval probe) list \<Rightarrow> (string \<times> jsval) list probe" where
  "object_literal [] = Gives []"
| "object_literal ((k, p) # rest) =
     (case p of
        Throws \<Rightarrow> Throws
      | Gives v \<Rightarrow>
          (case object_literal rest of
             Throws \<Rightarrow> Throws
           | Gives kvs \<Rightarrow> Gives ((k, v) # kvs)))"

definition or_default :: "jsval probe \<Rightarrow> jsval \<Rightarrow> jsval probe" where
  \<comment> \<open>\<open>read || d\<close>\<close>
  "or_default p d = (case p of Throws \<Rightarrow> Throws | Gives v \<Rightarrow> Gives (or_else v d))"

definition joined :: "jsstring list option probe \<Rightarrow> jsval probe" where
  "joined p =
     (case p of
        Throws \<Rightarrow> Throws
      | Gives None \<Rightarrow> Gives (Str [])
      | Gives (Some xs) \<Rightarrow> Gives (Str (join_comma xs)))"

text \<open>\<open>collectSignals()\<close>: no \<open>try\<close> of its own.\<close>

definition collectSignals :: "env \<Rightarrow> (string \<times> jsval) list probe" where
  "collectSignals e = object_literal
     [(''userAgent'', or_default (nav_userAgent e) (Str [])),
      (''language'', or_default (nav_language e) (Str [])),
      (''languages'', joined (nav_languages e)),
      (''platform'', or_default (nav_platform e) (Str [])),
      (''hardwareConcurrency'', or_default (nav_hardwareConcurrency e) (Num 0)),
      (''deviceMemory'', or_default (nav_deviceMemory e) (Num 0)),
      (''maxTouchPoints'', or_default (nav_maxTouchPoints e) (Num 0)),
      (''screenWidth'', or_default (screen_width e) (Num 0)),
      (''screenHeight'', or_default (screen_height e) (Num 0)),
      (''screenColorDepth'', or_default (screen_colorDepth e) (Num 0)),
      (''screenPixelDepth'', or_default (screen_pixelDepth e) (Num 0)),
      (''availWidth'', or_default (screen_availWidth e) (Num 0)),
      (''availHeight'', or_default (screen_availHeight e) (Num 0)),
      (''timezone'', or_default (intl_timeZone e) (Str [])),
      (''timezoneOffset'', date_timezoneOffset e),
      (''canvas'', Gives (getCanvasFingerprint e)),
      (''cookieEnabled'', nav_cookieEnabled e),
      (''doNotTrack'', or_default (nav_doNotTrack e) (Str [])),
      (''plugins'', joined (nav_plugins e)),
      (''webgl'', Gives (getWebGLFingerprint e))]"

definition signal_keys :: "string list" where
  "signal_keys =
     [''userAgent'', ''language'', ''languages'', ''platform'', ''hardwareConcurrency'',
      ''deviceMemory'', ''maxTouchPoints'', ''screenWidth'', ''screenHeight'',
      ''screenColorDepth'', ''screenPixelDepth'', ''availWidth'', ''availHeight'',
      ''timezone'', ''timezoneOffset'', ''canvas'', ''cookieEnabled'', ''doNotTrack'',
      ''plugins'', ''webgl'']"

text \<open>
  The signals that are read under \<open>||\<close>, joined from a list, or made by
  \<open>getWebGLFingerprint\<close>.
\<close>

definition defaulted_keys :: "string list" where
  "defaulted_keys =
     [''userAgent'', ''language'', ''languages'', ''platform'', ''hardwareConcurrency'',
      ''deviceMemory'', ''maxTouchPoints'', ''screenWidth'', ''screenHeight'',
      ''screenColorDepth'', ''screenPixelDepth'', ''availWidth'', ''availHeight'',
      ''timezone'', ''doNotTrack'', ''plugins'', ''webgl'']"

text \<open>
  The signals that are read as \<open>read || sentinel\<close>, each with its read and its
  sentinel.
\<close>

definition defaulted_reads :: "env \<Rightarrow> (string \<times> jsval probe \<times> jsval) list" where
  "defaulted_reads e =
     [(''userAgent'', nav_userAgent e, Str []),
      (''language'', nav_language e, Str []),
      (''platform'', nav_platform e, Str []),
      (''hardwareConcurrency'', nav_hardwareConcurrency e, Num 0),
      (''deviceMemory'', nav_deviceMemory e, Num 0),
      (''maxTouchPoints'', nav_maxTouchPoints e, Num 0),
      (''screenWidth'', screen_width e, Num 0),
      (''screenHeight'', screen_height e, Num 0),
      (''screenColorDepth'', screen_colorDepth e, Num 0),
      (''screenPixelDepth'', screen_pixelDepth e, Num 0),
      (''availWidth'', screen_availWidth e, Num 0),
      (''availHeight'', screen_availHeight e, Num 0),
      (''timezone'', intl_timeZone e, Str []),
      (''doNotTrack'', nav_doNotTrack e, Str [])]"

text \<open>The reads of \<open>collectSignals\<close> that no \<open>try\<close> guards: does one of them throw?\<close>

definition unguarded_read_throws :: "env \<Rightarrow> bool" where
  "unguarded_read_throws e \<longleftrightarrow>
     nav_userAgent e = Throws \<or> nav_language e = Throws \<or> nav_languages e = Throws
     \<or> nav_platform e = Throws \<or> nav_hardwareConcurrency e = Throws
     \<or> nav_deviceMemory e = Throws \<or> nav_maxTouchPoints e = Throws
     \<or> screen_width e = Throws \<or> screen_height e = Throws
     \<or> screen_colorDepth e = Throws \<or> screen_pixelDepth e = Throws
     \<or> screen_availWidth e = Throws \<or> screen_availHeight e = Throws
     \<or> intl_timeZone e = Throws \<or> date_timezoneOffset e = Throws
     \<or> nav_cookieEnabled e = Throws \<or> nav_doNotTrack e = Throws
     \<or> nav_plugins e = Throws"

text \<open>
  \<open>JSON.stringify\<close> on an object of primitive values. A string is quoted as the engine
  quotes it: the short escapes, \<open>\u00XX\<close> for the other control characters and
  \<open>\uDXXX\<close> for a surrogate that has no partner. A property whose value is
  \<open>undefined\<close> is left out.
\<close>

definition hex4 :: "16 word \<Rightarrow> string" where
  "hex4 c =
     [digit16 (unat c div 4096), digit16 (unat c div 256 mod 16),
      digit16 (unat c div 16 mod 16), digit16 (unat c mod 16)]"

definition unicode_escape :: "16 word \<Rightarrow> jsstring" where
  "unicode_escape c = [0x5C, 0x75] @ ascii (hex4 c)"

definition escape_unit :: "16 word \<Rightarrow> jsstring" where
  "escape_unit c =
     (if c = 0x08 then [0x5C, 0x62]
      else if c = 0x09 then [0x5C, 0x74]
      else if c = 0x0A then [0x5C, 0x6E]
      else if c = 0x0C then [0x5C, 0x66]
      else if c = 0x0D then [0x5C, 0x72]
      else if c = 0x22 then [0x5C, 0x22]
      else if c = 0x5C then [0x5C, 0x5C]
      else if c < 0x20 then unicode_escape c
      else [c])"

definition leading_surrogate :: "16 word \<Rightarrow> bool" where
  "leading_surrogate c \<longleftrightarrow> 0xD800 \<le> c \<and> c \<le> 0xDBFF"

definition trailing_surrogate :: "16 word \<Rightarrow> bool" where
  "trailing_surrogate c \<longleftrightarrow> 0xDC00 \<le> c \<and> c \<le> 0xDFFF"

fun quote_units :: "jsstring \<Rightarrow> jsstring" where
  "quote_units [] = []"
| "quote_units [c] =
     (if leading_surrogate c \<or> trailing_surrogate c then unicode_escape c
      else escape_unit c)"
| "quote_units (c # d # rest) =
     (if leading_surrogate c \<and> trailing_surrogate d then c # d # quote_units rest
      else if leading_surrogate c \<or> trailing_surrogate c
      then unicode_escape c @ quote_units (d # rest)
      else escape_unit c @ quote_units (d # rest))"

definition quoteJSONString :: "jsstring \<Rightarrow> jsstring" where
  "quoteJSONString s = [0x22] @ quote_units s @ [0x22]"

definition serialize :: "jsval \<Rightarrow> jsstring option" where
  "serialize v =
     (case v of
        Undefined \<Rightarrow> None
      | Str s \<Rightarrow> Some (quoteJSONString s)
      | other \<Rightarrow> Some (toString other))"

text \<open>
  \<open>JSON.stringify(value, replacer)\<close> with an array as replacer: the array, without
  repetitions, is the list of properties that are written, in its order.
  \<open>JSON.stringify(value)\<close> writes the properties in the order of the object, which for
  names that are not array indices is the order of insertion.
\<close>

definition property_list :: "string list \<Rightarrow> string list" where
  "property_list replacer = foldl (\<lambda>acc k. if k \<in> set acc then acc else acc @ [k]) [] replacer"

definition member :: "(string \<times> jsval) list \<Rightarrow> string \<Rightarrow> jsstring option" where
  "member obj k =
     (case map_of obj k of
        None \<Rightarrow> None
      | Some v \<Rightarrow>
          (case serialize v of
             None \<Rightarrow> None
           | Some t \<Rightarrow> Some (quoteJSONString (ascii k) @ ascii '':'' @ t)))"

definition stringify :: "(string \<times> jsval) list \<Rightarrow> string list \<Rightarrow> jsstring" where
  "stringify obj replacer =
     ascii ''{'' @ join_comma (List.map_filter (member obj) (property_list replacer))
     @ ascii ''}''"

definition stringify_plain :: "(string \<times> jsval) list \<Rightarrow> jsstring" where
  "stringify_plain obj = stringify obj (map fst obj)"

text \<open>
  The body of the \<open>try\<close> of \<open>generateHashedFingerprint\<close> once the signals are there:
  \<^verbatim>\<open>JSON.stringify(signals, Object.keys(signals).sort())\<close>, then \<open>sha256Hash\<close>. The default
  \<open>sort\<close> orders strings by their code units.
\<close>

definition canonical_string :: "(string \<times> jsval) list \<Rightarrow> jsstring" where
  "canonical_string signals = stringify signals (sort (map fst signals))"

definition hashed_signals :: "env \<Rightarrow> (string \<times> jsval) list \<Rightarrow> string" where
  "hashed_signals e signals = sha256Hash (crypto_digest e) (canonical_string signals)"

text \<open>
  The canonical encoding as the specification words it: a JSON-like serialization of the
  Signal Set "with map keys sorted ascending by key name". \<open>members_in_order\<close> writes
  the members of an ordered mapping in the order they have, each as JSON writes it, and
  \<open>spec_canonical_string\<close> sorts them by key first. They are compared with
  \<open>canonical_string\<close> and \<open>stringify_plain\<close> of the source below.
\<close>

definition spec_member :: "string \<times> jsval \<Rightarrow> jsstring option" where
  "spec_member kv =
     (case serialize (snd kv) of
        None \<Rightarrow> None
      | Some t \<Rightarrow> Some (quoteJSONString (ascii (fst kv)) @ ascii '':'' @ t))"

definition members_in_order :: "(string \<times> jsval) list \<Rightarrow> jsstring" where
  "members_in_order ps = ascii ''{'' @ join_comma (List.map_filter spec_member ps) @ ascii ''}''"

definition spec_canonical_string :: "(string \<times> jsval) list \<Rightarrow> jsstring" where
  "spec_canonical_string S = members_in_order (sort_key fst S)"

definition minimalSignals :: "env \<Rightarrow> (string \<times> jsval) list probe" where
  "minimalSignals e = object_literal
     [(''userAgent'', or_default (nav_userAgent e) (Str [])),
      (''language'', or_default (nav_language e) (Str [])),
      (''platform'', or_default (nav_platform e) (Str [])),
      (''screenWidth'', or_default (screen_width e) (Num 0)),
      (''screenHeight'', or_default (screen_height e) (Num 0)),
      (''timezone'', date_timezoneOffset e)]"

text \<open>
  The end of the \<open>catch\<close> branch:
  \<^verbatim>\<open>const fallbackString = JSON.stringify(minimalSignals); return fallbackHash(fallbackString);\<close>
\<close>

definition minimal_fingerprint :: "(string \<times> jsval) list \<Rightarrow> string" where
  "minimal_fingerprint minimal = fallbackHash (stringify_plain minimal)"

text \<open>The reads of the \<open>catch\<close> branch: does one of them throw?\<close>

definition minimal_read_throws :: "env \<Rightarrow> bool" where
  "minimal_read_throws e \<longleftrightarrow>
     nav_userAgent e = Throws \<or> nav_language e = Throws \<or> nav_platform e = Throws
     \<or> screen_width e = Throws \<or> screen_height e = Throws
     \<or> date_timezoneOffset e = Throws"

text \<open>
  \<open>generateHashedFingerprint()\<close>. Inside the \<open>try\<close> only \<open>collectSignals\<close> can throw;
  the \<open>catch\<close> reads the minimal signals, with no guard of its own.
\<close>

definition generateHashedFingerprint :: "env \<Rightarrow> string probe" where
  "generateHashedFingerprint e =
     (case collectSignals e of
        Gives signals \<Rightarrow> Gives (hashed_signals e signals)
      | Throws \<Rightarrow>
          (case minimalSignals e of
             Throws \<Rightarrow> Throws
           | Gives minimal \<Rightarrow> Gives (minimal_fingerprint minimal)))"

text \<open>\<open>generateFingerprint()\<close> of site/js/voting.js: six components, no guard.\<close>

definition screenResolution :: "env \<Rightarrow> jsval probe" where
  "screenResolution e =
     (case screen_width e of
        Throws \<Rightarrow> Throws
      | Gives w \<Rightarrow>
          (case screen_height e of
             Throws \<Rightarrow> Throws
           | Gives h \<Rightarrow> Gives (Str (toString w @ ascii ''x'' @ toString h))))"

definition components :: "env \<Rightarrow> (string \<times> jsval) list probe" where
  "components e = object_literal
     [(''userAgent'', nav_userAgent e),
      (''language'', nav_language e),
      (''platform'', nav_platform e),
      (''screenResolution'', screenResolution e),
      (''timezone'', intl_timeZone e),
      (''cpuCores'', or_default (nav_hardwareConcurrency e) (Str (ascii ''unknown'')))]"

definition generateFingerprint :: "env \<Rightarrow> string probe" where
  "generateFingerprint e =
     (case components e of
        Throws \<Rightarrow> Throws
      | Gives c \<Rightarrow>
          (case crypto_digest e (stringify_plain c) of
             Throws \<Rightarrow> Throws
           | Gives hashArray \<Rightarrow> Gives (hexOfBytes hashArray)))"

text \<open>A desktop browser, for concrete runs; the digest is left unavailable.\<close>

definition sample_env :: env where
  "sample_env =
     \<lparr>nav_userAgent = Gives (Str (ascii ''UA1'')),
      nav_language = Gives (Str (ascii ''en'')),
      nav_languages = Gives (Some [ascii ''en'', ascii ''fr'']),
      nav_platform = Gives (Str (ascii ''Linux'')),
      nav_hardwareConcurrency = Gives (Num 8),
      nav_deviceMemory = Gives Undefined,
      nav_maxTouchPoints = Gives (Num 0),
      screen_width = Gives (Num 1920),
      screen_height = Gives (Num 1080),
      screen_colorDepth = Gives (Num 24),
      screen_pixelDepth = Gives (Num 24),
      screen_availWidth = Gives (Num 1920),
      screen_availHeight = Gives (Num 1040),
      intl_timeZone = Gives (Str (ascii ''UTC'')),
      date_timezoneOffset = Gives (Num 0),
      nav_cookieEnabled = Gives (Bool True),
      nav_doNotTrack = Gives Null,
      nav_plugins = Gives (Some []),
      canvas_context2d = Gives False,
      canvas_toDataURL = Throws,
      webgl_context = Throws,
      webgl_debugInfo = Throws,
      webgl_vendor = Throws,
      webgl_renderer = Throws,
      crypto_digest = (\<lambda>message. Throws)\<rparr>"

section \<open>The admin API (admin/js/api.js)\<close>

text \<open>
  What an operation of \<open>AdminAPI\<close> returns: \<open>{ success: true, data }\<close> or
  \<open>{ success: false, error: error.message }\<close>.
\<close>

record result =
  success :: bool
  data :: "row option"
  error :: "string option"

definition val_truthy :: "val \<Rightarrow> bool" where
  "val_truthy v =
     (case v of VNull \<Rightarrow> False | VBool b \<Rightarrow> b | VNum n \<Rightarrow> n \<noteq> 0
      | VStr s \<Rightarrow> s \<noteq> [] | VTime t \<Rightarrow> True)"

text \<open>
  The row that \<open>createElection(electionData)\<close> hands to \<open>insert\<close>:
  \<^verbatim>\<open>{ title: electionData.title, description: electionData.description || null, is_open: false }\<close>.
  A title that is \<open>undefined\<close> is not sent.
\<close>

definition new_election :: "row \<Rightarrow> row" where
  "new_election electionData =
     (case column electionData ''title'' of Some t \<Rightarrow> [(''title'', t)] | None \<Rightarrow> [])
     @ [(''description'',
         (case column electionData ''description'' of
            Some d \<Rightarrow> if val_truthy d then d else VNull
          | None \<Rightarrow> VNull)),
        (''is_open'', VBool False)]"

text \<open>
  The client library is a parameter: \<open>insert_row\<close> stands for
  \<^verbatim>\<open>supabase.from(table).insert([row]).select().single()\<close> and \<open>update_rows\<close> for
  \<^verbatim>\<open>supabase.from(table).update(changes).eq(column, value).select().single()\<close>. Each gives
  the row as \<open>data\<close>, or the message of the \<open>error\<close> it reports or throws.
\<close>

definition reply :: "(string + row) \<times> 'db \<Rightarrow> result \<times> 'db" where
  "reply r =
     (case fst r of
        Inl msg \<Rightarrow> (\<lparr>success = False, data = None, error = Some msg\<rparr>, snd r)
      | Inr row \<Rightarrow> (\<lparr>success = True, data = Some row, error = None\<rparr>, snd r))"

definition createElection ::
  "(string \<Rightarrow> row \<Rightarrow> 'db \<Rightarrow> (string + row) \<times> 'db) \<Rightarrow> row \<Rightarrow> 'db \<Rightarrow> result \<times> 'db" where
  "createElection insert_row electionData db =
     reply (insert_row ''elections'' (new_election electionData) db)"

definition toggleElectionStatus ::
  "(string \<Rightarrow> row \<Rightarrow> string \<times> val \<Rightarrow> 'db \<Rightarrow> (string + row) \<times> 'db)
     \<Rightarrow> val \<Rightarrow> val \<Rightarrow> 'db \<Rightarrow> result \<times> 'db" where
  "toggleElectionStatus update_rows electionId isOpen db =
     reply (update_rows ''elections'' [(''is_open'', isOpen)] (''id'', electionId) db)"

text \<open>
  Modelled from the spec: the table of elections is kept by the persistence service,
  which is not part of the sources. An insert stores the row it is given under a fresh
  id and returns it; an update changes the named columns of the rows that match and
  returns the row if it is the only one (\<open>single()\<close>).
\<close>

record admin_db =
  elections :: "row list"
  election_seq :: int

text \<open>Modelled from the spec: the insert of the persistence service.\<close>

definition table_insert :: "string \<Rightarrow> row \<Rightarrow> admin_db \<Rightarrow> (string + row) \<times> admin_db" where
  "table_insert table r db =
     (if table = ''elections''
      then (Inr ((''id'', VNum (election_seq db)) # r),
            db\<lparr>elections := elections db @ [(''id'', VNum (election_seq db)) # r],
               election_seq := election_seq db + 1\<rparr>)
      else (Inl ''relation does not exist'', db))"

definition set_columns :: "row \<Rightarrow> row \<Rightarrow> row" where
  "set_columns changes r =
     map (\<lambda>kv. (fst kv, case map_of changes (fst kv) of Some v \<Rightarrow> v | None \<Rightarrow> snd kv)) r
     @ filter (\<lambda>kv. map_of r (fst kv) = None) changes"

text \<open>Modelled from the spec: the update of the persistence service.\<close>

definition table_update ::
  "string \<Rightarrow> row \<Rightarrow> string \<times> val \<Rightarrow> admin_db \<Rightarrow> (string + row) \<times> admin_db" where
  "table_update table changes cond db =
     (if table = ''elections''
      then (let hit = (\<lambda>r. column r (fst cond) = Some (snd cond));
                rows = map (\<lambda>r. if hit r then set_columns changes r else r) (elections db)
            in ((case filter hit (elections db) of
                   [r] \<Rightarrow> Inr (set_columns changes r)
                 | other \<Rightarrow> Inl ''JSON object requested, multiple (or no) rows returned''),
                db\<lparr>elections := rows\<rparr>))
      else (Inl ''relation does not exist'', db))"

text \<open>
  A store that serves a second election while a device is registered in the first.
\<close>

definition second_election_store :: store where
  "second_election_store =
     empty_store\<lparr>voters := [[(''id'', VNum 1), (''fingerprint'', VStr ''abc''),
                              (''created_at'', VTime 0), (''election_id'', VNum 1)]],
                 next_id := 2, current_election := Some (VNum 2)\<rparr>"

section \<open>Properties\<close>

subsection \<open>The retry ceiling\<close>

lemma fetchWithRetry_last:
  assumes "retryCount = MAX_RETRIES"
  shows "fetchWithRetry fetch req retryCount st
         = (final (fst (fetch req (world st))), st\<lparr>world := snd (fetch req (world st))\<rparr>)"
  using assms
  by (subst fetchWithRetry.simps) (simp add: final_def Let_def split: outcome.splits)

lemma fetchWithRetry_again:
  assumes "retryCount < MAX_RETRIES" "retried (fst (fetch req (world st)))"
  shows "fetchWithRetry fetch req retryCount st
         = fetchWithRetry fetch req (Suc retryCount)
             (sleep (RETRY_DELAY * 2 ^ retryCount) (st\<lparr>world := snd (fetch req (world st))\<rparr>))"
  using assms
  by (subst fetchWithRetry.simps) (auto simp add: retried_def Let_def split: outcome.splits)

lemma fetchWithRetry_exhaust:
  assumes "\<forall>n. retried (script n)"
  shows "k = MAX_RETRIES - retryCount \<Longrightarrow> retryCount \<le> MAX_RETRIES \<Longrightarrow>
    fst (fetchWithRetry (scripted script) req retryCount st) = final (script (world st + k))
    \<and> world (snd (fetchWithRetry (scripted script) req retryCount st)) = world st + k + 1
    \<and> slept (snd (fetchWithRetry (scripted script) req retryCount st))
        = slept st @ map (\<lambda>attempt. RETRY_DELAY * 2 ^ attempt) [retryCount..<MAX_RETRIES]"
proof (induction k arbitrary: retryCount st)
  case 0
  then have "retryCount = MAX_RETRIES" by simp
  then show ?case by (simp add: fetchWithRetry_last scripted_def)
next
  case (Suc k)
  then have lt: "retryCount < MAX_RETRIES" and k: "k = MAX_RETRIES - Suc retryCount"
    and le: "Suc retryCount \<le> MAX_RETRIES" by simp_all
  have r: "retried (fst (scripted script req (world st)))"
    using assms by (simp add: scripted_def)
  note ih = Suc.IH [OF k le, of "sleep (RETRY_DELAY * 2 ^ retryCount) (st\<lparr>world := snd (scripted script req (world st))\<rparr>)"]
  note step = fetchWithRetry_again [of retryCount "scripted script" req st, OF lt r]
  have w: "world (sleep (RETRY_DELAY * 2 ^ retryCount) (st\<lparr>world := snd (scripted script req (world st))\<rparr>)) = Suc (world st)"
    and sl: "slept (sleep (RETRY_DELAY * 2 ^ retryCount) (st\<lparr>world := snd (scripted script req (world st))\<rparr>)) = slept st @ [RETRY_DELAY * 2 ^ retryCount]"
    by (simp_all add: sleep_def scripted_def)
  show ?case
    unfolding step using ih lt by (simp add: w sl upt_conv_Cons)
qed

lemma fetchWithRetry_client_error:
  assumes "fst (fetch req (world st)) = Responded r" "400 \<le> status r" "status r < 500" "status r \<noteq> 429"
  shows "fetchWithRetry fetch req retryCount st = (Inr r, st\<lparr>world := snd (fetch req (world st))\<rparr>)"
  using assms by (subst fetchWithRetry.simps) (simp add: Let_def)

text \<open>
  C5. Against a server that answers every request with 503 or not at all,
  \<open>fetchWithRetry\<close> sends \<open>MAX_RETRIES + 1 = 4\<close> requests, sleeps
  \<open>RETRY_DELAY * 2 ^ attempt\<close> before each retry (1000, 2000 and 4000 ms) and ends with
  what the last attempt gave: the 503 response returned, or the rejection thrown. A first
  answer with a status in [400, 500) other than 429 is returned after that one request.
\<close>

theorem fetchWithRetry_retry_ceiling:
  "((\<forall>n. script n = Rejected \<or> (\<exists>r. script n = Responded r \<and> status r = 503)) \<longrightarrow>
      world (snd (fetchWithRetry (scripted script) req 0 st)) = world st + (MAX_RETRIES + 1)
      \<and> MAX_RETRIES + 1 = 4
      \<and> slept (snd (fetchWithRetry (scripted script) req 0 st))
          = slept st @ map (\<lambda>attempt. RETRY_DELAY * 2 ^ attempt) [0..<MAX_RETRIES]
      \<and> map (\<lambda>attempt. RETRY_DELAY * 2 ^ attempt) [0..<MAX_RETRIES] = [1000, 2000, 4000]
      \<and> fst (fetchWithRetry (scripted script) req 0 st)
          = (case script (world st + MAX_RETRIES) of
               Rejected \<Rightarrow> Inl FetchRejected | Responded r \<Rightarrow> Inr r))
   \<and> ((\<exists>r. script (world st) = Responded r
          \<and> 400 \<le> status r \<and> status r < 500 \<and> status r \<noteq> 429) \<longrightarrow>
      fetchWithRetry (scripted script) req 0 st
        = (final (script (world st)), st\<lparr>world := world st + 1\<rparr>))"
proof (intro conjI impI)
  assume a: "\<forall>n. script n = Rejected \<or> (\<exists>r. script n = Responded r \<and> status r = 503)"
  have "\<forall>n. retried (script n)"
  proof
    fix n show "retried (script n)" using a [rule_format, of n]
      by (auto simp: retried_def ok_def)
  qed
  note ex = fetchWithRetry_exhaust [OF this, of MAX_RETRIES 0 req st, simplified]
  show "world (snd (fetchWithRetry (scripted script) req 0 st)) = world st + (MAX_RETRIES + 1)"
    using ex by simp
  show "slept (snd (fetchWithRetry (scripted script) req 0 st))
          = slept st @ map (\<lambda>attempt. RETRY_DELAY * 2 ^ attempt) [0..<MAX_RETRIES]"
    using ex by simp
  show "fst (fetchWithRetry (scripted script) req 0 st)
          = (case script (world st + MAX_RETRIES) of
               Rejected \<Rightarrow> Inl FetchRejected | Responded r \<Rightarrow> Inr r)"
    using ex by (simp add: final_def)
next
  show "MAX_RETRIES + 1 = 4" by (simp add: MAX_RETRIES_def)
  show "map (\<lambda>attempt. RETRY_DELAY * 2 ^ attempt) [0..<MAX_RETRIES] = [1000, 2000, 4000]"
    by (simp add: MAX_RETRIES_def RETRY_DELAY_def upt_conv_Cons)
next
  assume "\<exists>r. script (world st) = Responded r
          \<and> 400 \<le> status r \<and> status r < 500 \<and> status r \<noteq> 429"
  then obtain r where r: "script (world st) = Responded r" "400 \<le> status r" "status r < 500" "status r \<noteq> 429"
    by blast
  then have "fst (scripted script req (world st)) = Responded r" by (simp add: scripted_def)
  from fetchWithRetry_client_error [of "scripted script" req st r 0, OF this r(2-4)] r(1)
  show "fetchWithRetry (scripted script) req 0 st
        = (final (script (world st)), st\<lparr>world := world st + 1\<rparr>)"
    by (simp add: scripted_def final_def)
qed

theorem fetchWithRetry_retry_ceiling_witness:
  "world (snd (fetchWithRetry (scripted (\<lambda>n. respond 503 Unparsable))
                 (Get ''candidates'' []) 0 (module_state False 0 0))) = 4
   \<and> slept (snd (fetchWithRetry (scripted (\<lambda>n. respond 503 Unparsable))
                 (Get ''candidates'' []) 0 (module_state False 0 0))) = [1000, 2000, 4000]
   \<and> fst (fetchWithRetry (scripted (\<lambda>n. respond 503 Unparsable))
                 (Get ''candidates'' []) 0 (module_state False 0 0))
       = Inr \<lparr>status = 503, body = Unparsable\<rparr>
   \<and> fetchWithRetry (scripted (\<lambda>n. respond 422 Unparsable))
                 (Get ''candidates'' []) 0 (module_state False 0 0)
       = (Inr \<lparr>status = 422, body = Unparsable\<rparr>, module_state False 1 0)"
proof -
  have a: "\<forall>n. (\<lambda>n. respond 503 Unparsable) n = Rejected
             \<or> (\<exists>r. (\<lambda>n. respond 503 Unparsable) n = Responded r \<and> status r = 503)"
    by (simp add: respond_def)
  have b: "\<exists>r. (\<lambda>n. respond 422 Unparsable) (world (module_state False (0 :: nat) 0)) = Responded r
             \<and> 400 \<le> status r \<and> status r < 500 \<and> status r \<noteq> 429"
    by (simp add: respond_def)
  note t1 = fetchWithRetry_retry_ceiling
    [where script = "\<lambda>n. respond 503 Unparsable" and st = "module_state False 0 0"
       and req = "Get ''candidates'' []",
      THEN conjunct1, THEN mp, OF a]
  note t2 = fetchWithRetry_retry_ceiling
    [where script = "\<lambda>n. respond 422 Unparsable" and st = "module_state False 0 0"
       and req = "Get ''candidates'' []",
      THEN conjunct2, THEN mp, OF b]
  from t1 t2 show ?thesis
    by (simp add: module_state_def respond_def final_def MAX_RETRIES_def)
qed

subsection \<open>Requests against the store\<close>

lemma fetchWithRetry_ok:
  assumes "fst (fetch req (world st)) = Responded r" "ok r"
  shows "fetchWithRetry fetch req retryCount st = (Inr r, st\<lparr>world := snd (fetch req (world st))\<rparr>)"
  using assms by (subst fetchWithRetry.simps) (simp add: Let_def)

lemma matches_fingerprint:
  "matches [(''fingerprint'', CHR ''e'' # CHR ''q'' # CHR ''.'' # f), (''select'', ''*'')]
   = (\<lambda>r. column r ''fingerprint'' = Some (VStr f))"
  by (rule ext) (simp add: matches_def)

lemma filter_empty_list_ex: "\<not> list_ex P xs \<Longrightarrow> filter P xs = []"
  by (induction xs) auto

lemma map_of_voter_row:
  "map_of (voter_row s f) ''fingerprint'' = Some (VStr f)"
  "map_of (voter_row s f) ''election_id'' = current_election s"
  "map_of (voter_row s f) ''id'' = Some (VNum (next_id s))"
  by (simp_all add: voter_row_def split: option.splits)

subsection \<open>A racing insert\<close>

lemma ensureVoter_racing_conflict:
  assumes "\<not> MOCK_MODE st"
    and "world st = ((s, [[], [Post ''voters'' [(''fingerprint'', VStr f)]]]), log)"
    and "\<not> list_ex (\<lambda>v. column v ''fingerprint'' = Some (VStr f)) (voters s)"
  shows "ensureVoter (recording (racing store_fetch)) f st
         = (Inl (Api (ApiError ''You have already voted'' 409 ALREADY_VOTED)),
            st\<lparr>world := ((s\<lparr>voters := voters s @ [voter_row s f], next_id := next_id s + 1\<rparr>, []),
                 log @ [Get ''voters'' [(''fingerprint'', ''eq.'' @ f), (''select'', ''*'')],
                        Post ''voters'' [(''fingerprint'', VStr f)]])\<rparr>)"
proof -
  let ?get = "Get ''voters'' [(''fingerprint'', ''eq.'' @ f), (''select'', ''*'')]"
  let ?post = "Post ''voters'' [(''fingerprint'', VStr f)]"
  let ?row = "voter_row s f"
  let ?s1 = "s\<lparr>voters := voters s @ [?row], next_id := next_id s + 1\<rparr>"
  let ?st1 = "st\<lparr>world := ((s, [[?post]]), log @ [?get])\<rparr>"
  let ?fetch = "recording (racing store_fetch)"
  have g: "?fetch ?get (world st) = (respond 200 (Rows []), ((s, [[?post]]), log @ [?get]))"
    using assms(2,3)
    by (simp add: recording_def racing_def store_fetch_def filter_empty_list_ex Let_def
        matches_fingerprint)
  have get: "fetchWithRetry ?fetch ?get 0 st = (Inr \<lparr>status = 200, body = Rows []\<rparr>, ?st1)"
    by (subst fetchWithRetry_ok [where r = "\<lparr>status = 200, body = Rows []\<rparr>"])
       (insert g, simp_all add: respond_def ok_def)
  have rival: "store_fetch ?post s = (respond 201 (Rows [?row]), ?s1)"
    using assms(3) by (auto simp: store_fetch_def insert_voter_def column_def list_ex_iff)
  have ours: "store_fetch ?post ?s1 = (conflict, ?s1)"
    by (simp add: store_fetch_def insert_voter_def column_def map_of_voter_row)
  have p: "?fetch ?post (world ?st1) = (conflict, ((?s1, []), log @ [?get, ?post]))"
    by (simp add: recording_def racing_def rival ours Let_def)
  have post: "fetchWithRetry ?fetch ?post 0 ?st1
              = (Inr \<lparr>status = 409, body = ErrorObject (Some ''duplicate key value violates unique constraint'')\<rparr>, st\<lparr>world := ((?s1, []), log @ [?get, ?post])\<rparr>)"
    by (subst fetchWithRetry_client_error [where r = "\<lparr>status = 409, body = ErrorObject (Some ''duplicate key value violates unique constraint'')\<rparr>"])
       (insert p, simp_all add: conflict_def respond_def)
  have ex: "existing_voter \<lparr>status = 200, body = Rows []\<rparr> = Inr None"
    by (simp add: existing_voter_def ok_def json_def length_gt0_def)
  have cr: "created_row \<lparr>status = 409, body = ErrorObject (Some ''duplicate key value violates unique constraint'')\<rparr>
            = Inl (Api (ApiError ''You have already voted'' 409 ALREADY_VOTED))"
    by (simp add: created_row_def ok_def error_of_def mapError_def)
  show ?thesis
    using assms(1) get post by (simp add: ensureVoter_def ensureVoter_try_def ex cr catch_rethrow_def)
qed

text \<open>
  C1, as the code has it. When a rival session inserts the same fingerprint between the
  GET and the POST of \<open>ensureVoter\<close>, the POST is answered 409 and \<open>ensureVoter\<close>
  throws the \<open>ApiError\<close> that \<open>mapError\<close> makes of it, \<open>ALREADY_VOTED\<close>. It sends the
  two requests and no third: the store is not read again, and the row of the rival is not
  returned.
\<close>

theorem ensureVoter_conflict_is_thrown:
  assumes "\<not> MOCK_MODE st"
    and "world st = ((s, [[], [Post ''voters'' [(''fingerprint'', VStr f)]]]), log)"
    and "\<not> list_ex (\<lambda>v. column v ''fingerprint'' = Some (VStr f)) (voters s)"
  shows "ensureVoter (recording (racing store_fetch)) f st
         = (Inl (Api (ApiError ''You have already voted'' 409 ALREADY_VOTED)),
            st\<lparr>world := ((s\<lparr>voters := voters s @ [voter_row s f],
                              next_id := next_id s + 1\<rparr>, []),
                 log @ [Get ''voters'' [(''fingerprint'', ''eq.'' @ f), (''select'', ''*'')],
                        Post ''voters'' [(''fingerprint'', VStr f)]])\<rparr>)"
  using assms by (rule ensureVoter_racing_conflict)

theorem ensureVoter_conflict_is_thrown_witness:
  "\<not> MOCK_MODE (module_state False
        ((empty_store\<lparr>voters := [voter_row empty_store ''f1''], next_id := 2\<rparr>,
          [[], [Post ''voters'' [(''fingerprint'', VStr ''f2'')]]]), []) 0)
   \<and> \<not> list_ex (\<lambda>v. column v ''fingerprint'' = Some (VStr ''f2''))
          [voter_row empty_store ''f1'']
   \<and> fst (ensureVoter (recording (racing store_fetch)) ''f2''
        (module_state False
          ((empty_store\<lparr>voters := [voter_row empty_store ''f1''], next_id := 2\<rparr>,
            [[], [Post ''voters'' [(''fingerprint'', VStr ''f2'')]]]), []) 0))
       = Inl (Api (ApiError ''You have already voted'' 409 ALREADY_VOTED))"
proof -
  let ?s = "empty_store\<lparr>voters := [voter_row empty_store ''f1''], next_id := 2\<rparr>"
  let ?st = "module_state False
               ((?s, [[], [Post ''voters'' [(''fingerprint'', VStr ''f2'')]]]), []) 0"
  have 1: "\<not> MOCK_MODE ?st" by (simp add: module_state_def)
  have 2: "world ?st = ((?s, [[], [Post ''voters'' [(''fingerprint'', VStr ''f2'')]]]), [])"
    by (simp add: module_state_def)
  have 3: "\<not> list_ex (\<lambda>v. column v ''fingerprint'' = Some (VStr ''f2'')) (voters ?s)"
    by (simp add: voter_row_def column_def)
  from ensureVoter_conflict_is_thrown [OF 1 2 3] 1 3 show ?thesis by simp
qed

theorem ensureVoter_reconcile_counterexample:
  "fst (ensureVoter (recording (racing store_fetch)) ''abc''
          (module_state False
             ((empty_store, [[], [Post ''voters'' [(''fingerprint'', VStr ''abc'')]]]), []) 0))
     = Inl (Api (ApiError ''You have already voted'' 409 ALREADY_VOTED))
   \<and> fst (ensureVoter (recording (racing store_fetch)) ''abc''
          (module_state False
             ((empty_store, [[], [Post ''voters'' [(''fingerprint'', VStr ''abc'')]]]), []) 0))
     \<noteq> Inr (Some [(''id'', VNum 1), (''fingerprint'', VStr ''abc''), (''created_at'', VTime 0)])
   \<and> world (snd (ensureVoter (recording (racing store_fetch)) ''abc''
          (module_state False
             ((empty_store, [[], [Post ''voters'' [(''fingerprint'', VStr ''abc'')]]]), []) 0)))
     = ((empty_store\<lparr>voters := [[(''id'', VNum 1), (''fingerprint'', VStr ''abc''),
                                   (''created_at'', VTime 0)]], next_id := 2\<rparr>, []),
        [Get ''voters'' [(''fingerprint'', ''eq.abc''), (''select'', ''*'')],
         Post ''voters'' [(''fingerprint'', VStr ''abc'')]])"
  using ensureVoter_racing_conflict
    [of "module_state False
           ((empty_store, [[], [Post ''voters'' [(''fingerprint'', VStr ''abc'')]]]), []) 0"
        empty_store "''abc''" "[]"]
  by (simp add: module_state_def empty_store_def voter_row_def)

subsection \<open>Registering twice\<close>

lemma store_get_voters:
  "store_fetch (Get ''voters'' [(''fingerprint'', ''eq.'' @ f), (''select'', ''*'')]) s
   = (respond 200 (Rows (voters_with f s)), s)"
  by (simp add: store_fetch_def matches_fingerprint voters_with_def)

lemma get_voters:
  "fetchWithRetry store_fetch (Get ''voters'' [(''fingerprint'', ''eq.'' @ f), (''select'', ''*'')]) 0 st
   = (Inr \<lparr>status = 200, body = Rows (voters_with f (world st))\<rparr>, st)"
  by (subst fetchWithRetry_ok [where r = "\<lparr>status = 200, body = Rows (voters_with f (world st))\<rparr>"])
     (insert store_get_voters [of f "world st"], simp_all add: respond_def ok_def)

lemma existing_voter_rows:
  "existing_voter \<lparr>status = 200, body = Rows xs\<rparr>
   = Inr (case xs of [] \<Rightarrow> None | x # rest \<Rightarrow> Some (Some x))"
  by (simp add: existing_voter_def ok_def json_def length_gt0_def element0_def split: list.splits)

lemma ensureVoter_found:
  assumes "\<not> MOCK_MODE st" "voters_with f (world st) = v # rest"
  shows "ensureVoter store_fetch f st = (Inr (Some v), st)"
  using assms get_voters [of f st]
  by (simp add: ensureVoter_def ensureVoter_try_def existing_voter_rows catch_rethrow_def)

lemma store_post_voter:
  assumes "voters_with f s = []"
  shows "store_fetch (Post ''voters'' [(''fingerprint'', VStr f)]) s
         = (respond 201 (Rows [voter_row s f]),
            s\<lparr>voters := voters s @ [voter_row s f], next_id := next_id s + 1\<rparr>)"
proof -
  have "\<not> list_ex (\<lambda>v. column v ''fingerprint'' = Some (VStr f)) (voters s)"
    using assms unfolding voters_with_def by (induction "voters s") (auto simp: filter_empty_conv list_ex_iff)
  then show ?thesis
    by (auto simp: store_fetch_def insert_voter_def column_def list_ex_iff)
qed

lemma ensureVoter_created:
  assumes "\<not> MOCK_MODE st" "voters_with f (world st) = []"
  shows "ensureVoter store_fetch f st
         = (Inr (Some (voter_row (world st) f)),
            st\<lparr>world := (world st)\<lparr>voters := voters (world st) @ [voter_row (world st) f],
                                    next_id := next_id (world st) + 1\<rparr>\<rparr>)"
proof -
  let ?post = "Post ''voters'' [(''fingerprint'', VStr f)]"
  let ?r = "\<lparr>status = 201, body = Rows [voter_row (world st) f]\<rparr>"
  have post: "fetchWithRetry store_fetch ?post 0 st
        = (Inr ?r, st\<lparr>world := (world st)\<lparr>voters := voters (world st) @ [voter_row (world st) f],
                                    next_id := next_id (world st) + 1\<rparr>\<rparr>)"
    by (subst fetchWithRetry_ok [where r = ?r])
       (insert store_post_voter [OF assms(2)], simp_all add: respond_def ok_def)
  have cr: "created_row ?r = Inr (Some (voter_row (world st) f))"
    by (simp add: created_row_def ok_def json_def element0_def)
  show ?thesis
    using assms get_voters [of f st]
    by (simp add: ensureVoter_def ensureVoter_try_def existing_voter_rows post cr catch_rethrow_def)
qed

lemma voters_with_append:
  "voters_with f (s\<lparr>voters := voters s @ [voter_row s f], next_id := n\<rparr>)
   = voters_with f s @ [voter_row s f]"
  by (simp add: voters_with_def column_def map_of_voter_row)

lemma voters_of_append:
  "voters_of (current_election s) f (s\<lparr>voters := voters s @ [voter_row s f], next_id := n\<rparr>)
   = voters_of (current_election s) f s @ [voter_row s f]"
  by (simp add: voters_of_def column_def map_of_voter_row)

lemma voters_of_unique:
  assumes "voters_unique s"
  shows "length (voters_of e f s) \<le> 1"
proof -
  have "distinct (map (\<lambda>v. (column v ''election_id'', column v ''fingerprint'')) xs) \<Longrightarrow>
        length (filter (\<lambda>v. column v ''fingerprint'' = Some (VStr f)
                             \<and> column v ''election_id'' = e) xs) \<le> 1" for xs
  proof (induction xs)
    case Nil
    then show ?case by simp
  next
    case (Cons x xs)
    show ?case
    proof (cases "column x ''fingerprint'' = Some (VStr f) \<and> column x ''election_id'' = e")
      case True
      with Cons.prems have "\<forall>v \<in> set xs. \<not> (column v ''fingerprint'' = Some (VStr f)
                                               \<and> column v ''election_id'' = e)"
        by (auto simp: image_iff)
      then have "filter (\<lambda>v. column v ''fingerprint'' = Some (VStr f)
                             \<and> column v ''election_id'' = e) xs = []"
        by (simp add: filter_empty_conv)
      with True show ?thesis by simp
    next
      case False
      with Cons show ?thesis by auto
    qed
  qed
  with assms show ?thesis by (simp add: voters_unique_def voters_of_def)
qed

lemma voters_of_subset_with: "voters_of e f s = [] \<or> voters_with f s \<noteq> []"
  by (auto simp: voters_of_def voters_with_def filter_empty_conv)

text \<open>
  The store keeps its (election, fingerprint) pairs distinct: it starts so and every
  request leaves it so.
\<close>

lemma voters_unique_empty_store: "voters_unique empty_store"
  by (simp add: voters_unique_def empty_store_def)

lemma insert_voter_keeps_unique:
  assumes "voters_unique s"
  shows "voters_unique (snd (insert_voter r s))"
proof (cases "column r ''fingerprint''")
  case None
  then show ?thesis using assms by (simp add: insert_voter_def)
next
  case (Some x)
  show ?thesis
  proof (cases x)
    case (VStr f)
    have "(current_election s, Some (VStr f))
            \<notin> (\<lambda>v. (column v ''election_id'', column v ''fingerprint'')) ` set (voters s)"
      if "\<not> list_ex (\<lambda>v. column v ''fingerprint'' = Some (VStr f)
                           \<and> column v ''election_id'' = current_election s) (voters s)"
      using that by (auto simp: list_ex_iff)
    then show ?thesis using assms Some VStr
      by (auto simp: insert_voter_def voters_unique_def column_def map_of_voter_row)
  qed (use assms Some in \<open>simp_all add: insert_voter_def\<close>)
qed

lemma store_fetch_keeps_voters_unique:
  assumes "voters_unique s"
  shows "voters_unique (snd (store_fetch req s))"
proof (cases req)
  case (Get resource params)
  then show ?thesis using assms by (simp add: store_fetch_def)
next
  case (Post resource r)
  have w: "voters (snd (insert_vote r s)) = voters s"
    by (simp add: insert_vote_def split: option.splits prod.splits)
  show ?thesis using Post insert_voter_keeps_unique [OF assms, of r] w assms
    by (simp add: store_fetch_def voters_unique_def)
qed

lemma hd_filter: "filter P xs \<noteq> [] \<Longrightarrow> P (hd (filter P xs))"
  by (induction xs) (auto split: if_splits)

text \<open>
  C2, as the code has it. \<open>ensureVoter\<close> takes the fingerprint alone, and the GET it
  sends filters by the fingerprint alone. Against the store, with nobody else writing and
  a fingerprint as the hasher makes it, two calls in sequence return the same Voter row,
  so the same id, and the second call leaves the whole state as it found it. The row is
  the first the store holds with that fingerprint, in whichever election. Only when no
  election has one does the first call insert a row; it belongs to the election the store
  serves and is then the one row of that (election, fingerprint) pair. The store never
  holds two rows for one pair. In mock mode the two Voters have the id \<open>fingerprint\<close>,
  and the second call leaves the set of mock voters, which holds the fingerprint,
  unchanged.
\<close>

theorem ensureVoter_idempotent:
  "(\<not> MOCK_MODE st \<and> voters_unique (world st) \<and> plain_fingerprint f \<longrightarrow>
      (\<exists>voter st1.
         ensureVoter store_fetch f st = (Inr (Some voter), st1)
         \<and> ensureVoter store_fetch f st1 = (Inr (Some voter), st1)
         \<and> column voter ''fingerprint'' = Some (VStr f)
         \<and> voters_with f (world st1) \<noteq> [] \<and> voter = hd (voters_with f (world st1))
         \<and> (voters_with f (world st) \<noteq> [] \<longrightarrow> st1 = st)
         \<and> (voters_with f (world st) = [] \<longrightarrow>
               voters (world st1) = voters (world st) @ [voter]
               \<and> voters_of (current_election (world st)) f (world st1) = [voter])
         \<and> voters_unique (world st1)
         \<and> (\<forall>e. length (voters_of e f (world st1)) \<le> 1)))
   \<and> (MOCK_MODE st \<longrightarrow>
      (\<exists>voter1 voter2 st1 st2.
         ensureVoter store_fetch f st = (Inr (Some voter1), st1)
         \<and> ensureVoter store_fetch f st1 = (Inr (Some voter2), st2)
         \<and> column voter1 ''id'' = Some (VStr f) \<and> column voter2 ''id'' = Some (VStr f)
         \<and> f \<in> mock_voters st1
         \<and> mock_voters st2 = mock_voters st1 \<and> world st2 = world st))"
proof (intro conjI impI)
  assume a: "\<not> MOCK_MODE st \<and> voters_unique (world st) \<and> plain_fingerprint f"
  show "\<exists>voter st1.
         ensureVoter store_fetch f st = (Inr (Some voter), st1)
         \<and> ensureVoter store_fetch f st1 = (Inr (Some voter), st1)
         \<and> column voter ''fingerprint'' = Some (VStr f)
         \<and> voters_with f (world st1) \<noteq> [] \<and> voter = hd (voters_with f (world st1))
         \<and> (voters_with f (world st) \<noteq> [] \<longrightarrow> st1 = st)
         \<and> (voters_with f (world st) = [] \<longrightarrow>
               voters (world st1) = voters (world st) @ [voter]
               \<and> voters_of (current_election (world st)) f (world st1) = [voter])
         \<and> voters_unique (world st1)
         \<and> (\<forall>e. length (voters_of e f (world st1)) \<le> 1)"
  proof (cases "voters_with f (world st)")
    case Nil
    let ?v = "voter_row (world st) f"
    let ?st1 = "st\<lparr>world := (world st)\<lparr>voters := voters (world st) @ [?v],
                                    next_id := next_id (world st) + 1\<rparr>\<rparr>"
    have 1: "ensureVoter store_fetch f st = (Inr (Some ?v), ?st1)"
      using a Nil by (simp add: ensureVoter_created)
    have w: "voters_with f (world ?st1) = [?v]"
      using Nil by (simp add: voters_with_append)
    have 2: "ensureVoter store_fetch f ?st1 = (Inr (Some ?v), ?st1)"
      by (rule ensureVoter_found [where rest = "[]"]) (use a w in simp_all)
    have 3: "column ?v ''fingerprint'' = Some (VStr f)"
      by (simp add: column_def map_of_voter_row)
    have "voters_of (current_election (world st)) f (world st) = []"
      using Nil voters_of_subset_with [of "current_election (world st)" f "world st"] by simp
    then have 4: "voters_of (current_election (world st)) f (world ?st1) = [?v]"
      by (simp add: voters_of_append)
    have "snd (store_fetch (Post ''voters'' [(''fingerprint'', VStr f)]) (world st)) = world ?st1"
      using store_post_voter [OF Nil] by simp
    with store_fetch_keeps_voters_unique [of "world st"] a
    have u: "voters_unique (world ?st1)" by metis
    have 5: "\<forall>e. length (voters_of e f (world ?st1)) \<le> 1"
      using voters_of_unique [OF u] by blast
    have 6: "voters (world ?st1) = voters (world st) @ [?v]" by simp
    from 1 2 3 4 5 6 w u Nil show ?thesis
      by (intro exI [of _ ?v] exI [of _ ?st1]) simp
  next
    case (Cons v rest)
    have 1: "ensureVoter store_fetch f st = (Inr (Some v), st)"
      using a Cons by (simp add: ensureVoter_found)
    have "voters_with f (world st) \<noteq> []" using Cons by simp
    from hd_filter [OF this [unfolded voters_with_def]] Cons
    have 3: "column v ''fingerprint'' = Some (VStr f)" by (simp add: voters_with_def)
    have 5: "\<forall>e. length (voters_of e f (world st)) \<le> 1"
      using voters_of_unique [of "world st"] a by blast
    from 1 3 5 a Cons show ?thesis
      by (intro exI [of _ v] exI [of _ st]) simp
  qed
next
  assume m: "MOCK_MODE st"
  let ?st1 = "(sleep 200 st)\<lparr>mock_voters := insert f (mock_voters st)\<rparr>"
  let ?st2 = "sleep 200 ?st1"
  have 1: "ensureVoter store_fetch f st = (Inr (Some (mock_voter f (sleep 200 st))), ?st1)"
    using m by (auto simp: ensureVoter_def Let_def sleep_def insert_absorb)
  have 2: "ensureVoter store_fetch f ?st1 = (Inr (Some (mock_voter f ?st2)), ?st2)"
    using m by (simp add: ensureVoter_def Let_def sleep_def)
  have 3: "column (mock_voter f x) ''id'' = Some (VStr f)" for x :: "store state"
    by (simp add: mock_voter_def column_def)
  have 4: "f \<in> mock_voters ?st1" "mock_voters ?st2 = mock_voters ?st1" "world ?st2 = world st"
    by (simp_all add: sleep_def)
  from 1 2 3 4 show "\<exists>voter1 voter2 st1 st2.
         ensureVoter store_fetch f st = (Inr (Some voter1), st1)
         \<and> ensureVoter store_fetch f st1 = (Inr (Some voter2), st2)
         \<and> column voter1 ''id'' = Some (VStr f) \<and> column voter2 ''id'' = Some (VStr f)
         \<and> f \<in> mock_voters st1
         \<and> mock_voters st2 = mock_voters st1 \<and> world st2 = world st"
    by blast
qed

theorem ensureVoter_idempotent_witness:
  "\<not> MOCK_MODE (module_state False empty_store 0)
   \<and> voters_unique (world (module_state False empty_store 0))
   \<and> plain_fingerprint ''abc''
   \<and> voters_with ''abc'' (world (module_state False empty_store 0)) = []
   \<and> (\<exists>voter st1.
         ensureVoter store_fetch ''abc'' (module_state False empty_store 0)
           = (Inr (Some voter), st1)
         \<and> ensureVoter store_fetch ''abc'' st1 = (Inr (Some voter), st1)
         \<and> voters (world st1) = [voter]
         \<and> voters_of None ''abc'' (world st1) = [voter])
   \<and> voters_with ''abc'' (world (module_state False second_election_store 0)) \<noteq> []
   \<and> (\<exists>voter.
         ensureVoter store_fetch ''abc'' (module_state False second_election_store 0)
           = (Inr (Some voter), module_state False second_election_store 0))
   \<and> MOCK_MODE (module_state True empty_store 0)
   \<and> (\<exists>voter1 voter2 st1 st2.
         ensureVoter store_fetch ''abc'' (module_state True empty_store 0)
           = (Inr (Some voter1), st1)
         \<and> ensureVoter store_fetch ''abc'' st1 = (Inr (Some voter2), st2)
         \<and> column voter1 ''id'' = column voter2 ''id''
         \<and> mock_voters st2 = mock_voters st1)"
proof -
  let ?e = "module_state False empty_store 0"
  let ?s = "module_state False second_election_store 0"
  have p: "plain_fingerprint ''abc''" by (simp add: plain_fingerprint_def)
  have r: "\<not> MOCK_MODE ?e \<and> voters_unique (world ?e) \<and> plain_fingerprint ''abc''"
    using p by (simp add: module_state_def empty_store_def voters_unique_def)
  have r2: "\<not> MOCK_MODE ?s \<and> voters_unique (world ?s) \<and> plain_fingerprint ''abc''"
    using p by (simp add: module_state_def second_election_store_def empty_store_def
        voters_unique_def)
  have m: "MOCK_MODE (module_state True empty_store 0)"
    by (simp add: module_state_def)
  have n: "voters_with ''abc'' (world ?e) = []"
    by (simp add: voters_with_def module_state_def empty_store_def)
  have n2: "voters_with ''abc'' (world ?s) \<noteq> []"
    by (simp add: voters_with_def module_state_def second_election_store_def empty_store_def
        column_def)
  have c: "current_election (world ?e) = None" "voters (world ?e) = []"
    by (simp_all add: module_state_def empty_store_def)
  note real = ensureVoter_idempotent
    [where st = ?e and f = "''abc''", THEN conjunct1, THEN mp, OF r]
  note real2 = ensureVoter_idempotent
    [where st = ?s and f = "''abc''", THEN conjunct1, THEN mp, OF r2]
  note mock = ensureVoter_idempotent
    [where st = "module_state True empty_store 0" and f = "''abc''",
      THEN conjunct2, THEN mp, OF m]
  from real n c have 1: "\<exists>voter st1.
         ensureVoter store_fetch ''abc'' ?e = (Inr (Some voter), st1)
         \<and> ensureVoter store_fetch ''abc'' st1 = (Inr (Some voter), st1)
         \<and> voters (world st1) = [voter]
         \<and> voters_of None ''abc'' (world st1) = [voter]"
    by (elim exE conjE) (intro exI conjI, assumption, assumption, simp_all)
  from real2 n2 have 2: "\<exists>voter. ensureVoter store_fetch ''abc'' ?s = (Inr (Some voter), ?s)"
    by (elim exE conjE) auto
  from mock have 3: "\<exists>voter1 voter2 st1 st2.
         ensureVoter store_fetch ''abc'' (module_state True empty_store 0)
           = (Inr (Some voter1), st1)
         \<and> ensureVoter store_fetch ''abc'' st1 = (Inr (Some voter2), st2)
         \<and> column voter1 ''id'' = column voter2 ''id''
         \<and> mock_voters st2 = mock_voters st1"
    by metis
  from r n 1 n2 2 m 3 show ?thesis by blast
qed

theorem ensureVoter_per_election_counterexample:
  "ensureVoter store_fetch ''abc'' (module_state False second_election_store 0)
     = (Inr (Some [(''id'', VNum 1), (''fingerprint'', VStr ''abc''),
                   (''created_at'', VTime 0), (''election_id'', VNum 1)]),
        module_state False second_election_store 0)
   \<and> current_election second_election_store = Some (VNum 2)
   \<and> voters_unique second_election_store
   \<and> voters_of (Some (VNum 2)) ''abc'' second_election_store = []
   \<and> length (voters_of (Some (VNum 2)) ''abc'' second_election_store) \<noteq> 1"
proof -
  let ?row = "[(''id'', VNum 1), (''fingerprint'', VStr ''abc''),
               (''created_at'', VTime 0), (''election_id'', VNum 1)]"
  have w: "voters_with ''abc'' (world (module_state False second_election_store 0)) = ?row # []"
    by (simp add: voters_with_def module_state_def second_election_store_def empty_store_def
        column_def)
  have m: "\<not> MOCK_MODE (module_state False second_election_store 0)"
    by (simp add: module_state_def)
  have 1: "ensureVoter store_fetch ''abc'' (module_state False second_election_store 0)
     = (Inr (Some ?row), module_state False second_election_store 0)"
    by (rule ensureVoter_found [OF m w])
  have 2: "voters_of (Some (VNum 2)) ''abc'' second_election_store = []"
    by (simp add: voters_of_def second_election_store_def empty_store_def column_def)
  have 3: "voters_unique second_election_store"
    by (simp add: voters_unique_def second_election_store_def empty_store_def)
  have 4: "current_election second_election_store = Some (VNum 2)"
    by (simp add: second_election_store_def)
  from 1 2 3 4 show ?thesis by simp
qed

subsection \<open>Submitting twice\<close>

lemma column_vote_row:
  "column (vote_row s voter c p) ''voter_id'' = Some voter"
  "column (vote_row s voter c p) ''position'' = p"
  by (cases p; simp add: vote_row_def column_def)+

lemma store_post_vote_new:
  assumes "position_of s c = Some p"
    and "\<not> list_ex (\<lambda>v. column v ''voter_id'' = Some voter \<and> column v ''position'' = p) (votes s)"
  shows "store_fetch (Post ''votes'' [(''voter_id'', voter), (''candidate_id'', c)]) s
         = (respond 201 (Rows [vote_row s voter c p]),
            s\<lparr>votes := votes s @ [vote_row s voter c p], next_id := next_id s + 1\<rparr>)"
  using assms by (simp add: store_fetch_def insert_vote_def column_def)

lemma store_post_vote_dup:
  assumes "position_of s c = Some p"
    and "list_ex (\<lambda>v. column v ''voter_id'' = Some voter \<and> column v ''position'' = p) (votes s)"
  shows "store_fetch (Post ''votes'' [(''voter_id'', voter), (''candidate_id'', c)]) s = (conflict, s)"
  using assms by (simp add: store_fetch_def insert_vote_def column_def)

lemma position_of_votes [simp]:
  "position_of (s\<lparr>votes := vs, next_id := n\<rparr>) c = position_of s c"
  by (simp add: position_of_def)

lemma submitVote_stored:
  assumes "\<not> MOCK_MODE st" "position_of (world st) c = Some p"
    and "\<not> list_ex (\<lambda>v. column v ''voter_id'' = Some voter \<and> column v ''position'' = p) (votes (world st))"
  shows "submitVote store_fetch voter c st
         = (Inr (Some (vote_row (world st) voter c p)),
            st\<lparr>world := (world st)\<lparr>votes := votes (world st) @ [vote_row (world st) voter c p],
                                    next_id := next_id (world st) + 1\<rparr>\<rparr>)"
proof -
  let ?post = "Post ''votes'' [(''voter_id'', voter), (''candidate_id'', c)]"
  let ?r = "\<lparr>status = 201, body = Rows [vote_row (world st) voter c p]\<rparr>"
  have post: "fetchWithRetry store_fetch ?post 0 st
        = (Inr ?r, st\<lparr>world := (world st)\<lparr>votes := votes (world st) @ [vote_row (world st) voter c p],
                                    next_id := next_id (world st) + 1\<rparr>\<rparr>)"
    by (subst fetchWithRetry_ok [where r = ?r])
       (insert store_post_vote_new [OF assms(2,3)], simp_all add: respond_def ok_def)
  have cr: "created_row ?r = Inr (Some (vote_row (world st) voter c p))"
    by (simp add: created_row_def ok_def json_def element0_def)
  show ?thesis
    using assms(1) by (simp add: submitVote_def submitVote_try_def post cr catch_rethrow_def)
qed

lemma submitVote_rejected:
  assumes "\<not> MOCK_MODE st" "position_of (world st) c = Some p"
    and "list_ex (\<lambda>v. column v ''voter_id'' = Some voter \<and> column v ''position'' = p) (votes (world st))"
  shows "submitVote store_fetch voter c st
         = (Inl (Api (ApiError ''You have already voted'' 409 ALREADY_VOTED)), st)"
proof -
  let ?post = "Post ''votes'' [(''voter_id'', voter), (''candidate_id'', c)]"
  let ?r = "\<lparr>status = 409, body = ErrorObject (Some ''duplicate key value violates unique constraint'')\<rparr>"
  have post: "fetchWithRetry store_fetch ?post 0 st = (Inr ?r, st)"
    by (subst fetchWithRetry_client_error [where r = ?r])
       (insert store_post_vote_dup [OF assms(2,3)], simp_all add: conflict_def respond_def)
  have cr: "created_row ?r = Inl (Api (ApiError ''You have already voted'' 409 ALREADY_VOTED))"
    by (simp add: created_row_def ok_def error_of_def mapError_def)
  show ?thesis
    using assms(1) by (simp add: submitVote_def submitVote_try_def post cr catch_rethrow_def)
qed

lemma fetchWithRetry_unfold:
  "(\<exists>x. fetchWithRetry fetch req retryCount st = (x, st\<lparr>world := snd (fetch req (world st))\<rparr>))
   \<or> (retryCount < MAX_RETRIES
       \<and> fetchWithRetry fetch req retryCount st
         = fetchWithRetry fetch req (Suc retryCount)
             (sleep (RETRY_DELAY * 2 ^ retryCount) (st\<lparr>world := snd (fetch req (world st))\<rparr>)))"
  by (subst (1 2) fetchWithRetry.simps) (simp add: Let_def split: outcome.splits)

lemma fetchWithRetry_requests:
  "k = MAX_RETRIES - retryCount \<Longrightarrow> retryCount \<le> MAX_RETRIES \<Longrightarrow>
   \<exists>n. 1 \<le> n \<and> n \<le> k + 1
     \<and> snd (world (snd (fetchWithRetry (recording fetch) req retryCount st)))
         = snd (world st) @ replicate n req"
proof (induction k arbitrary: retryCount st)
  case 0
  then have "retryCount = MAX_RETRIES" by simp
  then have "snd (world (snd (fetchWithRetry (recording fetch) req retryCount st)))
         = snd (world st) @ replicate 1 req"
    using fetchWithRetry_unfold [of "recording fetch" req retryCount st]
    by (auto simp: recording_def)
  then show ?case by (intro exI [of _ 1]) simp
next
  case (Suc k)
  let ?st1 = "st\<lparr>world := snd (recording fetch req (world st))\<rparr>"
  from fetchWithRetry_unfold [of "recording fetch" req retryCount st]
  show ?case
  proof
    assume "\<exists>x. fetchWithRetry (recording fetch) req retryCount st = (x, ?st1)"
    then have "snd (world (snd (fetchWithRetry (recording fetch) req retryCount st)))
         = snd (world st) @ replicate 1 req"
      by (auto simp: recording_def)
    then show ?thesis by (intro exI [of _ 1]) simp
  next
    assume a: "retryCount < MAX_RETRIES
       \<and> fetchWithRetry (recording fetch) req retryCount st
         = fetchWithRetry (recording fetch) req (Suc retryCount)
             (sleep (RETRY_DELAY * 2 ^ retryCount) ?st1)"
    from Suc.prems a have k: "k = MAX_RETRIES - Suc retryCount" "Suc retryCount \<le> MAX_RETRIES"
      by simp_all
    from Suc.IH [OF k, of "sleep (RETRY_DELAY * 2 ^ retryCount) ?st1"]
    obtain n where n: "1 \<le> n" "n \<le> k + 1"
      "snd (world (snd (fetchWithRetry (recording fetch) req (Suc retryCount)
             (sleep (RETRY_DELAY * 2 ^ retryCount) ?st1))))
         = snd (world (sleep (RETRY_DELAY * 2 ^ retryCount) ?st1)) @ replicate n req"
      by blast
    have "snd (world (sleep (RETRY_DELAY * 2 ^ retryCount) ?st1)) = snd (world st) @ [req]"
      by (simp add: sleep_def recording_def)
    with n a have "snd (world (snd (fetchWithRetry (recording fetch) req retryCount st)))
         = snd (world st) @ replicate (Suc n) req"
      by simp
    with n show ?thesis by (intro exI [of _ "Suc n"]) simp
  qed
qed

lemma snd_catch_rethrow [simp]: "snd (catch_rethrow msg r) = snd r"
  by (simp add: catch_rethrow_def split: sum.splits exn.splits)

lemma submitVote_requests:
  assumes "\<not> MOCK_MODE st"
  shows "\<exists>n. 1 \<le> n \<and> n \<le> MAX_RETRIES + 1
     \<and> snd (world (snd (submitVote (recording fetch) voter c st)))
         = snd (world st) @ replicate n (Post ''votes'' [(''voter_id'', voter), (''candidate_id'', c)])"
proof -
  have "snd (submitVote (recording fetch) voter c st)
        = snd (fetchWithRetry (recording fetch) (Post ''votes'' [(''voter_id'', voter), (''candidate_id'', c)]) 0 st)"
    using assms by (simp add: submitVote_def submitVote_try_def split: prod.splits sum.splits)
  then show ?thesis
    using fetchWithRetry_requests [of MAX_RETRIES 0 fetch "Post ''votes'' [(''voter_id'', voter), (''candidate_id'', c)]" st]
    by simp
qed

lemma submitVote_mock_sends_nothing:
  "MOCK_MODE st \<Longrightarrow> world (snd (submitVote fetch voter c st)) = world st"
  by (simp add: submitVote_def Let_def sleep_def)

text \<open>
  C3, as the code has it. With \<open>MOCK_MODE\<close> off, a voter who has no Vote yet for a
  position and submits twice for it (the same or another candidate of that position): the
  first \<open>submitVote\<close> returns the Vote, which is the one row added to the stored Votes;
  the second throws \<open>ALREADY_VOTED\<close> and changes nothing. Against any server,
  \<open>submitVote\<close> then sends nothing but its POST (one to four times, as the retries go):
  it reads no Votes first, so the rejection is the store's. With \<open>MOCK_MODE\<close> on,
  \<open>submitVote\<close> sends no request at all: it looks in \<open>MOCK_DATA.votes\<close> for a vote of
  the same voter, whatever the candidate, and throws \<open>ALREADY_VOTED\<close> itself; the first
  call of a voter for a known candidate adds its one vote to that list.
\<close>

theorem submitVote_duplicate_rejected:
  "(\<not> MOCK_MODE st \<and> position_of (world st) c1 = Some p \<and> position_of (world st) c2 = Some p
      \<and> \<not> list_ex (\<lambda>v. column v ''voter_id'' = Some voter \<and> column v ''position'' = p)
            (votes (world st)) \<longrightarrow>
      (\<exists>vote st1.
         submitVote store_fetch voter c1 st = (Inr (Some vote), st1)
         \<and> votes (world st1) = votes (world st) @ [vote]
         \<and> submitVote store_fetch voter c2 st1
             = (Inl (Api (ApiError ''You have already voted'' 409 ALREADY_VOTED)), st1)))
   \<and> (\<not> MOCK_MODE rt \<longrightarrow>
      (\<exists>n. 1 \<le> n \<and> n \<le> MAX_RETRIES + 1
         \<and> snd (world (snd (submitVote (recording fetch) voter c1 rt)))
             = snd (world rt)
               @ replicate n (Post ''votes'' [(''voter_id'', voter), (''candidate_id'', c1)])))
   \<and> (MOCK_MODE st
      \<and> \<not> list_ex (\<lambda>v. column v ''voter_id'' = Some voter) (mock_votes st)
      \<and> list_ex (\<lambda>c. column c ''id'' = Some c1) (mock_candidates st) \<longrightarrow>
      (\<exists>vote st1 st2.
         submitVote store_fetch voter c1 st = (Inr (Some vote), st1)
         \<and> mock_votes st1 = mock_votes st @ [vote]
         \<and> submitVote store_fetch voter c2 st1
             = (Inl (Api (ApiError ''You have already voted'' 409 ALREADY_VOTED)), st2)
         \<and> mock_votes st2 = mock_votes st1))
   \<and> (MOCK_MODE rt \<longrightarrow>
      world (snd (submitVote (recording fetch) voter c1 rt)) = world rt)"
proof (intro conjI impI)
  assume a: "\<not> MOCK_MODE st \<and> position_of (world st) c1 = Some p \<and> position_of (world st) c2 = Some p
      \<and> \<not> list_ex (\<lambda>v. column v ''voter_id'' = Some voter \<and> column v ''position'' = p)
            (votes (world st))"
  let ?vote = "vote_row (world st) voter c1 p"
  let ?st1 = "st\<lparr>world := (world st)\<lparr>votes := votes (world st) @ [?vote],
                                    next_id := next_id (world st) + 1\<rparr>\<rparr>"
  have 1: "submitVote store_fetch voter c1 st = (Inr (Some ?vote), ?st1)"
    using a by (simp add: submitVote_stored)
  have 2: "submitVote store_fetch voter c2 ?st1
             = (Inl (Api (ApiError ''You have already voted'' 409 ALREADY_VOTED)), ?st1)"
    by (rule submitVote_rejected [where p = p]) (use a in \<open>simp_all add: column_vote_row\<close>)
  have 3: "votes (world ?st1) = votes (world st) @ [?vote]" by simp
  from 1 2 3 show "\<exists>vote st1.
         submitVote store_fetch voter c1 st = (Inr (Some vote), st1)
         \<and> votes (world st1) = votes (world st) @ [vote]
         \<and> submitVote store_fetch voter c2 st1
             = (Inl (Api (ApiError ''You have already voted'' 409 ALREADY_VOTED)), st1)"
    by blast
next
  assume "\<not> MOCK_MODE rt"
  then show "\<exists>n. 1 \<le> n \<and> n \<le> MAX_RETRIES + 1
         \<and> snd (world (snd (submitVote (recording fetch) voter c1 rt)))
             = snd (world rt)
               @ replicate n (Post ''votes'' [(''voter_id'', voter), (''candidate_id'', c1)])"
    by (rule submitVote_requests)
next
  assume m: "MOCK_MODE st
      \<and> \<not> list_ex (\<lambda>v. column v ''voter_id'' = Some voter) (mock_votes st)
      \<and> list_ex (\<lambda>c. column c ''id'' = Some c1) (mock_candidates st)"
  let ?s1 = "sleep 400 st"
  let ?vote = "mock_vote voter c1 ?s1"
  let ?st1 = "?s1\<lparr>mock_votes := mock_votes ?s1 @ [?vote]\<rparr>"
  let ?st2 = "sleep 400 ?st1"
  have 1: "submitVote store_fetch voter c1 st = (Inr (Some ?vote), ?st1)"
    using m by (simp add: submitVote_def Let_def sleep_def)
  have v: "column ?vote ''voter_id'' = Some voter" by (simp add: mock_vote_def column_def)
  have 2: "submitVote store_fetch voter c2 ?st1
             = (Inl (Api (ApiError ''You have already voted'' 409 ALREADY_VOTED)), ?st2)"
    using m v by (simp add: submitVote_def Let_def sleep_def)
  have 3: "mock_votes ?st1 = mock_votes st @ [?vote]" "mock_votes ?st2 = mock_votes ?st1"
    by (simp_all add: sleep_def)
  from 1 2 3 show "\<exists>vote st1 st2.
         submitVote store_fetch voter c1 st = (Inr (Some vote), st1)
         \<and> mock_votes st1 = mock_votes st @ [vote]
         \<and> submitVote store_fetch voter c2 st1
             = (Inl (Api (ApiError ''You have already voted'' 409 ALREADY_VOTED)), st2)
         \<and> mock_votes st2 = mock_votes st1"
    by blast
next
  assume "MOCK_MODE rt"
  then show "world (snd (submitVote (recording fetch) voter c1 rt)) = world rt"
    by (rule submitVote_mock_sends_nothing)
qed

theorem submitVote_duplicate_rejected_witness:
  "(\<exists>vote st1.
      submitVote store_fetch (VNum 7) (VNum 1) (module_state False sample_store 0)
        = (Inr (Some vote), st1)
      \<and> votes (world st1) = [vote]
      \<and> submitVote store_fetch (VNum 7) (VNum 2) st1
          = (Inl (Api (ApiError ''You have already voted'' 409 ALREADY_VOTED)), st1))
   \<and> (\<exists>n. 1 \<le> n \<and> n \<le> 4
        \<and> snd (world (snd (submitVote (recording (scripted (\<lambda>n. Rejected))) (VNum 7) (VNum 1)
                 (module_state False (0, []) 0))))
            = replicate n (Post ''votes'' [(''voter_id'', VNum 7), (''candidate_id'', VNum 1)]))
   \<and> (\<exists>vote st1 st2.
      submitVote store_fetch (VNum 7) (VNum 1) (module_state True sample_store 0)
        = (Inr (Some vote), st1)
      \<and> mock_votes st1 = [vote]
      \<and> submitVote store_fetch (VNum 7) (VNum 2) st1
          = (Inl (Api (ApiError ''You have already voted'' 409 ALREADY_VOTED)), st2)
      \<and> mock_votes st2 = mock_votes st1)
   \<and> MOCK_MODE (module_state True (0 :: nat, [] :: request list) 0)
   \<and> world (snd (submitVote (recording (scripted (\<lambda>n. Rejected))) (VNum 7) (VNum 1)
                 (module_state True (0, []) 0)))
       = (0, [])"
proof -
  let ?real = "module_state False sample_store 0"
  let ?rec = "module_state False (0 :: nat, [] :: request list) 0"
  let ?mock = "module_state True sample_store 0"
  have r: "\<not> MOCK_MODE ?real \<and> position_of (world ?real) (VNum 1) = Some (Some (VStr ''President''))
      \<and> position_of (world ?real) (VNum 2) = Some (Some (VStr ''President''))
      \<and> \<not> list_ex (\<lambda>v. column v ''voter_id'' = Some (VNum 7)
                         \<and> column v ''position'' = Some (VStr ''President''))
            (votes (world ?real))"
    by (simp add: module_state_def sample_store_def empty_store_def position_of_def column_def)
  have l: "\<not> MOCK_MODE ?rec" by (simp add: module_state_def)
  have m: "MOCK_MODE ?mock
      \<and> \<not> list_ex (\<lambda>v. column v ''voter_id'' = Some (VNum 7)) (mock_votes ?mock)
      \<and> list_ex (\<lambda>c. column c ''id'' = Some (VNum 1)) (mock_candidates ?mock)"
    by (simp add: module_state_def MOCK_DATA_candidates_def column_def)
  note t1 = submitVote_duplicate_rejected
    [where st = ?real and ?c1.0 = "VNum 1" and ?c2.0 = "VNum 2" and voter = "VNum 7"
       and p = "Some (VStr ''President'')", THEN conjunct1, THEN mp, OF r]
  note t2 = submitVote_duplicate_rejected
    [where rt = ?rec and ?c1.0 = "VNum 1" and voter = "VNum 7"
       and fetch = "scripted (\<lambda>n. Rejected)",
     THEN conjunct2, THEN conjunct1, THEN mp, OF l]
  note t3 = submitVote_duplicate_rejected
    [where st = ?mock and ?c1.0 = "VNum 1" and ?c2.0 = "VNum 2" and voter = "VNum 7",
     THEN conjunct2, THEN conjunct2, THEN conjunct1, THEN mp, OF m]
  have k: "MOCK_MODE (module_state True (0 :: nat, [] :: request list) 0)"
    by (simp add: module_state_def)
  note t4 = submitVote_duplicate_rejected
    [where rt = "module_state True (0 :: nat, [] :: request list) 0" and ?c1.0 = "VNum 1"
       and voter = "VNum 7" and fetch = "scripted (\<lambda>n. Rejected)",
     THEN conjunct2, THEN conjunct2, THEN conjunct2, THEN mp, OF k]
  have w4: "world (module_state True (0 :: nat, [] :: request list) 0) = (0, [])"
    by (simp add: module_state_def)
  have w1: "votes (world ?real) = []" "mock_votes ?mock = []" "snd (world ?rec) = []"
    by (simp_all add: module_state_def sample_store_def empty_store_def)
  have m4: "MAX_RETRIES + 1 = 4" by (simp add: MAX_RETRIES_def)
  from t1 t2 t3 t4 k show ?thesis unfolding w1 m4 w4 append_Nil by blast
qed

theorem submitVote_local_check_counterexample:
  "MOCK_MODE (module_state True (sample_store, [] :: request list) 0)
   \<and> snd (submitVote (recording store_fetch) (VNum 7) (VNum 1)
             (module_state True (sample_store, []) 0))
       = (module_state True (sample_store, []) 0)
           \<lparr>mock_votes := [[(''id'', VNum 400), (''voter_id'', VNum 7),
                             (''candidate_id'', VNum 1), (''created_at'', VTime 400)]],
            slept := [400], clock := 400\<rparr>
   \<and> submitVote (recording store_fetch) (VNum 7) (VNum 2)
         ((module_state True (sample_store, []) 0)
           \<lparr>mock_votes := [[(''id'', VNum 400), (''voter_id'', VNum 7),
                             (''candidate_id'', VNum 1), (''created_at'', VTime 400)]],
            slept := [400], clock := 400\<rparr>)
       = (Inl (Api (ApiError ''You have already voted'' 409 ALREADY_VOTED)),
          (module_state True (sample_store, []) 0)
           \<lparr>mock_votes := [[(''id'', VNum 400), (''voter_id'', VNum 7),
                             (''candidate_id'', VNum 1), (''created_at'', VTime 400)]],
            slept := [400, 400], clock := 800\<rparr>)
   \<and> world ((module_state True (sample_store, [] :: request list) 0)
           \<lparr>mock_votes := [[(''id'', VNum 400), (''voter_id'', VNum 7),
                             (''candidate_id'', VNum 1), (''created_at'', VTime 400)]],
            slept := [400, 400], clock := 800\<rparr>)
       = (sample_store, [])
   \<and> votes sample_store = []"
  by (simp add: submitVote_def module_state_def Let_def sleep_def mock_vote_def column_def
      MOCK_DATA_candidates_def sample_store_def empty_store_def)

subsection \<open>How the operations report failure\<close>

lemma throws_ApiError_only_catch: "throws_ApiError_only (fst (catch_rethrow msg r))"
  by (cases r) (simp add: catch_rethrow_def throws_ApiError_only_def split: sum.splits exn.splits)

lemma fetchWithRetry_all_rejected:
  assumes "\<forall>n. script n = Rejected"
  shows "fst (fetchWithRetry (scripted script) req 0 st) = Inl FetchRejected"
proof -
  have "\<forall>n. retried (script n)" using assms by (simp add: retried_def)
  from fetchWithRetry_exhaust [OF this, of MAX_RETRIES 0 req st]
  have "fst (fetchWithRetry (scripted script) req 0 st) = final (script (world st + MAX_RETRIES))"
    by simp
  also have "\<dots> = Inl FetchRejected" using assms by (simp add: final_def)
  finally show ?thesis .
qed

lemma catch_rethrow_other:
  "fst r = Inl FetchRejected \<Longrightarrow> fst (catch_rethrow msg r) = Inl (Api (ApiError msg 0 NETWORK_ERROR))"
  by (simp add: catch_rethrow_def)

lemma fetchWithRetry_throws:
  "fst (fetchWithRetry fetch req retryCount st) = Inl e \<Longrightarrow> e = FetchRejected"
proof (induction "MAX_RETRIES - retryCount" arbitrary: retryCount st)
  case 0
  then have "\<not> retryCount < MAX_RETRIES" by simp
  with "0.prems" show ?case
    by (subst (asm) fetchWithRetry.simps)
       (auto simp: Let_def split: outcome.splits if_splits)
next
  case (Suc k)
  then have k: "k = MAX_RETRIES - Suc retryCount" by simp
  note ih = Suc.hyps(1) [OF k]
  from Suc.prems show ?case
    by (subst (asm) fetchWithRetry.simps)
       (auto simp: Let_def split: outcome.splits if_splits dest: ih)
qed

lemma fetchWithRetry_thrown:
  "fetchWithRetry fetch req retryCount st = (Inl e, st1) \<Longrightarrow> e = FetchRejected"
  using fetchWithRetry_throws [of fetch req retryCount st e] by simp

lemma created_row_table:
  "created_row response =
     (if \<not> ok response
      then Inl (Api (mapError (status response) (data_message (json_or_empty response))))
      else (case body response of
              Rows rows \<Rightarrow> Inr (case rows of [] \<Rightarrow> None | x # xs \<Rightarrow> Some x)
            | ErrorObject m \<Rightarrow> Inr None
            | JsonNull \<Rightarrow> Inl TypeError
            | Unparsable \<Rightarrow> Inl JsonRejected))"
  by (simp add: created_row_def error_of_def json_def element0_def split: body.splits)

lemma catch_rethrow_table:
  "catch_rethrow msg
     (if \<not> ok response
      then Inl (Api (mapError (status response) (data_message (json_or_empty response))))
      else (case body response of
              Rows rows \<Rightarrow> Inr (case rows of [] \<Rightarrow> None | x # xs \<Rightarrow> Some x)
            | ErrorObject m \<Rightarrow> Inr None
            | JsonNull \<Rightarrow> Inl TypeError
            | Unparsable \<Rightarrow> Inl JsonRejected), st1)
   = (if \<not> ok response
      then Inl (Api (mapError (status response) (data_message (json_or_empty response))))
      else (case body response of
              Rows rows \<Rightarrow> Inr (case rows of [] \<Rightarrow> None | x # xs \<Rightarrow> Some x)
            | ErrorObject m \<Rightarrow> Inr None
            | JsonNull \<Rightarrow> Inl (Api (ApiError msg 0 NETWORK_ERROR))
            | Unparsable \<Rightarrow> Inl (Api (ApiError msg 0 NETWORK_ERROR))), st1)"
  by (simp add: catch_rethrow_def split: body.splits)

lemma submitVote_thrown:
  assumes "\<not> MOCK_MODE st"
    and "fetchWithRetry fetch (Post ''votes'' [(''voter_id'', voterId), (''candidate_id'', candidateId)]) 0 st
         = (Inl e, st1)"
  shows "submitVote fetch voterId candidateId st
         = (Inl (Api (ApiError ''Failed to submit vote'' 0 NETWORK_ERROR)), st1)"
  using assms fetchWithRetry_thrown [OF assms(2)]
  by (simp add: submitVote_def submitVote_try_def catch_rethrow_def)

lemma submitVote_answered:
  assumes "\<not> MOCK_MODE st"
    and "fetchWithRetry fetch (Post ''votes'' [(''voter_id'', voterId), (''candidate_id'', candidateId)]) 0 st
         = (Inr response, st1)"
  shows "submitVote fetch voterId candidateId st
         = (if \<not> ok response
            then Inl (Api (mapError (status response) (data_message (json_or_empty response))))
            else (case body response of
                    Rows rows \<Rightarrow> Inr (case rows of [] \<Rightarrow> None | x # xs \<Rightarrow> Some x)
                  | ErrorObject m \<Rightarrow> Inr None
                  | JsonNull \<Rightarrow> Inl (Api (ApiError ''Failed to submit vote'' 0 NETWORK_ERROR))
                  | Unparsable \<Rightarrow> Inl (Api (ApiError ''Failed to submit vote'' 0 NETWORK_ERROR))),
            st1)"
  using assms
  by (simp only: submitVote_def submitVote_try_def created_row_table catch_rethrow_table
      if_False prod.case sum.case)

lemma fetchCandidates_thrown:
  assumes "\<not> MOCK_MODE st"
    and "fetchWithRetry fetch (Get ''candidates'' [(''select'', ''*''), (''order'', ''id.asc'')]) 0 st
         = (Inl e, st1)"
  shows "fetchCandidates fetch st
         = (Inl (Api (ApiError ''Failed to fetch candidates'' 0 NETWORK_ERROR)), st1)"
  using assms fetchWithRetry_thrown [OF assms(2)]
  by (simp add: fetchCandidates_def catch_rethrow_def)

lemma fetchCandidates_answered:
  assumes "\<not> MOCK_MODE st"
    and "fetchWithRetry fetch (Get ''candidates'' [(''select'', ''*''), (''order'', ''id.asc'')]) 0 st
         = (Inr response, st1)"
  shows "fetchCandidates fetch st
         = (if \<not> ok response
            then Inl (Api (mapError (status response) (data_message (json_or_empty response))))
            else if body response = Unparsable
            then Inl (Api (ApiError ''Failed to fetch candidates'' 0 NETWORK_ERROR))
            else Inr (body response), st1)"
  using assms
  by (simp add: fetchCandidates_def catch_rethrow_def error_of_def json_def split: body.splits)

lemma ensureVoter_get_thrown:
  assumes "\<not> MOCK_MODE st"
    and "fetchWithRetry fetch (Get ''voters'' [(''fingerprint'', ''eq.'' @ fingerprint), (''select'', ''*'')]) 0 st
         = (Inl e, st1)"
  shows "ensureVoter fetch fingerprint st
         = (Inl (Api (ApiError ''Failed to register voter'' 0 NETWORK_ERROR)), st1)"
  using assms(1) fetchWithRetry_thrown [OF assms(2)] assms(2)
  by (simp add: ensureVoter_def ensureVoter_try_def catch_rethrow_def)

lemma ensureVoter_get_answered:
  assumes "\<not> MOCK_MODE st"
    and "fetchWithRetry fetch (Get ''voters'' [(''fingerprint'', ''eq.'' @ fingerprint), (''select'', ''*'')]) 0 st
         = (Inr getResponse, st1)"
    and "ok getResponse"
  shows "body getResponse = Rows (v # vs) \<Longrightarrow> ensureVoter fetch fingerprint st = (Inr (Some v), st1)"
    and "body getResponse = JsonNull \<or> body getResponse = Unparsable \<Longrightarrow>
         ensureVoter fetch fingerprint st
         = (Inl (Api (ApiError ''Failed to register voter'' 0 NETWORK_ERROR)), st1)"
  using assms
  by (auto simp add: ensureVoter_def ensureVoter_try_def catch_rethrow_def existing_voter_def
      json_def length_gt0_def element0_def)

lemma ensureVoter_goes_on:
  assumes "\<not> MOCK_MODE st"
    and "fetchWithRetry fetch (Get ''voters'' [(''fingerprint'', ''eq.'' @ fingerprint), (''select'', ''*'')]) 0 st
         = (Inr getResponse, st1)"
    and "\<not> ok getResponse \<or> body getResponse = Rows [] \<or> (\<exists>m. body getResponse = ErrorObject m)"
  shows "ensureVoter fetch fingerprint st
         = catch_rethrow ''Failed to register voter''
             (case fetchWithRetry fetch (Post ''voters'' [(''fingerprint'', VStr fingerprint)]) 0 st1 of
                (Inl e, st2) \<Rightarrow> (Inl e, st2)
              | (Inr createResponse, st2) \<Rightarrow> (created_row createResponse, st2))"
proof -
  have "existing_voter getResponse = Inr None"
    using assms(3) by (auto simp: existing_voter_def json_def length_gt0_def)
  then show ?thesis using assms(1,2)
    by (simp add: ensureVoter_def ensureVoter_try_def)
qed

lemma ensureVoter_post_thrown:
  assumes "\<not> MOCK_MODE st"
    and "fetchWithRetry fetch (Get ''voters'' [(''fingerprint'', ''eq.'' @ fingerprint), (''select'', ''*'')]) 0 st
         = (Inr getResponse, st1)"
    and "\<not> ok getResponse \<or> body getResponse = Rows [] \<or> (\<exists>m. body getResponse = ErrorObject m)"
    and "fetchWithRetry fetch (Post ''voters'' [(''fingerprint'', VStr fingerprint)]) 0 st1 = (Inl e, st2)"
  shows "ensureVoter fetch fingerprint st
         = (Inl (Api (ApiError ''Failed to register voter'' 0 NETWORK_ERROR)), st2)"
  unfolding ensureVoter_goes_on [OF assms(1,2,3)]
  using fetchWithRetry_thrown [OF assms(4)] assms(4) by (simp add: catch_rethrow_def)

lemma ensureVoter_post_answered:
  assumes "\<not> MOCK_MODE st"
    and "fetchWithRetry fetch (Get ''voters'' [(''fingerprint'', ''eq.'' @ fingerprint), (''select'', ''*'')]) 0 st
         = (Inr getResponse, st1)"
    and "\<not> ok getResponse \<or> body getResponse = Rows [] \<or> (\<exists>m. body getResponse = ErrorObject m)"
    and "fetchWithRetry fetch (Post ''voters'' [(''fingerprint'', VStr fingerprint)]) 0 st1
         = (Inr response, st2)"
  shows "ensureVoter fetch fingerprint st
         = (if \<not> ok response
            then Inl (Api (mapError (status response) (data_message (json_or_empty response))))
            else (case body response of
                    Rows rows \<Rightarrow> Inr (case rows of [] \<Rightarrow> None | x # xs \<Rightarrow> Some x)
                  | ErrorObject m \<Rightarrow> Inr None
                  | JsonNull \<Rightarrow> Inl (Api (ApiError ''Failed to register voter'' 0 NETWORK_ERROR))
                  | Unparsable \<Rightarrow> Inl (Api (ApiError ''Failed to register voter'' 0 NETWORK_ERROR))),
            st2)"
  unfolding ensureVoter_goes_on [OF assms(1,2,3)] assms(4)
  by (simp only: created_row_table catch_rethrow_table prod.case sum.case)


text \<open>
  C9, as the code has it. \<open>fetchCandidates\<close>, \<open>ensureVoter\<close> and \<open>submitVote\<close> return
  their bare data and report a failure by throwing; whatever they throw is an
  \<open>ApiError\<close> with message, status and code, and none of them returns an object with a
  \<open>success\<close> field. With \<open>MOCK_MODE\<close> off the outcome follows what \<open>fetchWithRetry\<close>
  ends with. When it throws (every attempt rejected at transport level) the operation
  throws \<open>ApiError(msg, 0, 'NETWORK_ERROR')\<close>. An answer that is not ok is thrown as
  \<open>mapError(status, data)\<close>. An ok answer is returned as data: the parsed body by
  \<open>fetchCandidates\<close>, the first row of the array by the other two, which is
  \<open>undefined\<close> when the body is an empty array or an object that is no array; a body
  that does not parse, or \<open>null\<close> where an array is read, ends in \<open>NETWORK_ERROR\<close>.
  \<open>ensureVoter\<close> returns the first row that its GET found; an answer to the GET that is
  not ok is not thrown: like an empty array it is followed by the POST, whose answer is
  treated as above. With \<open>MOCK_MODE\<close> on no request is sent: \<open>fetchCandidates\<close> returns
  the mock candidates, \<open>ensureVoter\<close> the mock voter, and \<open>submitVote\<close> the mock vote
  unless it throws \<open>ALREADY_VOTED\<close> or \<open>INVALID_DATA\<close> itself.
\<close>

theorem operations_throw_ApiError:
  "throws_ApiError_only (fst (fetchCandidates fetch st))
   \<and> throws_ApiError_only (fst (ensureVoter fetch fingerprint st))
   \<and> throws_ApiError_only (fst (submitVote fetch voterId candidateId st))
   \<and> (\<not> MOCK_MODE st \<longrightarrow>
        (\<forall>e st1. fetchWithRetry fetch
                    (Get ''candidates'' [(''select'', ''*''), (''order'', ''id.asc'')]) 0 st
                  = (Inl e, st1) \<longrightarrow>
           fetchCandidates fetch st
           = (Inl (Api (ApiError ''Failed to fetch candidates'' 0 NETWORK_ERROR)), st1))
        \<and> (\<forall>response st1. fetchWithRetry fetch
                    (Get ''candidates'' [(''select'', ''*''), (''order'', ''id.asc'')]) 0 st
                  = (Inr response, st1) \<longrightarrow>
           fetchCandidates fetch st
           = (if \<not> ok response
              then Inl (Api (mapError (status response) (data_message (json_or_empty response))))
              else if body response = Unparsable
              then Inl (Api (ApiError ''Failed to fetch candidates'' 0 NETWORK_ERROR))
              else Inr (body response), st1)))
   \<and> (\<not> MOCK_MODE st \<longrightarrow>
        (\<forall>e st1. fetchWithRetry fetch
                    (Post ''votes'' [(''voter_id'', voterId), (''candidate_id'', candidateId)]) 0 st
                  = (Inl e, st1) \<longrightarrow>
           submitVote fetch voterId candidateId st
           = (Inl (Api (ApiError ''Failed to submit vote'' 0 NETWORK_ERROR)), st1))
        \<and> (\<forall>response st1. fetchWithRetry fetch
                    (Post ''votes'' [(''voter_id'', voterId), (''candidate_id'', candidateId)]) 0 st
                  = (Inr response, st1) \<longrightarrow>
           submitVote fetch voterId candidateId st
           = (if \<not> ok response
              then Inl (Api (mapError (status response) (data_message (json_or_empty response))))
              else (case body response of
                      Rows rows \<Rightarrow> Inr (case rows of [] \<Rightarrow> None | x # xs \<Rightarrow> Some x)
                    | ErrorObject m \<Rightarrow> Inr None
                    | JsonNull \<Rightarrow> Inl (Api (ApiError ''Failed to submit vote'' 0 NETWORK_ERROR))
                    | Unparsable \<Rightarrow> Inl (Api (ApiError ''Failed to submit vote'' 0 NETWORK_ERROR))),
              st1)))
   \<and> (\<not> MOCK_MODE st \<longrightarrow>
        (\<forall>e st1. fetchWithRetry fetch
                    (Get ''voters'' [(''fingerprint'', ''eq.'' @ fingerprint), (''select'', ''*'')]) 0 st
                  = (Inl e, st1) \<longrightarrow>
           ensureVoter fetch fingerprint st
           = (Inl (Api (ApiError ''Failed to register voter'' 0 NETWORK_ERROR)), st1))
        \<and> (\<forall>getResponse st1. fetchWithRetry fetch
                    (Get ''voters'' [(''fingerprint'', ''eq.'' @ fingerprint), (''select'', ''*'')]) 0 st
                  = (Inr getResponse, st1) \<and> ok getResponse \<longrightarrow>
           (\<forall>v vs. body getResponse = Rows (v # vs) \<longrightarrow>
              ensureVoter fetch fingerprint st = (Inr (Some v), st1))
           \<and> (body getResponse = JsonNull \<or> body getResponse = Unparsable \<longrightarrow>
              ensureVoter fetch fingerprint st
              = (Inl (Api (ApiError ''Failed to register voter'' 0 NETWORK_ERROR)), st1)))
        \<and> (\<forall>getResponse st1. fetchWithRetry fetch
                    (Get ''voters'' [(''fingerprint'', ''eq.'' @ fingerprint), (''select'', ''*'')]) 0 st
                  = (Inr getResponse, st1)
              \<and> (\<not> ok getResponse \<or> body getResponse = Rows []
                  \<or> (\<exists>m. body getResponse = ErrorObject m)) \<longrightarrow>
           (\<forall>e st2. fetchWithRetry fetch
                       (Post ''voters'' [(''fingerprint'', VStr fingerprint)]) 0 st1
                     = (Inl e, st2) \<longrightarrow>
              ensureVoter fetch fingerprint st
              = (Inl (Api (ApiError ''Failed to register voter'' 0 NETWORK_ERROR)), st2))
           \<and> (\<forall>response st2. fetchWithRetry fetch
                       (Post ''voters'' [(''fingerprint'', VStr fingerprint)]) 0 st1
                     = (Inr response, st2) \<longrightarrow>
              ensureVoter fetch fingerprint st
              = (if \<not> ok response
                 then Inl (Api (mapError (status response) (data_message (json_or_empty response))))
                 else (case body response of
                         Rows rows \<Rightarrow> Inr (case rows of [] \<Rightarrow> None | x # xs \<Rightarrow> Some x)
                       | ErrorObject m \<Rightarrow> Inr None
                       | JsonNull \<Rightarrow> Inl (Api (ApiError ''Failed to register voter'' 0 NETWORK_ERROR))
                       | Unparsable \<Rightarrow> Inl (Api (ApiError ''Failed to register voter'' 0 NETWORK_ERROR))),
                 st2))))
   \<and> (MOCK_MODE st \<longrightarrow>
        fetchCandidates fetch st = (Inr (Rows (mock_candidates st)), sleep 300 st)
        \<and> fst (ensureVoter fetch fingerprint st)
            = Inr (Some (mock_voter fingerprint (sleep 200 st)))
        \<and> fst (submitVote fetch voterId candidateId st)
            = (if list_ex (\<lambda>v. column v ''voter_id'' = Some voterId) (mock_votes st)
               then Inl (Api (ApiError ''You have already voted'' 409 ALREADY_VOTED))
               else if \<not> list_ex (\<lambda>c. column c ''id'' = Some candidateId) (mock_candidates st)
               then Inl (Api (ApiError ''Invalid candidate'' 422 INVALID_DATA))
               else Inr (Some (mock_vote voterId candidateId (sleep 400 st)))))
   \<and> (\<not> MOCK_MODE rt \<and> (\<forall>n. script n = Rejected) \<longrightarrow>
        fst (fetchCandidates (scripted script) rt)
          = Inl (Api (ApiError ''Failed to fetch candidates'' 0 NETWORK_ERROR))
        \<and> fst (ensureVoter (scripted script) fingerprint rt)
          = Inl (Api (ApiError ''Failed to register voter'' 0 NETWORK_ERROR))
        \<and> fst (submitVote (scripted script) voterId candidateId rt)
          = Inl (Api (ApiError ''Failed to submit vote'' 0 NETWORK_ERROR)))"
proof -
  have A: "throws_ApiError_only (fst (fetchCandidates fetch st))"
    "throws_ApiError_only (fst (ensureVoter fetch fingerprint st))"
    "throws_ApiError_only (fst (submitVote fetch voterId candidateId st))"
    by (simp add: fetchCandidates_def ensureVoter_def submitVote_def throws_ApiError_only_catch
        Let_def, simp add: throws_ApiError_only_def)+
  have B: "\<not> MOCK_MODE st \<longrightarrow>
        (\<forall>e st1. fetchWithRetry fetch
                    (Get ''candidates'' [(''select'', ''*''), (''order'', ''id.asc'')]) 0 st
                  = (Inl e, st1) \<longrightarrow>
           fetchCandidates fetch st
           = (Inl (Api (ApiError ''Failed to fetch candidates'' 0 NETWORK_ERROR)), st1))
        \<and> (\<forall>response st1. fetchWithRetry fetch
                    (Get ''candidates'' [(''select'', ''*''), (''order'', ''id.asc'')]) 0 st
                  = (Inr response, st1) \<longrightarrow>
           fetchCandidates fetch st
           = (if \<not> ok response
              then Inl (Api (mapError (status response) (data_message (json_or_empty response))))
              else if body response = Unparsable
              then Inl (Api (ApiError ''Failed to fetch candidates'' 0 NETWORK_ERROR))
              else Inr (body response), st1))"
    using fetchCandidates_thrown [of st fetch] fetchCandidates_answered [of st fetch]
    by blast
  have C: "\<not> MOCK_MODE st \<longrightarrow>
        (\<forall>e st1. fetchWithRetry fetch
                    (Post ''votes'' [(''voter_id'', voterId), (''candidate_id'', candidateId)]) 0 st
                  = (Inl e, st1) \<longrightarrow>
           submitVote fetch voterId candidateId st
           = (Inl (Api (ApiError ''Failed to submit vote'' 0 NETWORK_ERROR)), st1))
        \<and> (\<forall>response st1. fetchWithRetry fetch
                    (Post ''votes'' [(''voter_id'', voterId), (''candidate_id'', candidateId)]) 0 st
                  = (Inr response, st1) \<longrightarrow>
           submitVote fetch voterId candidateId st
           = (if \<not> ok response
              then Inl (Api (mapError (status response) (data_message (json_or_empty response))))
              else (case body response of
                      Rows rows \<Rightarrow> Inr (case rows of [] \<Rightarrow> None | x # xs \<Rightarrow> Some x)
                    | ErrorObject m \<Rightarrow> Inr None
                    | JsonNull \<Rightarrow> Inl (Api (ApiError ''Failed to submit vote'' 0 NETWORK_ERROR))
                    | Unparsable \<Rightarrow> Inl (Api (ApiError ''Failed to submit vote'' 0 NETWORK_ERROR))),
              st1))"
    using submitVote_thrown [of st fetch voterId candidateId]
      submitVote_answered [of st fetch voterId candidateId]
    by blast
  have D: "\<not> MOCK_MODE st \<longrightarrow>
        (\<forall>e st1. fetchWithRetry fetch
                    (Get ''voters'' [(''fingerprint'', ''eq.'' @ fingerprint), (''select'', ''*'')]) 0 st
                  = (Inl e, st1) \<longrightarrow>
           ensureVoter fetch fingerprint st
           = (Inl (Api (ApiError ''Failed to register voter'' 0 NETWORK_ERROR)), st1))
        \<and> (\<forall>getResponse st1. fetchWithRetry fetch
                    (Get ''voters'' [(''fingerprint'', ''eq.'' @ fingerprint), (''select'', ''*'')]) 0 st
                  = (Inr getResponse, st1) \<and> ok getResponse \<longrightarrow>
           (\<forall>v vs. body getResponse = Rows (v # vs) \<longrightarrow>
              ensureVoter fetch fingerprint st = (Inr (Some v), st1))
           \<and> (body getResponse = JsonNull \<or> body getResponse = Unparsable \<longrightarrow>
              ensureVoter fetch fingerprint st
              = (Inl (Api (ApiError ''Failed to register voter'' 0 NETWORK_ERROR)), st1)))
        \<and> (\<forall>getResponse st1. fetchWithRetry fetch
                    (Get ''voters'' [(''fingerprint'', ''eq.'' @ fingerprint), (''select'', ''*'')]) 0 st
                  = (Inr getResponse, st1)
              \<and> (\<not> ok getResponse \<or> body getResponse = Rows []
                  \<or> (\<exists>m. body getResponse = ErrorObject m)) \<longrightarrow>
           (\<forall>e st2. fetchWithRetry fetch
                       (Post ''voters'' [(''fingerprint'', VStr fingerprint)]) 0 st1
                     = (Inl e, st2) \<longrightarrow>
              ensureVoter fetch fingerprint st
              = (Inl (Api (ApiError ''Failed to register voter'' 0 NETWORK_ERROR)), st2))
           \<and> (\<forall>response st2. fetchWithRetry fetch
                       (Post ''voters'' [(''fingerprint'', VStr fingerprint)]) 0 st1
                     = (Inr response, st2) \<longrightarrow>
              ensureVoter fetch fingerprint st
              = (if \<not> ok response
                 then Inl (Api (mapError (status response) (data_message (json_or_empty response))))
                 else (case body response of
                         Rows rows \<Rightarrow> Inr (case rows of [] \<Rightarrow> None | x # xs \<Rightarrow> Some x)
                       | ErrorObject m \<Rightarrow> Inr None
                       | JsonNull \<Rightarrow> Inl (Api (ApiError ''Failed to register voter'' 0 NETWORK_ERROR))
                       | Unparsable \<Rightarrow> Inl (Api (ApiError ''Failed to register voter'' 0 NETWORK_ERROR))),
                 st2)))"
  proof (intro impI conjI allI)
    assume m: "\<not> MOCK_MODE st"
    { fix e st1
      assume "fetchWithRetry fetch
                (Get ''voters'' [(''fingerprint'', ''eq.'' @ fingerprint), (''select'', ''*'')]) 0 st
              = (Inl e, st1)"
      then show "ensureVoter fetch fingerprint st
           = (Inl (Api (ApiError ''Failed to register voter'' 0 NETWORK_ERROR)), st1)"
        by (rule ensureVoter_get_thrown [OF m]) }
    { fix getResponse st1 v vs
      assume "fetchWithRetry fetch
                (Get ''voters'' [(''fingerprint'', ''eq.'' @ fingerprint), (''select'', ''*'')]) 0 st
              = (Inr getResponse, st1) \<and> ok getResponse"
        and "body getResponse = Rows (v # vs)"
      then show "ensureVoter fetch fingerprint st = (Inr (Some v), st1)"
        using ensureVoter_get_answered(1) [OF m, of fetch fingerprint getResponse st1 v vs]
        by blast }
    { fix getResponse st1
      assume "fetchWithRetry fetch
                (Get ''voters'' [(''fingerprint'', ''eq.'' @ fingerprint), (''select'', ''*'')]) 0 st
              = (Inr getResponse, st1) \<and> ok getResponse"
        and "body getResponse = JsonNull \<or> body getResponse = Unparsable"
      then show "ensureVoter fetch fingerprint st
              = (Inl (Api (ApiError ''Failed to register voter'' 0 NETWORK_ERROR)), st1)"
        using ensureVoter_get_answered(2) [OF m, of fetch fingerprint getResponse st1]
        by blast }
    { fix getResponse st1 e st2
      assume "fetchWithRetry fetch
                (Get ''voters'' [(''fingerprint'', ''eq.'' @ fingerprint), (''select'', ''*'')]) 0 st
              = (Inr getResponse, st1)
              \<and> (\<not> ok getResponse \<or> body getResponse = Rows []
                  \<or> (\<exists>m. body getResponse = ErrorObject m))"
        and "fetchWithRetry fetch (Post ''voters'' [(''fingerprint'', VStr fingerprint)]) 0 st1
             = (Inl e, st2)"
      then show "ensureVoter fetch fingerprint st
              = (Inl (Api (ApiError ''Failed to register voter'' 0 NETWORK_ERROR)), st2)"
        using ensureVoter_post_thrown [OF m, of fetch fingerprint getResponse st1 e st2]
        by blast }
    { fix getResponse st1 response st2
      assume "fetchWithRetry fetch
                (Get ''voters'' [(''fingerprint'', ''eq.'' @ fingerprint), (''select'', ''*'')]) 0 st
              = (Inr getResponse, st1)
              \<and> (\<not> ok getResponse \<or> body getResponse = Rows []
                  \<or> (\<exists>m. body getResponse = ErrorObject m))"
        and "fetchWithRetry fetch (Post ''voters'' [(''fingerprint'', VStr fingerprint)]) 0 st1
             = (Inr response, st2)"
      then show "ensureVoter fetch fingerprint st
              = (if \<not> ok response
                 then Inl (Api (mapError (status response) (data_message (json_or_empty response))))
                 else (case body response of
                         Rows rows \<Rightarrow> Inr (case rows of [] \<Rightarrow> None | x # xs \<Rightarrow> Some x)
                       | ErrorObject m \<Rightarrow> Inr None
                       | JsonNull \<Rightarrow> Inl (Api (ApiError ''Failed to register voter'' 0 NETWORK_ERROR))
                       | Unparsable \<Rightarrow> Inl (Api (ApiError ''Failed to register voter'' 0 NETWORK_ERROR))),
                 st2)"
        using ensureVoter_post_answered [OF m, of fetch fingerprint getResponse st1 response st2]
        by blast }
  qed
  have M: "MOCK_MODE st \<longrightarrow>
        fetchCandidates fetch st = (Inr (Rows (mock_candidates st)), sleep 300 st)
        \<and> fst (ensureVoter fetch fingerprint st)
            = Inr (Some (mock_voter fingerprint (sleep 200 st)))
        \<and> fst (submitVote fetch voterId candidateId st)
            = (if list_ex (\<lambda>v. column v ''voter_id'' = Some voterId) (mock_votes st)
               then Inl (Api (ApiError ''You have already voted'' 409 ALREADY_VOTED))
               else if \<not> list_ex (\<lambda>c. column c ''id'' = Some candidateId) (mock_candidates st)
               then Inl (Api (ApiError ''Invalid candidate'' 422 INVALID_DATA))
               else Inr (Some (mock_vote voterId candidateId (sleep 400 st))))"
    by (simp add: fetchCandidates_def ensureVoter_def submitVote_def Let_def sleep_def)
  have E: "\<not> MOCK_MODE rt \<and> (\<forall>n. script n = Rejected) \<longrightarrow>
        fst (fetchCandidates (scripted script) rt)
          = Inl (Api (ApiError ''Failed to fetch candidates'' 0 NETWORK_ERROR))
        \<and> fst (ensureVoter (scripted script) fingerprint rt)
          = Inl (Api (ApiError ''Failed to register voter'' 0 NETWORK_ERROR))
        \<and> fst (submitVote (scripted script) voterId candidateId rt)
          = Inl (Api (ApiError ''Failed to submit vote'' 0 NETWORK_ERROR))"
  proof (intro conjI impI)
    assume a: "\<not> MOCK_MODE rt \<and> (\<forall>n. script n = Rejected)"
    then have r: "fst (fetchWithRetry (scripted script) req 0 rt) = Inl FetchRejected" for req
      by (simp add: fetchWithRetry_all_rejected)
    show "fst (fetchCandidates (scripted script) rt)
          = Inl (Api (ApiError ''Failed to fetch candidates'' 0 NETWORK_ERROR))"
      using a r [of "Get ''candidates'' [(''select'', ''*''), (''order'', ''id.asc'')]"]
      by (auto simp add: fetchCandidates_def intro!: catch_rethrow_other split: prod.splits sum.splits)
    show "fst (ensureVoter (scripted script) fingerprint rt)
          = Inl (Api (ApiError ''Failed to register voter'' 0 NETWORK_ERROR))"
      using a r [of "Get ''voters'' [(''fingerprint'', ''eq.'' @ fingerprint), (''select'', ''*'')]"]
      by (auto simp add: ensureVoter_def ensureVoter_try_def intro!: catch_rethrow_other split: prod.splits sum.splits)
    show "fst (submitVote (scripted script) voterId candidateId rt)
          = Inl (Api (ApiError ''Failed to submit vote'' 0 NETWORK_ERROR))"
      using a r [of "Post ''votes'' [(''voter_id'', voterId), (''candidate_id'', candidateId)]"]
      by (auto simp add: submitVote_def submitVote_try_def intro!: catch_rethrow_other split: prod.splits sum.splits)
  qed
  from A B C D M E show ?thesis by (intro conjI) assumption+
qed



theorem operations_throw_ApiError_witness:
  "\<not> MOCK_MODE (module_state False (0 :: nat) 0)
   \<and> throws_ApiError_only (fst (fetchCandidates (scripted (\<lambda>n. Rejected)) (module_state False 0 0)))
   \<and> fst (fetchCandidates (scripted (\<lambda>n. Rejected)) (module_state False 0 0))
       = Inl (Api (ApiError ''Failed to fetch candidates'' 0 NETWORK_ERROR))
   \<and> fst (fetchCandidates
             (scripted (\<lambda>n. respond 404 (ErrorObject (Some ''relation does not exist''))))
             (module_state False 0 0))
       = Inl (Api (ApiError ''relation does not exist'' 404 UNKNOWN_ERROR))
   \<and> fst (fetchCandidates (scripted (\<lambda>n. respond 200 (Rows [[(''id'', VNum 1)]])))
             (module_state False 0 0))
       = Inr (Rows [[(''id'', VNum 1)]])
   \<and> fst (submitVote (scripted (\<lambda>n. Rejected)) (VNum 7) (VNum 1) (module_state False 0 0))
       = Inl (Api (ApiError ''Failed to submit vote'' 0 NETWORK_ERROR))
   \<and> fst (submitVote (scripted (\<lambda>n. respond 503 Unparsable)) (VNum 7) (VNum 1)
             (module_state False 0 0))
       = Inl (Api (ApiError ''Server error. Please try again'' 503 SERVER_ERROR))
   \<and> fst (submitVote
             (scripted (\<lambda>n. respond 201 (Rows [[(''id'', VNum 5), (''voter_id'', VNum 7),
                                                   (''candidate_id'', VNum 1)]])))
             (VNum 7) (VNum 1) (module_state False 0 0))
       = Inr (Some [(''id'', VNum 5), (''voter_id'', VNum 7), (''candidate_id'', VNum 1)])
   \<and> fst (submitVote (scripted (\<lambda>n. respond 201 (Rows []))) (VNum 7) (VNum 1)
             (module_state False 0 0))
       = Inr None
   \<and> fst (ensureVoter (scripted (\<lambda>n. Rejected)) ''abc'' (module_state False 0 0))
       = Inl (Api (ApiError ''Failed to register voter'' 0 NETWORK_ERROR))
   \<and> fst (ensureVoter
             (scripted (\<lambda>n. respond 200 (Rows [[(''id'', VNum 3), (''fingerprint'', VStr ''abc'')]])))
             ''abc'' (module_state False 0 0))
       = Inr (Some [(''id'', VNum 3), (''fingerprint'', VStr ''abc'')])
   \<and> fst (ensureVoter (scripted (\<lambda>n. respond 200 JsonNull)) ''abc'' (module_state False 0 0))
       = Inl (Api (ApiError ''Failed to register voter'' 0 NETWORK_ERROR))
   \<and> fst (ensureVoter
             (scripted (\<lambda>n. if n = 0 then respond 404 (ErrorObject None)
                             else respond 201 (Rows [[(''id'', VNum 3), (''fingerprint'', VStr ''abc'')]])))
             ''abc'' (module_state False 0 0))
       = Inr (Some [(''id'', VNum 3), (''fingerprint'', VStr ''abc'')])
   \<and> fst (ensureVoter
             (scripted (\<lambda>n. if n = 0 then respond 200 (Rows []) else respond 422 (ErrorObject None)))
             ''abc'' (module_state False 0 0))
       = Inl (Api (ApiError ''Invalid request data'' 422 INVALID_DATA))
   \<and> fst (ensureVoter (scripted (\<lambda>n. if n = 0 then respond 200 (Rows []) else Rejected))
             ''abc'' (module_state False 0 0))
       = Inl (Api (ApiError ''Failed to register voter'' 0 NETWORK_ERROR))
   \<and> MOCK_MODE (module_state True (0 :: nat) 0)
   \<and> fst (fetchCandidates (scripted (\<lambda>n. Rejected)) (module_state True 0 0))
       = Inr (Rows MOCK_DATA_candidates)
   \<and> fst (ensureVoter (scripted (\<lambda>n. Rejected)) ''abc'' (module_state True 0 0))
       = Inr (Some [(''id'', VStr ''abc''), (''fingerprint'', VStr ''abc''),
                    (''created_at'', VTime 200)])
   \<and> fst (submitVote (scripted (\<lambda>n. Rejected)) (VNum 7) (VNum 1) (module_state True 0 0))
       = Inr (Some [(''id'', VNum 400), (''voter_id'', VNum 7), (''candidate_id'', VNum 1),
                    (''created_at'', VTime 400)])
   \<and> fst (submitVote (scripted (\<lambda>n. Rejected)) (VNum 7) (VNum 9) (module_state True 0 0))
       = Inl (Api (ApiError ''Invalid candidate'' 422 INVALID_DATA))"
proof -
  let ?st = "module_state False (0 :: nat) 0"
  let ?mock = "module_state True (0 :: nat) 0"
  let ?candidates = "Get ''candidates'' [(''select'', ''*''), (''order'', ''id.asc'')]"
  let ?vote = "Post ''votes'' [(''voter_id'', VNum 7), (''candidate_id'', VNum 1)]"
  let ?get = "Get ''voters'' [(''fingerprint'', ''eq.'' @ ''abc''), (''select'', ''*'')]"
  let ?post = "Post ''voters'' [(''fingerprint'', VStr ''abc'')]"
  let ?voter = "[(''id'', VNum 3), (''fingerprint'', VStr ''abc'')]"
  note run = fetchWithRetry.simps scripted_def respond_def module_state_def MAX_RETRIES_def
    RETRY_DELAY_def sleep_def Let_def ok_def
  have m: "\<not> MOCK_MODE ?st" and mm: "MOCK_MODE ?mock" by (simp_all add: module_state_def)
  have rej: "\<not> MOCK_MODE ?st \<and> (\<forall>n. (\<lambda>n. Rejected) n = Rejected)" using m by simp
  note T = operations_throw_ApiError
    [where rt = ?st and script = "\<lambda>n. Rejected" and fingerprint = "''abc''"
       and voterId = "VNum 7" and candidateId = "VNum 1"]
  note rejected = T [where fetch = "scripted (\<lambda>n. Rejected)" and st = ?st]
  from rejected have 1: "throws_ApiError_only (fst (fetchCandidates (scripted (\<lambda>n. Rejected)) ?st))"
    by blast
  have x: "fetchWithRetry (scripted (\<lambda>n. Rejected)) req 0 ?st
           = (Inl FetchRejected, snd (fetchWithRetry (scripted (\<lambda>n. Rejected)) req 0 ?st))" for req
    by (rule prod_eqI) (simp_all add: run)
  from rejected m x [of ?candidates]
  have 2: "fst (fetchCandidates (scripted (\<lambda>n. Rejected)) ?st)
       = Inl (Api (ApiError ''Failed to fetch candidates'' 0 NETWORK_ERROR))"
    by (metis fst_conv)
  from rejected m x [of ?vote]
  have 3: "fst (submitVote (scripted (\<lambda>n. Rejected)) (VNum 7) (VNum 1) ?st)
       = Inl (Api (ApiError ''Failed to submit vote'' 0 NETWORK_ERROR))"
    by (metis fst_conv)
  from rejected rej
  have 4: "fst (ensureVoter (scripted (\<lambda>n. Rejected)) ''abc'' ?st)
       = Inl (Api (ApiError ''Failed to register voter'' 0 NETWORK_ERROR))"
    by blast
  have a404: "fetchWithRetry (scripted (\<lambda>n. respond 404 (ErrorObject (Some ''relation does not exist''))))
                ?candidates 0 ?st
              = (Inr \<lparr>status = 404, body = ErrorObject (Some ''relation does not exist'')\<rparr>,
                 module_state False 1 0)"
    by (simp add: run)
  from operations_throw_ApiError
    [where fetch = "scripted (\<lambda>n. respond 404 (ErrorObject (Some ''relation does not exist'')))"
       and st = ?st, THEN conjunct2, THEN conjunct2, THEN conjunct2, THEN conjunct1, THEN mp, OF m,
     THEN conjunct2, rule_format, OF a404]
  have 5: "fst (fetchCandidates
             (scripted (\<lambda>n. respond 404 (ErrorObject (Some ''relation does not exist'')))) ?st)
       = Inl (Api (ApiError ''relation does not exist'' 404 UNKNOWN_ERROR))"
    by (simp add: ok_def mapError_def json_or_empty_def data_message_def)
  have a200: "fetchWithRetry (scripted (\<lambda>n. respond 200 (Rows [[(''id'', VNum 1)]]))) ?candidates 0 ?st
              = (Inr \<lparr>status = 200, body = Rows [[(''id'', VNum 1)]]\<rparr>, module_state False 1 0)"
    by (simp add: run)
  from operations_throw_ApiError
    [where fetch = "scripted (\<lambda>n. respond 200 (Rows [[(''id'', VNum 1)]]))"
       and st = ?st, THEN conjunct2, THEN conjunct2, THEN conjunct2, THEN conjunct1, THEN mp, OF m,
     THEN conjunct2, rule_format, OF a200]
  have 6: "fst (fetchCandidates (scripted (\<lambda>n. respond 200 (Rows [[(''id'', VNum 1)]]))) ?st)
       = Inr (Rows [[(''id'', VNum 1)]])"
    by (simp add: ok_def)
  have b503: "fetchWithRetry (scripted (\<lambda>n. respond 503 Unparsable)) ?vote 0 ?st
              = (Inr \<lparr>status = 503, body = Unparsable\<rparr>,
                 snd (fetchWithRetry (scripted (\<lambda>n. respond 503 Unparsable)) ?vote 0 ?st))"
    by (rule prod_eqI) (simp_all add: run)
  from operations_throw_ApiError
    [where fetch = "scripted (\<lambda>n. respond 503 Unparsable)" and st = ?st
       and voterId = "VNum 7" and candidateId = "VNum 1",
     THEN conjunct2, THEN conjunct2, THEN conjunct2, THEN conjunct2, THEN conjunct1, THEN mp, OF m,
     THEN conjunct2, rule_format, OF b503]
  have 7: "fst (submitVote (scripted (\<lambda>n. respond 503 Unparsable)) (VNum 7) (VNum 1) ?st)
       = Inl (Api (ApiError ''Server error. Please try again'' 503 SERVER_ERROR))"
    by (simp add: ok_def mapError_def json_or_empty_def data_message_def)
  have b201: "fetchWithRetry
                (scripted (\<lambda>n. respond 201 (Rows [[(''id'', VNum 5), (''voter_id'', VNum 7),
                                                      (''candidate_id'', VNum 1)]]))) ?vote 0 ?st
              = (Inr \<lparr>status = 201, body = Rows [[(''id'', VNum 5), (''voter_id'', VNum 7),
                                                    (''candidate_id'', VNum 1)]]\<rparr>,
                 module_state False 1 0)"
    by (simp add: run)
  from operations_throw_ApiError
    [where fetch = "scripted (\<lambda>n. respond 201 (Rows [[(''id'', VNum 5), (''voter_id'', VNum 7),
                                                        (''candidate_id'', VNum 1)]]))"
       and st = ?st and voterId = "VNum 7" and candidateId = "VNum 1",
     THEN conjunct2, THEN conjunct2, THEN conjunct2, THEN conjunct2, THEN conjunct1, THEN mp, OF m,
     THEN conjunct2, rule_format, OF b201]
  have 8: "fst (submitVote
             (scripted (\<lambda>n. respond 201 (Rows [[(''id'', VNum 5), (''voter_id'', VNum 7),
                                                   (''candidate_id'', VNum 1)]])))
             (VNum 7) (VNum 1) ?st)
       = Inr (Some [(''id'', VNum 5), (''voter_id'', VNum 7), (''candidate_id'', VNum 1)])"
    by (simp add: ok_def)
  have b201e: "fetchWithRetry (scripted (\<lambda>n. respond 201 (Rows []))) ?vote 0 ?st
              = (Inr \<lparr>status = 201, body = Rows []\<rparr>, module_state False 1 0)"
    by (simp add: run)
  from operations_throw_ApiError
    [where fetch = "scripted (\<lambda>n. respond 201 (Rows []))"
       and st = ?st and voterId = "VNum 7" and candidateId = "VNum 1",
     THEN conjunct2, THEN conjunct2, THEN conjunct2, THEN conjunct2, THEN conjunct1, THEN mp, OF m,
     THEN conjunct2, rule_format, OF b201e]
  have 9: "fst (submitVote (scripted (\<lambda>n. respond 201 (Rows []))) (VNum 7) (VNum 1) ?st) = Inr None"
    by (simp add: ok_def)
  have g200: "fetchWithRetry (scripted (\<lambda>n. respond 200 (Rows [?voter]))) ?get 0 ?st
              = (Inr \<lparr>status = 200, body = Rows [?voter]\<rparr>, module_state False 1 0)
              \<and> ok \<lparr>status = 200, body = Rows [?voter]\<rparr>"
    by (simp add: run)
  from operations_throw_ApiError
    [where st = ?st and fingerprint = "''abc''" and fetch = "scripted (\<lambda>n. respond 200 (Rows [?voter]))",
     THEN conjunct2, THEN conjunct2, THEN conjunct2, THEN conjunct2, THEN conjunct2,
     THEN conjunct1, THEN mp, OF m,
     THEN conjunct2, THEN conjunct1, rule_format, OF g200, THEN conjunct1, rule_format,
     of ?voter "[]"]
  have 10: "fst (ensureVoter (scripted (\<lambda>n. respond 200 (Rows [?voter]))) ''abc'' ?st)
       = Inr (Some ?voter)"
    by simp
  have gnull: "fetchWithRetry (scripted (\<lambda>n. respond 200 JsonNull)) ?get 0 ?st
              = (Inr \<lparr>status = 200, body = JsonNull\<rparr>, module_state False 1 0)
              \<and> ok \<lparr>status = 200, body = JsonNull\<rparr>"
    by (simp add: run)
  from operations_throw_ApiError
    [where st = ?st and fingerprint = "''abc''" and fetch = "scripted (\<lambda>n. respond 200 JsonNull)",
     THEN conjunct2, THEN conjunct2, THEN conjunct2, THEN conjunct2, THEN conjunct2,
     THEN conjunct1, THEN mp, OF m,
     THEN conjunct2, THEN conjunct1, rule_format, OF gnull, THEN conjunct2]
  have 11: "fst (ensureVoter (scripted (\<lambda>n. respond 200 JsonNull)) ''abc'' ?st)
       = Inl (Api (ApiError ''Failed to register voter'' 0 NETWORK_ERROR))"
    by simp
  let ?created = "\<lambda>n :: nat. if n = 0 then respond 404 (ErrorObject None) else respond 201 (Rows [?voter])"
  have c1: "fetchWithRetry (scripted ?created) ?get 0 ?st
              = (Inr \<lparr>status = 404, body = ErrorObject None\<rparr>, module_state False 1 0)
            \<and> (\<not> ok \<lparr>status = 404, body = ErrorObject None\<rparr>
                \<or> body \<lparr>status = 404, body = ErrorObject None\<rparr> = Rows []
                \<or> (\<exists>m. body \<lparr>status = 404, body = ErrorObject None\<rparr> = ErrorObject m))"
    by (simp add: run)
  have c2: "fetchWithRetry (scripted ?created) ?post 0 (module_state False 1 0)
              = (Inr \<lparr>status = 201, body = Rows [?voter]\<rparr>, module_state False 2 0)"
    by (simp add: run)
  from operations_throw_ApiError
    [where st = ?st and fingerprint = "''abc''" and fetch = "scripted ?created",
     THEN conjunct2, THEN conjunct2, THEN conjunct2, THEN conjunct2, THEN conjunct2,
     THEN conjunct1, THEN mp, OF m,
     THEN conjunct2, THEN conjunct2, rule_format, OF c1, THEN conjunct2, rule_format, OF c2]
  have 12: "fst (ensureVoter (scripted ?created) ''abc'' ?st) = Inr (Some ?voter)"
    by (simp add: ok_def)
  let ?refused = "\<lambda>n :: nat. if n = 0 then respond 200 (Rows []) else respond 422 (ErrorObject None)"
  have d1: "fetchWithRetry (scripted ?refused) ?get 0 ?st
              = (Inr \<lparr>status = 200, body = Rows []\<rparr>, module_state False 1 0)
            \<and> (\<not> ok \<lparr>status = 200, body = Rows []\<rparr>
                \<or> body \<lparr>status = 200, body = Rows []\<rparr> = Rows []
                \<or> (\<exists>m. body \<lparr>status = 200, body = Rows []\<rparr> = ErrorObject m))"
    by (simp add: run)
  have d2: "fetchWithRetry (scripted ?refused) ?post 0 (module_state False 1 0)
              = (Inr \<lparr>status = 422, body = ErrorObject None\<rparr>, module_state False 2 0)"
    by (simp add: run)
  from operations_throw_ApiError
    [where st = ?st and fingerprint = "''abc''" and fetch = "scripted ?refused",
     THEN conjunct2, THEN conjunct2, THEN conjunct2, THEN conjunct2, THEN conjunct2,
     THEN conjunct1, THEN mp, OF m,
     THEN conjunct2, THEN conjunct2, rule_format, OF d1, THEN conjunct2, rule_format, OF d2]
  have 13: "fst (ensureVoter (scripted ?refused) ''abc'' ?st)
       = Inl (Api (ApiError ''Invalid request data'' 422 INVALID_DATA))"
    by (simp add: ok_def mapError_def)
  let ?lost = "\<lambda>n :: nat. if n = 0 then respond 200 (Rows []) else Rejected"
  have e1: "fetchWithRetry (scripted ?lost) ?get 0 ?st
              = (Inr \<lparr>status = 200, body = Rows []\<rparr>, module_state False 1 0)
            \<and> (\<not> ok \<lparr>status = 200, body = Rows []\<rparr>
                \<or> body \<lparr>status = 200, body = Rows []\<rparr> = Rows []
                \<or> (\<exists>m. body \<lparr>status = 200, body = Rows []\<rparr> = ErrorObject m))"
    by (simp add: run)
  have e2: "fetchWithRetry (scripted ?lost) ?post 0 (module_state False 1 0)
              = (Inl FetchRejected,
                 snd (fetchWithRetry (scripted ?lost) ?post 0 (module_state False 1 0)))"
    by (rule prod_eqI) (simp_all add: run)
  from operations_throw_ApiError
    [where st = ?st and fingerprint = "''abc''" and fetch = "scripted ?lost",
     THEN conjunct2, THEN conjunct2, THEN conjunct2, THEN conjunct2, THEN conjunct2,
     THEN conjunct1, THEN mp, OF m,
     THEN conjunct2, THEN conjunct2, rule_format, OF e1, THEN conjunct1, rule_format, OF e2]
  have 14: "fst (ensureVoter (scripted ?lost) ''abc'' ?st)
       = Inl (Api (ApiError ''Failed to register voter'' 0 NETWORK_ERROR))"
    by simp
  from operations_throw_ApiError
    [where st = ?mock and fetch = "scripted (\<lambda>n. Rejected)" and fingerprint = "''abc''"
       and voterId = "VNum 7" and candidateId = "VNum 1",
     THEN conjunct2, THEN conjunct2, THEN conjunct2, THEN conjunct2, THEN conjunct2,
     THEN conjunct2, THEN conjunct1, THEN mp, OF mm]
  have 15: "fst (fetchCandidates (scripted (\<lambda>n. Rejected)) ?mock) = Inr (Rows MOCK_DATA_candidates)"
    by (simp add: module_state_def)
  from operations_throw_ApiError
    [where st = ?mock and fetch = "scripted (\<lambda>n. Rejected)" and fingerprint = "''abc''"
       and voterId = "VNum 7" and candidateId = "VNum 1",
     THEN conjunct2, THEN conjunct2, THEN conjunct2, THEN conjunct2, THEN conjunct2,
     THEN conjunct2, THEN conjunct1, THEN mp, OF mm]
  have 16: "fst (ensureVoter (scripted (\<lambda>n. Rejected)) ''abc'' ?mock)
       = Inr (Some [(''id'', VStr ''abc''), (''fingerprint'', VStr ''abc''),
                    (''created_at'', VTime 200)])"
    by (simp add: module_state_def mock_voter_def sleep_def)
  from operations_throw_ApiError
    [where st = ?mock and fetch = "scripted (\<lambda>n. Rejected)" and fingerprint = "''abc''"
       and voterId = "VNum 7" and candidateId = "VNum 1",
     THEN conjunct2, THEN conjunct2, THEN conjunct2, THEN conjunct2, THEN conjunct2,
     THEN conjunct2, THEN conjunct1, THEN mp, OF mm]
  have 17: "fst (submitVote (scripted (\<lambda>n. Rejected)) (VNum 7) (VNum 1) ?mock)
       = Inr (Some [(''id'', VNum 400), (''voter_id'', VNum 7), (''candidate_id'', VNum 1),
                    (''created_at'', VTime 400)])"
    by (simp add: module_state_def mock_vote_def sleep_def MOCK_DATA_candidates_def column_def)
  from operations_throw_ApiError
    [where st = ?mock and fetch = "scripted (\<lambda>n. Rejected)" and fingerprint = "''abc''"
       and voterId = "VNum 7" and candidateId = "VNum 9",
     THEN conjunct2, THEN conjunct2, THEN conjunct2, THEN conjunct2, THEN conjunct2,
     THEN conjunct2, THEN conjunct1, THEN mp, OF mm]
  have 18: "fst (submitVote (scripted (\<lambda>n. Rejected)) (VNum 7) (VNum 9) ?mock)
       = Inl (Api (ApiError ''Invalid candidate'' 422 INVALID_DATA))"
    by (simp add: module_state_def MOCK_DATA_candidates_def column_def)
  from m 1 2 5 6 3 7 8 9 4 10 11 12 13 14 mm 15 16 17 18 show ?thesis
    by (intro conjI) assumption+
qed

theorem operations_result_shape_counterexample:
  "fst (fetchCandidates (scripted (\<lambda>n. respond 404 (ErrorObject None))) (module_state False 0 0))
     = Inl (Api (ApiError ''An error occurred'' 404 UNKNOWN_ERROR))
   \<and> fst (submitVote (scripted (\<lambda>n. respond 409 (ErrorObject None))) (VNum 7) (VNum 1)
            (module_state False 0 0))
     = Inl (Api (ApiError ''You have already voted'' 409 ALREADY_VOTED))"
proof -
  have 1: "fetchWithRetry (scripted (\<lambda>n. respond 404 (ErrorObject None))) req 0 (module_state False 0 0)
        = (Inr \<lparr>status = 404, body = ErrorObject None\<rparr>, module_state False 1 0)" for req
    by (subst fetchWithRetry_client_error [where r = "\<lparr>status = 404, body = ErrorObject None\<rparr>"])
       (simp_all add: scripted_def respond_def module_state_def)
  have 2: "fetchWithRetry (scripted (\<lambda>n. respond 409 (ErrorObject None))) req 0 (module_state False 0 0)
        = (Inr \<lparr>status = 409, body = ErrorObject None\<rparr>, module_state False 1 0)" for req
    by (subst fetchWithRetry_client_error [where r = "\<lparr>status = 409, body = ErrorObject None\<rparr>"])
       (simp_all add: scripted_def respond_def module_state_def)
  have m: "\<not> MOCK_MODE (module_state False (0::nat) 0)" by (simp add: module_state_def)
  show ?thesis
    using m by (simp add: fetchCandidates_def submitVote_def submitVote_try_def 1 2 created_row_def
        ok_def error_of_def mapError_def json_or_empty_def data_message_def catch_rethrow_def)
qed

subsection \<open>Collecting the signals\<close>

lemma object_literal_Throws:
  "object_literal kps = Throws \<longleftrightarrow> list_ex (\<lambda>kp. snd kp = Throws) kps"
  by (induction kps rule: object_literal.induct) (auto split: probe.splits)

lemma object_literal_keys:
  "object_literal kps = Gives kvs \<Longrightarrow> map fst kvs = map fst kps"
  by (induction kps arbitrary: kvs rule: object_literal.induct) (auto split: probe.splits)

lemma or_default_Throws [simp]: "or_default p d = Throws \<longleftrightarrow> p = Throws"
  by (simp add: or_default_def split: probe.splits)

lemma joined_Throws [simp]: "joined p = Throws \<longleftrightarrow> p = Throws"
  by (simp add: joined_def split: probe.splits option.splits)

lemma collectSignals_Throws: "collectSignals e = Throws \<longleftrightarrow> unguarded_read_throws e"
  unfolding collectSignals_def object_literal_Throws unguarded_read_throws_def
  by simp

lemma collectSignals_keys: "collectSignals e = Gives signals \<Longrightarrow> map fst signals = signal_keys"
  unfolding collectSignals_def signal_keys_def
  by (drule object_literal_keys) simp

lemma object_literal_lookup:
  "object_literal kps = Gives kvs \<Longrightarrow> map_of kps k = Some p \<Longrightarrow>
   \<exists>v. p = Gives v \<and> map_of kvs k = Some v"
  by (induction kps arbitrary: kvs rule: object_literal.induct)
     (auto split: probe.splits if_splits)

lemma or_default_defined [simp]:
  "or_default p (Str s) \<noteq> Gives Undefined" "or_default p (Num n) \<noteq> Gives Undefined"
  by (auto simp: or_default_def or_else_def truthy_def split: probe.splits if_splits)

lemma joined_defined [simp]: "joined p \<noteq> Gives Undefined"
  by (auto simp: joined_def split: probe.splits option.splits)

lemma getWebGLFingerprint_defined: "getWebGLFingerprint e \<noteq> Undefined"
  by (simp add: getWebGLFingerprint_def split: probe.splits)

lemma collectSignals_defaulted:
  assumes "collectSignals e = Gives signals" "k \<in> set defaulted_keys"
  shows "\<exists>v. map_of signals k = Some v \<and> v \<noteq> Undefined"
proof -
  note ol = object_literal_lookup [OF assms(1) [unfolded collectSignals_def], of k]
  from assms(2) show ?thesis
    unfolding defaulted_keys_def set_simps insert_iff empty_iff
  proof (elim disjE)
  qed (use ol in \<open>auto simp: getWebGLFingerprint_defined\<close>)
qed

lemma getCanvasFingerprint_guarded:
  "canvas_context2d e = Throws \<or> canvas_context2d e = Gives False \<or> canvas_toDataURL e = Throws
   \<Longrightarrow> getCanvasFingerprint e = Str []"
  by (auto simp: getCanvasFingerprint_def split: probe.splits)

lemma getWebGLFingerprint_guarded:
  "webgl_context e = Throws \<or> webgl_context e = Gives False
   \<or> webgl_debugInfo e = Throws \<or> webgl_debugInfo e = Gives False
   \<or> webgl_vendor e = Throws \<or> webgl_renderer e = Throws
   \<Longrightarrow> getWebGLFingerprint e = Str []"
  by (auto simp: getWebGLFingerprint_def split: probe.splits)

lemma object_literal_value:
  "object_literal kps = Gives kvs \<Longrightarrow> map_of kps k = Some (Gives v) \<Longrightarrow> map_of kvs k = Some v"
  using object_literal_lookup [of kps kvs k "Gives v"] by auto

lemma collectSignals_sentinels:
  assumes "collectSignals e = Gives signals" "(k, p, d) \<in> set (defaulted_reads e)" "p = Gives v"
  shows "map_of signals k = Some (if truthy v then v else d)"
proof -
  note ol = object_literal_lookup [OF assms(1) [unfolded collectSignals_def], of k "or_default p d"]
  have od: "or_default p d = Gives (if truthy v then v else d)"
    using assms(3) by (simp add: or_default_def or_else_def)
  from assms(2) have "map_of signals k = Some (if truthy v then v else d)"
    unfolding defaulted_reads_def set_simps insert_iff empty_iff
  proof (elim disjE)
  qed (use ol od in \<open>simp_all\<close>)
  then show ?thesis .
qed

lemma collectSignals_joined:
  assumes "collectSignals e = Gives signals"
  shows "nav_languages e = Gives None \<Longrightarrow> map_of signals ''languages'' = Some (Str [])"
    and "nav_languages e = Gives (Some xs) \<Longrightarrow> map_of signals ''languages'' = Some (Str (join_comma xs))"
    and "nav_plugins e = Gives None \<Longrightarrow> map_of signals ''plugins'' = Some (Str [])"
    and "nav_plugins e = Gives (Some ys) \<Longrightarrow> map_of signals ''plugins'' = Some (Str (join_comma ys))"
    and "map_of signals ''canvas'' = Some (getCanvasFingerprint e)"
    and "map_of signals ''webgl'' = Some (getWebGLFingerprint e)"
  by (rule object_literal_value [OF assms [unfolded collectSignals_def]], simp add: joined_def)+

lemma minimalSignals_Throws: "minimalSignals e = Throws \<longleftrightarrow> minimal_read_throws e"
  unfolding minimalSignals_def object_literal_Throws minimal_read_throws_def by simp

lemma minimal_reads_unguarded: "minimal_read_throws e \<Longrightarrow> unguarded_read_throws e"
  by (auto simp: minimal_read_throws_def unguarded_read_throws_def)

lemma generateHashedFingerprint_Throws:
  "generateHashedFingerprint e = Throws \<longleftrightarrow> minimal_read_throws e"
  using minimal_reads_unguarded [of e] collectSignals_Throws [of e] minimalSignals_Throws [of e]
  by (auto simp: generateHashedFingerprint_def split: probe.splits)

lemma minimalSignals_keys:
  "minimalSignals e = Gives minimal \<Longrightarrow>
   map fst minimal = [''userAgent'', ''language'', ''platform'', ''screenWidth'',
                      ''screenHeight'', ''timezone'']"
  unfolding minimalSignals_def by (drule object_literal_keys) simp

lemma generateHashedFingerprint_catch:
  assumes "collectSignals e = Throws" "\<not> minimal_read_throws e"
  shows "\<exists>minimal. minimalSignals e = Gives minimal
           \<and> map fst minimal = [''userAgent'', ''language'', ''platform'', ''screenWidth'',
                                 ''screenHeight'', ''timezone'']
           \<and> generateHashedFingerprint e = Gives (minimal_fingerprint minimal)"
proof -
  from assms(2) obtain minimal where m: "minimalSignals e = Gives minimal"
    using minimalSignals_Throws [of e] by (cases "minimalSignals e") auto
  with assms(1) minimalSignals_keys [OF m] show ?thesis
    by (simp add: generateHashedFingerprint_def)
qed

text \<open>
  C8, as the code has it. Only the canvas and the WebGL probes are guarded: when one of
  their steps fails, the signal is the empty string. \<open>collectSignals\<close> has no guard of
  its own: it throws exactly when one of its other reads throws. When it returns, its
  result has the twenty keys in their fixed order; a signal read under \<open>||\<close> holds the
  value read when that is truthy and the empty string or zero otherwise, \<open>languages\<close>
  and \<open>plugins\<close> hold the joined list or the empty string, and \<open>canvas\<close> and
  \<open>webgl\<close> hold what the two guarded probes return. When it throws,
  \<open>generateHashedFingerprint\<close> catches that and reads six minimal signals again, with no
  guard: if none of these reads throws it returns the fallback hash of their plain
  serialization, and if one does, \<open>generateHashedFingerprint\<close> itself throws.
\<close>

theorem collectSignals_guards:
  "(collectSignals e = Throws \<longleftrightarrow> unguarded_read_throws e)
   \<and> (\<forall>signals. collectSignals e = Gives signals \<longrightarrow>
        map fst signals = signal_keys
        \<and> (\<forall>k \<in> set defaulted_keys. \<exists>v. map_of signals k = Some v \<and> v \<noteq> Undefined)
        \<and> (\<forall>k p d v. (k, p, d) \<in> set (defaulted_reads e) \<and> p = Gives v \<longrightarrow>
              map_of signals k = Some (if truthy v then v else d))
        \<and> (nav_languages e = Gives None \<longrightarrow> map_of signals ''languages'' = Some (Str []))
        \<and> (\<forall>xs. nav_languages e = Gives (Some xs) \<longrightarrow>
              map_of signals ''languages'' = Some (Str (join_comma xs)))
        \<and> (nav_plugins e = Gives None \<longrightarrow> map_of signals ''plugins'' = Some (Str []))
        \<and> (\<forall>xs. nav_plugins e = Gives (Some xs) \<longrightarrow>
              map_of signals ''plugins'' = Some (Str (join_comma xs)))
        \<and> map_of signals ''canvas'' = Some (getCanvasFingerprint e)
        \<and> map_of signals ''webgl'' = Some (getWebGLFingerprint e))
   \<and> (canvas_context2d e = Throws \<or> canvas_context2d e = Gives False
        \<or> canvas_toDataURL e = Throws \<longrightarrow> getCanvasFingerprint e = Str [])
   \<and> (webgl_context e = Throws \<or> webgl_context e = Gives False
        \<or> webgl_debugInfo e = Throws \<or> webgl_debugInfo e = Gives False
        \<or> webgl_vendor e = Throws \<or> webgl_renderer e = Throws
        \<longrightarrow> getWebGLFingerprint e = Str [])
   \<and> (\<forall>minimal. collectSignals e = Throws \<and> minimalSignals e = Gives minimal \<longrightarrow>
        generateHashedFingerprint e = Gives (fallbackHash (stringify_plain minimal)))
   \<and> (collectSignals e = Throws \<and> \<not> minimal_read_throws e \<longrightarrow>
        (\<exists>minimal. minimalSignals e = Gives minimal
           \<and> map fst minimal = [''userAgent'', ''language'', ''platform'', ''screenWidth'',
                                 ''screenHeight'', ''timezone'']
           \<and> generateHashedFingerprint e = Gives (fallbackHash (stringify_plain minimal))))
   \<and> (generateHashedFingerprint e = Throws \<longleftrightarrow> minimal_read_throws e)
   \<and> (minimal_read_throws e \<longrightarrow> collectSignals e = Throws)"
proof (intro conjI allI impI ballI)
  show "collectSignals e = Throws \<longleftrightarrow> unguarded_read_throws e"
    by (rule collectSignals_Throws)
  show "generateHashedFingerprint e = Throws \<longleftrightarrow> minimal_read_throws e"
    by (rule generateHashedFingerprint_Throws)
next
  fix signals assume "collectSignals e = Gives signals"
  then show "map fst signals = signal_keys" by (rule collectSignals_keys)
next
  fix signals k assume "collectSignals e = Gives signals" "k \<in> set defaulted_keys"
  then show "\<exists>v. map_of signals k = Some v \<and> v \<noteq> Undefined"
    by (rule collectSignals_defaulted)
next
  fix signals k p d v
  assume "collectSignals e = Gives signals" "(k, p, d) \<in> set (defaulted_reads e) \<and> p = Gives v"
  then show "map_of signals k = Some (if truthy v then v else d)"
    using collectSignals_sentinels by blast
next
  fix signals assume s: "collectSignals e = Gives signals"
  show "map_of signals ''canvas'' = Some (getCanvasFingerprint e)"
    "map_of signals ''webgl'' = Some (getWebGLFingerprint e)"
    using collectSignals_joined(5,6) [OF s] by simp_all
  { assume "nav_languages e = Gives None"
    then show "map_of signals ''languages'' = Some (Str [])"
      by (rule collectSignals_joined(1) [OF s]) }
  { assume "nav_plugins e = Gives None"
    then show "map_of signals ''plugins'' = Some (Str [])"
      by (rule collectSignals_joined(3) [OF s]) }
  { fix xs assume "nav_languages e = Gives (Some xs)"
    then show "map_of signals ''languages'' = Some (Str (join_comma xs))"
      by (rule collectSignals_joined(2) [OF s]) }
  { fix xs assume "nav_plugins e = Gives (Some xs)"
    then show "map_of signals ''plugins'' = Some (Str (join_comma xs))"
      by (rule collectSignals_joined(4) [OF s]) }
next
  assume "canvas_context2d e = Throws \<or> canvas_context2d e = Gives False
        \<or> canvas_toDataURL e = Throws"
  then show "getCanvasFingerprint e = Str []" by (rule getCanvasFingerprint_guarded)
next
  assume "webgl_context e = Throws \<or> webgl_context e = Gives False
        \<or> webgl_debugInfo e = Throws \<or> webgl_debugInfo e = Gives False
        \<or> webgl_vendor e = Throws \<or> webgl_renderer e = Throws"
  then show "getWebGLFingerprint e = Str []" by (rule getWebGLFingerprint_guarded)
next
  fix minimal assume "collectSignals e = Throws \<and> minimalSignals e = Gives minimal"
  then show "generateHashedFingerprint e = Gives (fallbackHash (stringify_plain minimal))"
    by (simp add: generateHashedFingerprint_def minimal_fingerprint_def)
next
  assume "collectSignals e = Throws \<and> \<not> minimal_read_throws e"
  then show "\<exists>minimal. minimalSignals e = Gives minimal
           \<and> map fst minimal = [''userAgent'', ''language'', ''platform'', ''screenWidth'',
                                 ''screenHeight'', ''timezone'']
           \<and> generateHashedFingerprint e = Gives (fallbackHash (stringify_plain minimal))"
    using generateHashedFingerprint_catch [of e] by (simp add: minimal_fingerprint_def)
next
  assume "minimal_read_throws e"
  then show "collectSignals e = Throws"
    using minimal_reads_unguarded [of e] collectSignals_Throws [of e] by blast
qed


theorem collectSignals_guards_witness:
  "collectSignals (sample_env\<lparr>intl_timeZone := Throws\<rparr>) = Throws
   \<and> unguarded_read_throws (sample_env\<lparr>intl_timeZone := Throws\<rparr>)
   \<and> \<not> minimal_read_throws (sample_env\<lparr>intl_timeZone := Throws\<rparr>)
   \<and> (\<exists>minimal. minimalSignals (sample_env\<lparr>intl_timeZone := Throws\<rparr>) = Gives minimal
        \<and> map fst minimal = [''userAgent'', ''language'', ''platform'', ''screenWidth'',
                              ''screenHeight'', ''timezone'']
        \<and> generateHashedFingerprint (sample_env\<lparr>intl_timeZone := Throws\<rparr>)
            = Gives (fallbackHash (stringify_plain minimal)))
   \<and> minimal_read_throws (sample_env\<lparr>nav_userAgent := Throws\<rparr>)
   \<and> collectSignals (sample_env\<lparr>nav_userAgent := Throws\<rparr>) = Throws
   \<and> generateHashedFingerprint (sample_env\<lparr>nav_userAgent := Throws\<rparr>) = Throws
   \<and> (\<exists>signals. collectSignals sample_env = Gives signals \<and> map fst signals = signal_keys
        \<and> (\<exists>v. map_of signals ''userAgent'' = Some v \<and> v \<noteq> Undefined)
        \<and> map_of signals ''deviceMemory'' = Some (Num 0)
        \<and> map_of signals ''doNotTrack'' = Some (Str [])
        \<and> map_of signals ''screenWidth'' = Some (Num 1920)
        \<and> map_of signals ''languages'' = Some (Str (join_comma [ascii ''en'', ascii ''fr'']))
        \<and> map_of signals ''plugins'' = Some (Str (join_comma []))
        \<and> map_of signals ''canvas'' = Some (Str [])
        \<and> map_of signals ''webgl'' = Some (Str []))
   \<and> (\<exists>signals. collectSignals (sample_env\<lparr>nav_languages := Gives None, nav_plugins := Gives None\<rparr>)
                     = Gives signals
        \<and> map_of signals ''languages'' = Some (Str [])
        \<and> map_of signals ''plugins'' = Some (Str []))
   \<and> nav_deviceMemory sample_env = Gives Undefined
   \<and> nav_doNotTrack sample_env = Gives Null
   \<and> canvas_context2d sample_env = Gives False \<and> getCanvasFingerprint sample_env = Str []
   \<and> webgl_context sample_env = Throws \<and> getWebGLFingerprint sample_env = Str []"
proof -
  let ?bad = "sample_env\<lparr>intl_timeZone := Throws\<rparr>"
  let ?worse = "sample_env\<lparr>nav_userAgent := Throws\<rparr>"
  let ?bare = "sample_env\<lparr>nav_languages := Gives None, nav_plugins := Gives None\<rparr>"
  have u: "unguarded_read_throws ?bad"
    by (simp add: unguarded_read_throws_def sample_env_def)
  have nm: "\<not> minimal_read_throws ?bad"
    by (simp add: minimal_read_throws_def sample_env_def)
  have mw: "minimal_read_throws ?worse"
    by (simp add: minimal_read_throws_def sample_env_def)
  have c: "canvas_context2d sample_env = Gives False" "webgl_context sample_env = Throws"
    by (simp_all add: sample_env_def)
  have r: "nav_deviceMemory sample_env = Gives Undefined" "nav_doNotTrack sample_env = Gives Null"
    "screen_width sample_env = Gives (Num 1920)"
    "nav_languages sample_env = Gives (Some [ascii ''en'', ascii ''fr''])"
    "nav_plugins sample_env = Gives (Some [])"
    "nav_languages ?bare = Gives None" "nav_plugins ?bare = Gives None"
    by (simp_all add: sample_env_def)
  have t: "\<not> truthy Undefined" "\<not> truthy Null" "truthy (Num 1920)"
    by (simp_all add: truthy_def)
  have d: "(''deviceMemory'', nav_deviceMemory sample_env, Num 0) \<in> set (defaulted_reads sample_env)"
    "(''doNotTrack'', nav_doNotTrack sample_env, Str []) \<in> set (defaulted_reads sample_env)"
    "(''screenWidth'', screen_width sample_env, Num 0) \<in> set (defaulted_reads sample_env)"
    by (simp_all add: defaulted_reads_def)
  have k: "''userAgent'' \<in> set defaulted_keys" by (simp add: defaulted_keys_def)
  have g: "\<exists>signals. collectSignals sample_env = Gives signals"
    using collectSignals_guards [of sample_env]
    by (cases "collectSignals sample_env") (simp_all add: unguarded_read_throws_def sample_env_def)
  have gb: "\<exists>signals. collectSignals ?bare = Gives signals"
    using collectSignals_guards [of ?bare]
    by (cases "collectSignals ?bare") (simp_all add: unguarded_read_throws_def sample_env_def)
  from collectSignals_guards [of ?bad] u have 1: "collectSignals ?bad = Throws" by blast
  from collectSignals_guards [of ?bad] 1 nm
  have 2: "\<exists>minimal. minimalSignals ?bad = Gives minimal
        \<and> map fst minimal = [''userAgent'', ''language'', ''platform'', ''screenWidth'',
                              ''screenHeight'', ''timezone'']
        \<and> generateHashedFingerprint ?bad = Gives (fallbackHash (stringify_plain minimal))"
    by blast
  from collectSignals_guards [of ?worse] mw
  have 3: "collectSignals ?worse = Throws" "generateHashedFingerprint ?worse = Throws"
    by blast+
  from collectSignals_guards [of sample_env] c
  have 4: "getCanvasFingerprint sample_env = Str []" "getWebGLFingerprint sample_env = Str []"
    by blast+
  from g obtain signals where s: "collectSignals sample_env = Gives signals" by blast
  note th = collectSignals_guards [of sample_env, THEN conjunct2, THEN conjunct1, rule_format, OF s]
  from th have s1: "map fst signals = signal_keys" by blast
  from th k have s2: "\<exists>v. map_of signals ''userAgent'' = Some v \<and> v \<noteq> Undefined" by blast
  from th d(1) r(1) have "map_of signals ''deviceMemory'' = Some (if truthy Undefined then Undefined else Num 0)"
    by blast
  with t have s3: "map_of signals ''deviceMemory'' = Some (Num 0)" by simp
  from th d(2) r(2) have "map_of signals ''doNotTrack'' = Some (if truthy Null then Null else Str [])"
    by blast
  with t have s4: "map_of signals ''doNotTrack'' = Some (Str [])" by simp
  from th d(3) r(3) have "map_of signals ''screenWidth'' = Some (if truthy (Num 1920) then Num 1920 else Num 0)"
    by blast
  with t have s5: "map_of signals ''screenWidth'' = Some (Num 1920)" by simp
  from th r(4) have s6: "map_of signals ''languages'' = Some (Str (join_comma [ascii ''en'', ascii ''fr'']))"
    by blast
  from th r(5) have s7: "map_of signals ''plugins'' = Some (Str (join_comma []))" by blast
  from th 4 have s8: "map_of signals ''canvas'' = Some (Str [])" "map_of signals ''webgl'' = Some (Str [])"
    by simp_all
  from gb obtain bare where b: "collectSignals ?bare = Gives bare" by blast
  note tb = collectSignals_guards [of ?bare, THEN conjunct2, THEN conjunct1, rule_format, OF b]
  from tb r(6,7) have b1: "map_of bare ''languages'' = Some (Str [])" "map_of bare ''plugins'' = Some (Str [])"
    by blast+
  from s s1 s2 s3 s4 s5 s6 s7 s8
  have 5: "\<exists>signals. collectSignals sample_env = Gives signals \<and> map fst signals = signal_keys
        \<and> (\<exists>v. map_of signals ''userAgent'' = Some v \<and> v \<noteq> Undefined)
        \<and> map_of signals ''deviceMemory'' = Some (Num 0)
        \<and> map_of signals ''doNotTrack'' = Some (Str [])
        \<and> map_of signals ''screenWidth'' = Some (Num 1920)
        \<and> map_of signals ''languages'' = Some (Str (join_comma [ascii ''en'', ascii ''fr'']))
        \<and> map_of signals ''plugins'' = Some (Str (join_comma []))
        \<and> map_of signals ''canvas'' = Some (Str [])
        \<and> map_of signals ''webgl'' = Some (Str [])"
    by blast
  from b b1
  have 6: "\<exists>signals. collectSignals ?bare = Gives signals
        \<and> map_of signals ''languages'' = Some (Str [])
        \<and> map_of signals ''plugins'' = Some (Str [])"
    by blast
  show ?thesis
    using 1 u nm 2 mw 3 5 6 r(1,2) c 4 by (intro conjI) assumption+
qed

theorem collectSignals_never_throws_counterexample:
  "collectSignals (sample_env\<lparr>intl_timeZone := Throws\<rparr>) = Throws"
  by (simp add: collectSignals_def sample_env_def or_default_def joined_def)

subsection \<open>A new election is closed\<close>

lemma new_election_is_open: "column (new_election electionData) ''is_open'' = Some (VBool False)"
  by (simp add: new_election_def column_def split: option.splits)

lemma stored_is_open:
  "column ((''id'', i) # new_election electionData) ''is_open'' = Some (VBool False)"
  using new_election_is_open [of electionData] by (simp add: column_def)

lemma set_columns_present:
  "map_of (map (\<lambda>kv. (fst kv, case map_of [(''is_open'', v)] (fst kv) of
                                   Some v \<Rightarrow> v | None \<Rightarrow> snd kv)) r) ''is_open''
   = (if map_of r ''is_open'' = None then None else Some v)"
  by (induction r) auto

lemma set_columns_is_open:
  "column (set_columns [(''is_open'', v)] r) ''is_open'' = Some v"
  unfolding set_columns_def column_def map_of_append map_add_def set_columns_present
  by (cases "map_of r ''is_open''") simp_all

text \<open>
  C10. Whatever \<open>electionData\<close> holds, an \<open>is_open\<close> of its own included, the row
  that \<open>createElection\<close> inserts has \<open>is_open = false\<close>, and so has the election the
  table then stores and returns. It stays so until \<open>toggleElectionStatus\<close> is called
  with \<open>true\<close> for its id, which stores and returns it open.
\<close>

theorem createElection_closed:
  "column (new_election electionData) ''is_open'' = Some (VBool False)
   \<and> (\<exists>r. createElection table_insert electionData db
            = (\<lparr>success = True, data = Some r, error = None\<rparr>,
               db\<lparr>elections := elections db @ [r], election_seq := election_seq db + 1\<rparr>)
          \<and> column r ''id'' = Some (VNum (election_seq db))
          \<and> column r ''is_open'' = Some (VBool False)
          \<and> (\<not> list_ex (\<lambda>x. column x ''id'' = Some (VNum (election_seq db))) (elections db) \<longrightarrow>
               (\<exists>r' db'. toggleElectionStatus table_update (VNum (election_seq db)) (VBool True)
                            (snd (createElection table_insert electionData db))
                          = (\<lparr>success = True, data = Some r', error = None\<rparr>, db')
                  \<and> column r' ''is_open'' = Some (VBool True)
                  \<and> r' \<in> set (elections db'))))"
proof -
  let ?r = "(''id'', VNum (election_seq db)) # new_election electionData"
  let ?db1 = "db\<lparr>elections := elections db @ [?r], election_seq := election_seq db + 1\<rparr>"
  have c: "createElection table_insert electionData db
            = (\<lparr>success = True, data = Some ?r, error = None\<rparr>, ?db1)"
    by (simp add: createElection_def table_insert_def reply_def)
  have i: "column ?r ''id'' = Some (VNum (election_seq db))" by (simp add: column_def)
  have t: "\<exists>r' db'. toggleElectionStatus table_update (VNum (election_seq db)) (VBool True)
                            (snd (createElection table_insert electionData db))
                          = (\<lparr>success = True, data = Some r', error = None\<rparr>, db')
                  \<and> column r' ''is_open'' = Some (VBool True)
                  \<and> r' \<in> set (elections db')"
    if fresh: "\<not> list_ex (\<lambda>x. column x ''id'' = Some (VNum (election_seq db))) (elections db)"
  proof -
    have f: "filter (\<lambda>r. column r ''id'' = Some (VNum (election_seq db))) (elections db) = []"
      using fresh by (simp add: filter_empty_list_ex)
    have "toggleElectionStatus table_update (VNum (election_seq db)) (VBool True) ?db1
          = (\<lparr>success = True, data = Some (set_columns [(''is_open'', VBool True)] ?r), error = None\<rparr>,
             ?db1\<lparr>elections := map (\<lambda>r. if column r ''id'' = Some (VNum (election_seq db))
                      then set_columns [(''is_open'', VBool True)] r else r) (elections db @ [?r])\<rparr>)"
      using i by (simp add: toggleElectionStatus_def table_update_def reply_def f Let_def)
    then show ?thesis
      using c i by (auto simp: set_columns_is_open)
  qed
  from c i stored_is_open [of "VNum (election_seq db)" electionData] t new_election_is_open [of electionData]
  show ?thesis by blast
qed

theorem createElection_closed_witness:
  "\<not> list_ex (\<lambda>x. column x ''id'' = Some (VNum 1)) []
   \<and> (\<exists>r. createElection table_insert
              [(''title'', VStr ''Board 2026''), (''is_open'', VBool True)]
              \<lparr>elections = [], election_seq = 1\<rparr>
            = (\<lparr>success = True, data = Some r, error = None\<rparr>,
               \<lparr>elections = [r], election_seq = 2\<rparr>)
          \<and> column r ''is_open'' = Some (VBool False)
          \<and> (\<exists>r' db'. toggleElectionStatus table_update (VNum 1) (VBool True)
                            \<lparr>elections = [r], election_seq = 2\<rparr>
                          = (\<lparr>success = True, data = Some r', error = None\<rparr>, db')
                  \<and> column r' ''is_open'' = Some (VBool True)))"
proof -
  let ?ed = "[(''title'', VStr ''Board 2026''), (''is_open'', VBool True)]"
  let ?db = "\<lparr>elections = [], election_seq = 1\<rparr>"
  have fresh: "\<not> list_ex (\<lambda>x. column x ''id'' = Some (VNum 1)) []" by simp
  from createElection_closed [of ?ed ?db]
  obtain r where r: "createElection table_insert ?ed ?db
            = (\<lparr>success = True, data = Some r, error = None\<rparr>,
               ?db\<lparr>elections := elections ?db @ [r], election_seq := election_seq ?db + 1\<rparr>)"
     "column r ''is_open'' = Some (VBool False)"
     "\<not> list_ex (\<lambda>x. column x ''id'' = Some (VNum (election_seq ?db))) (elections ?db) \<longrightarrow>
               (\<exists>r' db'. toggleElectionStatus table_update (VNum (election_seq ?db)) (VBool True)
                            (snd (createElection table_insert ?ed ?db))
                          = (\<lparr>success = True, data = Some r', error = None\<rparr>, db')
                  \<and> column r' ''is_open'' = Some (VBool True)
                  \<and> r' \<in> set (elections db'))"
    by blast
  from r(3) r(1) have "\<exists>r' db'. toggleElectionStatus table_update (VNum 1) (VBool True)
                            \<lparr>elections = [r], election_seq = 2\<rparr>
                          = (\<lparr>success = True, data = Some r', error = None\<rparr>, db')
                  \<and> column r' ''is_open'' = Some (VBool True)"
    by auto
  with r(1,2) fresh show ?thesis by auto
qed

subsection \<open>The fallback hash\<close>

lemma fallbackHash_step_rolling: "fallbackHash_step h c = spec_rolling_step h c"
  unfolding fallbackHash_step_def spec_rolling_step_def Let_def bitAnd_def shiftLeft_def
    toInt32_def
  apply simp
  apply (rule arg_cong [where f = sint])
  apply (simp add: push_bit_eq_mult)
  done

lemma fallbackHash_loop_rolling: "fallbackHash_loop s = spec_rolling_hash s"
proof -
  have "fallbackHash_step = spec_rolling_step"
    by (intro ext) (rule fallbackHash_step_rolling)
  then show ?thesis
    by (simp add: fallbackHash_loop_def spec_rolling_hash_def)
qed

lemma toInt32_range: "- (2 ^ 31) \<le> toInt32 x \<and> toInt32 x < 2 ^ 31"
  unfolding toInt32_def using sint_range_size [of "word_of_int x :: 32 word"]
  by (simp add: word_size)

lemma spec_rolling_hash_range: "\<bar>spec_rolling_hash s\<bar> \<le> 2 ^ 31"
proof (cases s rule: rev_cases)
  case Nil
  then show ?thesis by (simp add: spec_rolling_hash_def)
next
  case (snoc ys y)
  have "\<bar>toInt32 (foldl spec_rolling_step 0 ys * 31 + uint y)\<bar> \<le> 2 ^ 31"
    using toInt32_range [of "foldl spec_rolling_step 0 ys * 31 + uint y"] by linarith
  with snoc show ?thesis
    by (simp add: spec_rolling_hash_def spec_rolling_step_def)
qed

text \<open>
  The number handed to \<open>&\<close> in each round stays far below \<open>2 ^ 53\<close>, so the doubles of
  the source hold it exactly.
\<close>

lemma fallbackHash_intermediate_exact:
  assumes "\<bar>hash\<bar> \<le> 2 ^ 31"
  shows "\<bar>(shiftLeft hash 5 - hash) + uint (c :: 16 word)\<bar> < 2 ^ 53"
proof -
  have "- (2 ^ 31) \<le> shiftLeft hash 5 \<and> shiftLeft hash 5 < 2 ^ 31"
    unfolding shiftLeft_def
    using sint_range_size [of "push_bit 5 (word_of_int hash :: 32 word)"]
    by (simp add: word_size)
  then have s: "- 2147483648 \<le> shiftLeft hash 5" "shiftLeft hash 5 < 2147483648"
    by simp_all
  have "uint c < 2 ^ 16"
    by (rule order_less_le_trans [OF uint_lt2p]) simp
  then have u: "uint c < 65536" by simp
  have n: "0 \<le> uint c" by simp
  from assms have h: "\<bar>hash\<bar> \<le> 2147483648" by simp
  from s u n h have "\<bar>(shiftLeft hash 5 - hash) + uint c\<bar> < 9007199254740992"
    by linarith
  then show ?thesis by simp
qed

lemma toString36_length: "n < 36 ^ k \<Longrightarrow> 0 < k \<Longrightarrow> length (toString36 n) \<le> k"
proof (induction n arbitrary: k rule: toString36.induct)
  case (1 n)
  show ?case
  proof (cases "n < 36")
    case True
    then show ?thesis using 1(3) by (subst toString36.simps) simp
  next
    case False
    then obtain j where k: "k = Suc j" using 1(3) by (cases k) auto
    from False 1(2) k have "0 < j" by (cases j) auto
    moreover from 1(2) k have "n div 36 < 36 ^ j"
      by (simp add: less_mult_imp_div_less mult.commute)
    ultimately have "length (toString36 (n div 36)) \<le> j"
      using 1(1) [OF False] by blast
    then show ?thesis using False k by (subst toString36.simps) simp
  qed
qed

lemma toString36_nonempty: "toString36 n \<noteq> []"
  by (induction n rule: toString36.induct) (subst toString36.simps, simp)

lemma value36_digit36: "d < 36 \<Longrightarrow> value36 (digit36 d) = d"
proof -
  assume "d < 36"
  then have "d \<in> set [0..<36]" by simp
  moreover have "\<forall>d \<in> set [0..<36]. value36 (digit36 d) = d" by code_simp
  ultimately show ?thesis by blast
qed

lemma fromBase36_snoc: "fromBase36 (ds @ [c]) = fromBase36 ds * 36 + value36 c"
  by (simp add: fromBase36_def)

lemma fromBase36_toString36: "fromBase36 (toString36 n) = n"
proof (induction n rule: toString36.induct)
  case (1 n)
  show ?case
  proof (cases "n < 36")
    case True
    then show ?thesis
      by (subst toString36.simps) (simp add: fromBase36_def value36_digit36)
  next
    case False
    then show ?thesis using 1
      by (subst toString36.simps) (simp add: fromBase36_snoc value36_digit36)
  qed
qed

lemma toString36_digits: "set (toString36 n) \<subseteq> set ''0123456789abcdefghijklmnopqrstuvwxyz''"
proof (induction n rule: toString36.induct)
  case (1 n)
  have d: "\<And>d. d < 36 \<Longrightarrow> digit36 d \<in> set ''0123456789abcdefghijklmnopqrstuvwxyz''"
    unfolding digit36_def by (rule nth_mem) simp
  show ?case
  proof (cases "n < 36")
    case True
    then show ?thesis using d [of n] by (subst toString36.simps) simp
  next
    case False
    then show ?thesis using 1 d [of "n mod 36"] by (subst toString36.simps) simp
  qed
qed

lemma length_hexOfBytes: "length (hexOfBytes bs) = 2 * length bs"
  by (induction bs) (simp_all add: hexOfBytes_def hexByte_def)

lemma hexOfBytes_digits: "set (hexOfBytes bs) \<subseteq> set ''0123456789abcdef''"
proof -
  have d: "digit16 d \<in> set ''0123456789abcdef''" if "d < 16" for d
    unfolding digit16_def using that by (intro nth_mem) simp
  have "set (hexByte b) \<subseteq> set ''0123456789abcdef''" for b
  proof -
    have "unat b < 2 ^ 8" using unsigned_less [of b, where ?'a = nat] by simp
    then have "unat b div 16 < 16" "unat b mod 16 < 16" by simp_all
    then have "digit16 (unat b div 16) \<in> set ''0123456789abcdef''"
      "digit16 (unat b mod 16) \<in> set ''0123456789abcdef''"
      by (simp_all only: d)
    then show ?thesis unfolding hexByte_def by simp
  qed
  then show ?thesis unfolding hexOfBytes_def by (induction bs) auto
qed

lemma fallbackHash_length: "length (fallbackHash s) \<le> 6"
proof -
  have "nat \<bar>fallbackHash_loop s\<bar> < 36 ^ 6"
    using spec_rolling_hash_range [of s] by (simp add: fallbackHash_loop_rolling)
  then show ?thesis
    unfolding fallbackHash_def by (rule toString36_length) simp
qed

text \<open>
  C7. For every string, \<open>fallbackHash\<close> is the base-36 numeral (digits \<open>0-9a-z\<close>, reading
  back to the number) of the absolute value of the rolling hash \<open>h := h * 31 + charCode\<close>
  wrapped to signed 32-bit. It is a function of the string alone: the definition reads
  nothing else. Its output has between one and six characters, so it is never the
  string of 64 lowercase hexadecimal digits that the cryptographic path makes of a
  32-byte digest.
\<close>

theorem fallbackHash_is_base36_of_rolling_hash:
  "fallbackHash s = toString36 (nat \<bar>spec_rolling_hash s\<bar>)
   \<and> fromBase36 (fallbackHash s) = nat \<bar>spec_rolling_hash s\<bar>
   \<and> set (fallbackHash s) \<subseteq> set ''0123456789abcdefghijklmnopqrstuvwxyz''
   \<and> 1 \<le> length (fallbackHash s) \<and> length (fallbackHash s) \<le> 6
   \<and> (\<forall>hashArray. length hashArray = 32 \<longrightarrow>
         length (hexOfBytes hashArray) = 64
         \<and> set (hexOfBytes hashArray) \<subseteq> set ''0123456789abcdef''
         \<and> fallbackHash s \<noteq> hexOfBytes hashArray)"
proof -
  have eq: "fallbackHash s = toString36 (nat \<bar>spec_rolling_hash s\<bar>)"
    by (simp add: fallbackHash_def fallbackHash_loop_rolling)
  have len: "length (fallbackHash s) \<le> 6" by (rule fallbackHash_length)
  have ne: "1 \<le> length (fallbackHash s)"
    using toString36_nonempty [of "nat \<bar>fallbackHash_loop s\<bar>"]
    by (simp add: fallbackHash_def Suc_le_eq)
  have hex: "length (hexOfBytes hashArray) = 64
             \<and> set (hexOfBytes hashArray) \<subseteq> set ''0123456789abcdef''
             \<and> fallbackHash s \<noteq> hexOfBytes hashArray"
    if "length hashArray = 32" for hashArray
  proof -
    have "length (hexOfBytes hashArray) = 64" using that by (simp add: length_hexOfBytes)
    with len hexOfBytes_digits [of hashArray] show ?thesis by auto
  qed
  have rd: "fromBase36 (fallbackHash s) = nat \<bar>spec_rolling_hash s\<bar>"
    by (simp only: eq fromBase36_toString36)
  have digits: "set (fallbackHash s) \<subseteq> set ''0123456789abcdefghijklmnopqrstuvwxyz''"
    unfolding fallbackHash_def by (rule toString36_digits)
  from eq rd digits ne len hex show ?thesis by blast
qed

theorem fallbackHash_is_base36_of_rolling_hash_witness:
  "fallbackHash (ascii ''hello'') = ''1n1e4y''
   \<and> spec_rolling_hash (ascii ''hello'') = 99162322
   \<and> length (replicate 32 (0 :: 8 word)) = 32
   \<and> fallbackHash (ascii ''hello'') \<noteq> hexOfBytes (replicate 32 0)"
proof -
  have r: "spec_rolling_hash (ascii ''hello'') = 99162322"
    by (simp add: spec_rolling_hash_def spec_rolling_step_def toInt32_def ascii_def)
  have t: "toString36 99162322 = ''1n1e4y''"
    by (simp add: toString36.simps digit36_def)
  have l: "length (replicate 32 (0 :: 8 word)) = 32" by simp
  note th = fallbackHash_is_base36_of_rolling_hash [of "ascii ''hello''"]
  from th have a: "fallbackHash (ascii ''hello'') = toString36 (nat \<bar>spec_rolling_hash (ascii ''hello'')\<bar>)"
    by blast
  from th l have b: "fallbackHash (ascii ''hello'') \<noteq> hexOfBytes (replicate 32 0)"
    by blast
  from a r t have "fallbackHash (ascii ''hello'') = ''1n1e4y''" by simp
  with r l b show ?thesis by blast
qed

subsection \<open>The error mapper\<close>

text \<open>
  C6. \<open>mapError\<close> sends 409, 422, 429, 500, 503 and 404 to \<open>ALREADY_VOTED\<close>,
  \<open>INVALID_DATA\<close>, \<open>RATE_LIMIT\<close>, \<open>SERVER_ERROR\<close>, \<open>SERVER_ERROR\<close> and
  \<open>UNKNOWN_ERROR\<close>; 502 to \<open>SERVER_ERROR\<close>; every other status to \<open>UNKNOWN_ERROR\<close>
  with the message of the store when it sent a non-empty one, and the default text
  otherwise.
\<close>

theorem mapError_status_table:
  "code (mapError 409 d) = ALREADY_VOTED
   \<and> code (mapError 422 d) = INVALID_DATA
   \<and> code (mapError 429 d) = RATE_LIMIT
   \<and> code (mapError 500 d) = SERVER_ERROR
   \<and> code (mapError 503 d) = SERVER_ERROR
   \<and> code (mapError 404 d) = UNKNOWN_ERROR
   \<and> code (mapError 502 d) = SERVER_ERROR
   \<and> (\<forall>status. status \<notin> {409, 422, 429, 500, 502, 503} \<longrightarrow>
         code (mapError status d) = UNKNOWN_ERROR
         \<and> err_status (mapError status d) = status
         \<and> message (mapError status d) =
             (case d of Some m \<Rightarrow> if m = [] then ''An error occurred'' else m
              | None \<Rightarrow> ''An error occurred''))"
  by (simp add: mapError_def)

theorem mapError_status_table_witness:
  "(404 :: int) \<notin> {409, 422, 429, 500, 502, 503}
   \<and> mapError 404 (Some ''relation does not exist'')
       = ApiError ''relation does not exist'' 404 UNKNOWN_ERROR
   \<and> code (mapError 409 (Some ''relation does not exist'')) = ALREADY_VOTED"
proof -
  have h: "(404 :: int) \<notin> {409, 422, 429, 500, 502, 503}" by simp
  have "code (mapError 404 (Some ''relation does not exist'')) = UNKNOWN_ERROR
        \<and> err_status (mapError 404 (Some ''relation does not exist'')) = 404
        \<and> message (mapError 404 (Some ''relation does not exist'')) = ''relation does not exist''"
    using mapError_status_table [of "Some ''relation does not exist''"] h by simp
  moreover have "code (mapError 409 (Some ''relation does not exist'')) = ALREADY_VOTED"
    using mapError_status_table [of "Some ''relation does not exist''"] by simp
  ultimately show ?thesis using h
    by (cases "mapError 404 (Some ''relation does not exist'')") simp
qed

subsection \<open>The canonical serialization\<close>

lemma stringify_map_of:
  "map_of obj = map_of obj' \<Longrightarrow> stringify obj ks = stringify obj' ks"
  by (simp add: stringify_def member_def [abs_def])

lemma sort_keys_eq:
  assumes "distinct (map fst S)" "distinct (map fst S')" "set S = set S'"
  shows "sort (map fst S) = sort (map fst S')"
proof -
  have "set (map fst S) = set (map fst S')" using assms(3) by simp
  with assms(1,2) have "mset (map fst S) = mset (map fst S')"
    by (simp only: set_eq_iff_mset_eq_distinct)
  then have "mset (sort (map fst S')) = mset (map fst S)" by simp
  then show ?thesis by (rule properties_for_sort) simp
qed

lemma property_list_acc:
  "distinct (acc @ ks) \<Longrightarrow>
   foldl (\<lambda>acc k. if k \<in> set acc then acc else acc @ [k]) acc ks = acc @ ks"
  by (induction ks arbitrary: acc) auto

lemma property_list_distinct: "distinct ks \<Longrightarrow> property_list ks = ks"
  using property_list_acc [of "[]" ks] by (simp add: property_list_def)

lemma member_of_pair:
  "distinct (map fst S) \<Longrightarrow> kv \<in> set S \<Longrightarrow> member S (fst kv) = spec_member kv"
  by (cases kv) (simp add: member_def spec_member_def split: option.splits)

lemma members_of_pairs:
  "distinct (map fst S) \<Longrightarrow> set ps \<subseteq> set S \<Longrightarrow>
   List.map_filter (member S) (map fst ps) = List.map_filter spec_member ps"
  by (induction ps) (simp_all add: List.map_filter_simps member_of_pair split: option.splits)

lemma stringify_pairs:
  assumes "distinct (map fst S)" "set ps = set S" "distinct (map fst ps)"
  shows "stringify S (map fst ps) = members_in_order ps"
  using members_of_pairs [of S ps] assms
  by (simp add: stringify_def members_in_order_def property_list_distinct)

lemma sort_keys_of_pairs: "sort (map fst S) = map fst (sort_key fst S)"
proof -
  have "mset (map fst (sort_key fst S)) = mset (map fst S)" by simp
  moreover have "sorted (map fst (sort_key fst S))" by simp
  ultimately show ?thesis by (rule properties_for_sort)
qed

lemma canonical_string_refines:
  assumes "distinct (map fst S)"
  shows "canonical_string S = spec_canonical_string S"
proof -
  have "distinct (map fst (sort_key fst S))"
    using assms unfolding sort_keys_of_pairs [symmetric] by simp
  then show ?thesis
    unfolding canonical_string_def spec_canonical_string_def sort_keys_of_pairs
    using assms by (intro stringify_pairs) simp_all
qed

lemma stringify_plain_refines:
  "distinct (map fst S) \<Longrightarrow> stringify_plain S = members_in_order S"
  unfolding stringify_plain_def by (rule stringify_pairs) simp_all


lemma components_keys:
  "components e = Gives c \<Longrightarrow>
   map fst c = [''userAgent'', ''language'', ''platform'', ''screenResolution'', ''timezone'',
                ''cpuCores'']"
  unfolding components_def by (drule object_literal_keys) simp

lemma signal_keys_distinct: "distinct signal_keys"
  by (simp add: signal_keys_def)

text \<open>
  C4, as the code has it. In the \<open>try\<close> of \<open>generateHashedFingerprint\<close> the string
  that is hashed is the canonical encoding of the specification: the members of the
  Signal Set, keys sorted ascending, each written as JSON writes it. The fingerprint is
  the hexadecimal digest of that string, or its fallback hash where the digest throws;
  it is a function of the Signal Set and of the digest, and the same key/value pairs in
  another order give the same string and the same fingerprint. The \<open>catch\<close> of
  \<open>generateHashedFingerprint\<close> and \<open>generateFingerprint\<close> of site/js/voting.js do
  not sort: they hash the members in the order of their object literal, which the code
  fixes.
\<close>

theorem fingerprint_serialization:
  "(distinct (map fst S) \<longrightarrow>
      canonical_string S = spec_canonical_string S
      \<and> stringify_plain S = members_in_order S
      \<and> hashed_signals e S
          = (case crypto_digest e (spec_canonical_string S) of
               Gives hashArray \<Rightarrow> hexOfBytes hashArray
             | Throws \<Rightarrow> fallbackHash (spec_canonical_string S)))
   \<and> (distinct (map fst S) \<and> distinct (map fst S') \<and> set S = set S' \<longrightarrow>
        canonical_string S = canonical_string S' \<and> hashed_signals e S = hashed_signals e S')
   \<and> (\<forall>signals. collectSignals e = Gives signals \<longrightarrow>
        generateHashedFingerprint e
          = Gives (case crypto_digest e (spec_canonical_string signals) of
                     Gives hashArray \<Rightarrow> hexOfBytes hashArray
                   | Throws \<Rightarrow> fallbackHash (spec_canonical_string signals)))
   \<and> (\<forall>signals e'. collectSignals e = Gives signals \<and> collectSignals e' = Gives signals
        \<and> crypto_digest e' = crypto_digest e \<longrightarrow>
        generateHashedFingerprint e' = generateHashedFingerprint e)
   \<and> (\<forall>minimal. collectSignals e = Throws \<and> minimalSignals e = Gives minimal \<longrightarrow>
        map fst minimal = [''userAgent'', ''language'', ''platform'', ''screenWidth'',
                           ''screenHeight'', ''timezone'']
        \<and> generateHashedFingerprint e = Gives (fallbackHash (members_in_order minimal)))
   \<and> (\<forall>c. components e = Gives c \<longrightarrow>
        map fst c = [''userAgent'', ''language'', ''platform'', ''screenResolution'',
                     ''timezone'', ''cpuCores'']
        \<and> generateFingerprint e
            = (case crypto_digest e (members_in_order c) of
                 Gives hashArray \<Rightarrow> Gives (hexOfBytes hashArray)
               | Throws \<Rightarrow> Throws))"
proof (intro conjI allI impI)
  assume d: "distinct (map fst S)"
  show c: "canonical_string S = spec_canonical_string S"
    using d by (rule canonical_string_refines)
  show "stringify_plain S = members_in_order S"
    using d by (rule stringify_plain_refines)
  show "hashed_signals e S
          = (case crypto_digest e (spec_canonical_string S) of
               Gives hashArray \<Rightarrow> hexOfBytes hashArray
             | Throws \<Rightarrow> fallbackHash (spec_canonical_string S))"
    by (simp add: hashed_signals_def sha256Hash_def c)
next
  assume a: "distinct (map fst S) \<and> distinct (map fst S') \<and> set S = set S'"
  then have k: "sort (map fst S) = sort (map fst S')" by (simp add: sort_keys_eq)
  from a have "map_of S = map_of S'" by (simp add: map_of_inject_set)
  then show c: "canonical_string S = canonical_string S'"
    unfolding canonical_string_def k by (rule stringify_map_of)
  then show "hashed_signals e S = hashed_signals e S'" by (simp add: hashed_signals_def)
next
  fix signals assume s: "collectSignals e = Gives signals"
  then have "distinct (map fst signals)"
    using collectSignals_keys [OF s] signal_keys_distinct by simp
  then have "canonical_string signals = spec_canonical_string signals"
    by (rule canonical_string_refines)
  then show "generateHashedFingerprint e
          = Gives (case crypto_digest e (spec_canonical_string signals) of
                     Gives hashArray \<Rightarrow> hexOfBytes hashArray
                   | Throws \<Rightarrow> fallbackHash (spec_canonical_string signals))"
    using s by (simp add: generateHashedFingerprint_def hashed_signals_def sha256Hash_def)
next
  fix signals e'
  assume "collectSignals e = Gives signals \<and> collectSignals e' = Gives signals
        \<and> crypto_digest e' = crypto_digest e"
  then show "generateHashedFingerprint e' = generateHashedFingerprint e"
    by (simp add: generateHashedFingerprint_def hashed_signals_def)
next
  fix minimal assume m: "collectSignals e = Throws \<and> minimalSignals e = Gives minimal"
  then show k: "map fst minimal = [''userAgent'', ''language'', ''platform'', ''screenWidth'',
                           ''screenHeight'', ''timezone'']"
    using minimalSignals_keys [of e minimal] by blast
  have "stringify_plain minimal = members_in_order minimal"
    by (rule stringify_plain_refines) (simp add: k)
  then show "generateHashedFingerprint e = Gives (fallbackHash (members_in_order minimal))"
    using m by (simp add: generateHashedFingerprint_def minimal_fingerprint_def)
next
  fix c assume c: "components e = Gives c"
  then show k: "map fst c = [''userAgent'', ''language'', ''platform'', ''screenResolution'',
                     ''timezone'', ''cpuCores'']"
    by (rule components_keys)
  have "stringify_plain c = members_in_order c"
    by (rule stringify_plain_refines) (simp add: k)
  then show "generateFingerprint e
            = (case crypto_digest e (members_in_order c) of
                 Gives hashArray \<Rightarrow> Gives (hexOfBytes hashArray)
               | Throws \<Rightarrow> Throws)"
    using c by (simp add: generateFingerprint_def)
qed


theorem fingerprint_serialization_witness:
  "distinct (map fst [(''userAgent'', Str (ascii ''UA1'')), (''screenWidth'', Num 1920)])
   \<and> distinct (map fst [(''screenWidth'', Num 1920), (''userAgent'', Str (ascii ''UA1''))])
   \<and> set [(''userAgent'', Str (ascii ''UA1'')), (''screenWidth'', Num 1920)]
       = set [(''screenWidth'', Num 1920), (''userAgent'', Str (ascii ''UA1''))]
   \<and> canonical_string [(''userAgent'', Str (ascii ''UA1'')), (''screenWidth'', Num 1920)]
       = spec_canonical_string [(''userAgent'', Str (ascii ''UA1'')), (''screenWidth'', Num 1920)]
   \<and> canonical_string [(''userAgent'', Str (ascii ''UA1'')), (''screenWidth'', Num 1920)]
       = ascii ''{'' @ [0x22] @ ascii ''screenWidth'' @ [0x22] @ ascii '':1920,''
         @ [0x22] @ ascii ''userAgent'' @ [0x22] @ ascii '':'' @ [0x22] @ ascii ''UA1''
         @ [0x22] @ ascii ''}''
   \<and> canonical_string [(''userAgent'', Str (ascii ''UA1'')), (''screenWidth'', Num 1920)]
       = canonical_string [(''screenWidth'', Num 1920), (''userAgent'', Str (ascii ''UA1''))]
   \<and> hashed_signals sample_env [(''userAgent'', Str (ascii ''UA1'')), (''screenWidth'', Num 1920)]
       = hashed_signals sample_env [(''screenWidth'', Num 1920), (''userAgent'', Str (ascii ''UA1''))]
   \<and> stringify_plain [(''userAgent'', Str (ascii ''UA1'')), (''screenWidth'', Num 1920)]
       = members_in_order [(''userAgent'', Str (ascii ''UA1'')), (''screenWidth'', Num 1920)]
   \<and> (\<exists>signals. collectSignals sample_env = Gives signals
         \<and> generateHashedFingerprint sample_env
             = Gives (fallbackHash (spec_canonical_string signals)))
   \<and> generateHashedFingerprint sample_env = Gives ''8h3xgi''
   \<and> generateHashedFingerprint (sample_env\<lparr>canvas_toDataURL := Gives (Str (ascii ''x''))\<rparr>)
       = generateHashedFingerprint sample_env
   \<and> (\<exists>minimal. collectSignals (sample_env\<lparr>intl_timeZone := Throws\<rparr>) = Throws
         \<and> minimalSignals (sample_env\<lparr>intl_timeZone := Throws\<rparr>) = Gives minimal
         \<and> generateHashedFingerprint (sample_env\<lparr>intl_timeZone := Throws\<rparr>)
             = Gives (fallbackHash (members_in_order minimal)))
   \<and> (\<exists>c. components (sample_env\<lparr>crypto_digest := (\<lambda>message. Gives [0x0F, 0xA0])\<rparr>) = Gives c
         \<and> generateFingerprint (sample_env\<lparr>crypto_digest := (\<lambda>message. Gives [0x0F, 0xA0])\<rparr>)
             = Gives ''0fa0'')"
proof -
  let ?A = "[(''userAgent'', Str (ascii ''UA1'')), (''screenWidth'', Num 1920)]"
  let ?B = "[(''screenWidth'', Num 1920), (''userAgent'', Str (ascii ''UA1''))]"
  let ?near = "sample_env\<lparr>canvas_toDataURL := Gives (Str (ascii ''x''))\<rparr>"
  let ?bad = "sample_env\<lparr>intl_timeZone := Throws\<rparr>"
  let ?hashing = "sample_env\<lparr>crypto_digest := (\<lambda>message. Gives [0x0F, 0xA0])\<rparr>"
  have dA: "distinct (map fst ?A)" and dB: "distinct (map fst ?B)" by simp_all
  have AB: "set ?A = set ?B" by auto
  have k: "sort (map fst ?A) = [''screenWidth'', ''userAgent'']" by code_simp
  have v: "canonical_string ?A
       = ascii ''{'' @ [0x22] @ ascii ''screenWidth'' @ [0x22] @ ascii '':1920,''
         @ [0x22] @ ascii ''userAgent'' @ [0x22] @ ascii '':'' @ [0x22] @ ascii ''UA1''
         @ [0x22] @ ascii ''}''"
    unfolding canonical_string_def k
    by (simp add: stringify_def property_list_def List.map_filter_simps member_def serialize_def
        toString_def decimal.simps digit16_def quoteJSONString_def ascii_def escape_unit_def
        leading_surrogate_def trailing_surrogate_def)
  have cs: "collectSignals sample_env \<noteq> Throws" "collectSignals ?near = collectSignals sample_env"
    "crypto_digest ?near = crypto_digest sample_env" "crypto_digest sample_env = (\<lambda>message. Throws)"
    by (simp_all add: collectSignals_def sample_env_def or_default_def joined_def
        getCanvasFingerprint_def getWebGLFingerprint_def)
  then obtain signals where s: "collectSignals sample_env = Gives signals"
    by (cases "collectSignals sample_env") simp_all
  have b: "collectSignals ?bad = Throws" "minimalSignals ?bad \<noteq> Throws"
    by (simp_all add: collectSignals_def minimalSignals_def sample_env_def or_default_def
        joined_def)
  then obtain minimal where m: "minimalSignals ?bad = Gives minimal"
    by (cases "minimalSignals ?bad") simp_all
  have "components ?hashing \<noteq> Throws"
    by (simp add: components_def screenResolution_def sample_env_def or_default_def)
  then obtain c where c: "components ?hashing = Gives c"
    by (cases "components ?hashing") simp_all
  have h: "crypto_digest ?hashing = (\<lambda>message. Gives [0x0F, 0xA0])" by simp
  have x: "hexOfBytes [0x0F, 0xA0] = ''0fa0''"
    by (simp add: hexOfBytes_def hexByte_def digit16_def)
  note A = fingerprint_serialization [where S = ?A and S' = ?B and e = sample_env]
  from A dA have 1: "canonical_string ?A = spec_canonical_string ?A"
    "stringify_plain ?A = members_in_order ?A" by blast+
  from A dA dB AB have 2: "canonical_string ?A = canonical_string ?B"
    "hashed_signals sample_env ?A = hashed_signals sample_env ?B" by blast+
  from A s have "generateHashedFingerprint sample_env
          = Gives (case crypto_digest sample_env (spec_canonical_string signals) of
                     Gives hashArray \<Rightarrow> hexOfBytes hashArray
                   | Throws \<Rightarrow> fallbackHash (spec_canonical_string signals))" by blast
  then have 3: "generateHashedFingerprint sample_env
             = Gives (fallbackHash (spec_canonical_string signals))"
    by (simp add: cs(4))
  have sv: "collectSignals sample_env = Gives
     [(''userAgent'', Str (ascii ''UA1'')), (''language'', Str (ascii ''en'')),
      (''languages'', Str (ascii ''en,fr'')), (''platform'', Str (ascii ''Linux'')),
      (''hardwareConcurrency'', Num 8), (''deviceMemory'', Num 0), (''maxTouchPoints'', Num 0),
      (''screenWidth'', Num 1920), (''screenHeight'', Num 1080), (''screenColorDepth'', Num 24),
      (''screenPixelDepth'', Num 24), (''availWidth'', Num 1920), (''availHeight'', Num 1040),
      (''timezone'', Str (ascii ''UTC'')), (''timezoneOffset'', Num 0), (''canvas'', Str []),
      (''cookieEnabled'', Bool True), (''doNotTrack'', Str []), (''plugins'', Str []),
      (''webgl'', Str [])]"
    by (simp add: collectSignals_def sample_env_def or_default_def or_else_def truthy_def
        joined_def getCanvasFingerprint_def getWebGLFingerprint_def ascii_def)
  have sk: "sort [''userAgent'', ''language'', ''languages'', ''platform'', ''hardwareConcurrency'',
      ''deviceMemory'', ''maxTouchPoints'', ''screenWidth'', ''screenHeight'',
      ''screenColorDepth'', ''screenPixelDepth'', ''availWidth'', ''availHeight'',
      ''timezone'', ''timezoneOffset'', ''canvas'', ''cookieEnabled'', ''doNotTrack'',
      ''plugins'', ''webgl'']
    = [''availHeight'', ''availWidth'', ''canvas'', ''cookieEnabled'', ''deviceMemory'',
       ''doNotTrack'', ''hardwareConcurrency'', ''language'', ''languages'', ''maxTouchPoints'',
       ''platform'', ''plugins'', ''screenColorDepth'', ''screenHeight'', ''screenPixelDepth'',
       ''screenWidth'', ''timezone'', ''timezoneOffset'', ''userAgent'', ''webgl'']"
    by code_simp
  let ?L = "[(''userAgent'', Str (ascii ''UA1'')), (''language'', Str (ascii ''en'')),
      (''languages'', Str (ascii ''en,fr'')), (''platform'', Str (ascii ''Linux'')),
      (''hardwareConcurrency'', Num 8), (''deviceMemory'', Num 0), (''maxTouchPoints'', Num 0),
      (''screenWidth'', Num 1920), (''screenHeight'', Num 1080), (''screenColorDepth'', Num 24),
      (''screenPixelDepth'', Num 24), (''availWidth'', Num 1920), (''availHeight'', Num 1040),
      (''timezone'', Str (ascii ''UTC'')), (''timezoneOffset'', Num 0), (''canvas'', Str []),
      (''cookieEnabled'', Bool True), (''doNotTrack'', Str []), (''plugins'', Str []),
      (''webgl'', Str [])]"
  have dL: "distinct (map fst ?L)" by simp
  have hL: "fallbackHash (canonical_string ?L) = ''8h3xgi''"
    by (simp add: canonical_string_def sk stringify_def property_list_def
        List.map_filter_simps member_def serialize_def toString_def decimal.simps digit16_def
        quoteJSONString_def ascii_def escape_unit_def leading_surrogate_def
        trailing_surrogate_def fallbackHash_def fallbackHash_loop_rolling spec_rolling_hash_def
        spec_rolling_step_def toInt32_def toString36.simps digit36_def)
  from fingerprint_serialization [where S = ?L and e = sample_env] dL
  have cL: "canonical_string ?L = spec_canonical_string ?L" by blast
  from fingerprint_serialization [where e = sample_env] sv
  have "generateHashedFingerprint sample_env
          = Gives (case crypto_digest sample_env (spec_canonical_string ?L) of
                     Gives hashArray \<Rightarrow> hexOfBytes hashArray
                   | Throws \<Rightarrow> fallbackHash (spec_canonical_string ?L))" by blast
  then have fp: "generateHashedFingerprint sample_env = Gives ''8h3xgi''"
    unfolding cs(4) cL [symmetric] hL by simp
  from A s cs(2,3) have 4: "generateHashedFingerprint ?near = generateHashedFingerprint sample_env"
    by metis
  from fingerprint_serialization [where e = ?bad] b(1) m
  have 5: "generateHashedFingerprint ?bad = Gives (fallbackHash (members_in_order minimal))"
    by blast
  from fingerprint_serialization [where e = ?hashing] c
  have "generateFingerprint ?hashing
            = (case crypto_digest ?hashing (members_in_order c) of
                 Gives hashArray \<Rightarrow> Gives (hexOfBytes hashArray)
               | Throws \<Rightarrow> Throws)" by blast
  then have 6: "generateFingerprint ?hashing = Gives ''0fa0''"
    unfolding h by (simp add: x)
  from dA dB AB 1 v 2 s 3 fp 4 b(1) m 5 c 6 show ?thesis
    by (intro conjI exI [of _ signals] exI [of _ minimal] exI [of _ c]) assumption+
qed

theorem generateHashedFingerprint_unsorted_counterexample:
  "minimalSignals (sample_env\<lparr>intl_timeZone := Throws\<rparr>)
     = Gives [(''userAgent'', Str (ascii ''UA1'')), (''language'', Str (ascii ''en'')),
              (''platform'', Str (ascii ''Linux'')), (''screenWidth'', Num 1920),
              (''screenHeight'', Num 1080), (''timezone'', Num 0)]
   \<and> generateHashedFingerprint (sample_env\<lparr>intl_timeZone := Throws\<rparr>) = Gives ''axtqq8''
   \<and> minimal_fingerprint
        [(''userAgent'', Str (ascii ''UA1'')), (''language'', Str (ascii ''en'')),
         (''platform'', Str (ascii ''Linux'')), (''screenWidth'', Num 1920),
         (''screenHeight'', Num 1080), (''timezone'', Num 0)] = ''axtqq8''
   \<and> minimal_fingerprint
        [(''language'', Str (ascii ''en'')), (''platform'', Str (ascii ''Linux'')),
         (''screenHeight'', Num 1080), (''screenWidth'', Num 1920), (''timezone'', Num 0),
         (''userAgent'', Str (ascii ''UA1''))] = ''vzdi6e''
   \<and> fallbackHash (canonical_string
        [(''userAgent'', Str (ascii ''UA1'')), (''language'', Str (ascii ''en'')),
         (''platform'', Str (ascii ''Linux'')), (''screenWidth'', Num 1920),
         (''screenHeight'', Num 1080), (''timezone'', Num 0)]) = ''vzdi6e''
   \<and> stringify_plain
        [(''userAgent'', Str (ascii ''UA1'')), (''language'', Str (ascii ''en'')),
         (''platform'', Str (ascii ''Linux'')), (''screenWidth'', Num 1920),
         (''screenHeight'', Num 1080), (''timezone'', Num 0)]
       = ascii ''{'' @ [0x22] @ ascii ''userAgent'' @ [0x22] @ ascii '':'' @ [0x22] @ ascii ''UA1''
         @ [0x22] @ ascii '','' @ [0x22] @ ascii ''language'' @ [0x22] @ ascii '':'' @ [0x22]
         @ ascii ''en'' @ [0x22] @ ascii '','' @ [0x22] @ ascii ''platform'' @ [0x22] @ ascii '':''
         @ [0x22] @ ascii ''Linux'' @ [0x22] @ ascii '','' @ [0x22] @ ascii ''screenWidth'' @ [0x22]
         @ ascii '':1920,'' @ [0x22] @ ascii ''screenHeight'' @ [0x22] @ ascii '':1080,'' @ [0x22]
         @ ascii ''timezone'' @ [0x22] @ ascii '':0}''
   \<and> components sample_env
       = Gives [(''userAgent'', Str (ascii ''UA1'')), (''language'', Str (ascii ''en'')),
                (''platform'', Str (ascii ''Linux'')),
                (''screenResolution'', Str (ascii ''1920x1080'')),
                (''timezone'', Str (ascii ''UTC'')), (''cpuCores'', Num 8)]
   \<and> stringify_plain
        [(''userAgent'', Str (ascii ''UA1'')), (''language'', Str (ascii ''en'')),
         (''platform'', Str (ascii ''Linux'')),
         (''screenResolution'', Str (ascii ''1920x1080'')),
         (''timezone'', Str (ascii ''UTC'')), (''cpuCores'', Num 8)]
       \<noteq> canonical_string
        [(''userAgent'', Str (ascii ''UA1'')), (''language'', Str (ascii ''en'')),
         (''platform'', Str (ascii ''Linux'')),
         (''screenResolution'', Str (ascii ''1920x1080'')),
         (''timezone'', Str (ascii ''UTC'')), (''cpuCores'', Num 8)]"
proof -
  let ?c = "[(''userAgent'', Str (ascii ''UA1'')), (''language'', Str (ascii ''en'')),
             (''platform'', Str (ascii ''Linux'')),
             (''screenResolution'', Str (ascii ''1920x1080'')),
             (''timezone'', Str (ascii ''UTC'')), (''cpuCores'', Num 8)]"
  have 6: "components sample_env = Gives ?c"
    by (simp add: components_def screenResolution_def sample_env_def or_default_def or_else_def
        truthy_def toString_def decimal.simps digit16_def ascii_def)
  have kc: "sort (map fst ?c) = [''cpuCores'', ''language'', ''platform'', ''screenResolution'',
                                  ''timezone'', ''userAgent'']"
    by code_simp
  have 7: "stringify_plain ?c \<noteq> canonical_string ?c"
    unfolding canonical_string_def kc
    by (simp add: stringify_plain_def stringify_def property_list_def
        List.map_filter_simps member_def serialize_def toString_def decimal.simps digit16_def
        quoteJSONString_def ascii_def escape_unit_def leading_surrogate_def
        trailing_surrogate_def)
  let ?bad = "sample_env\<lparr>intl_timeZone := Throws\<rparr>"
  let ?m = "[(''userAgent'', Str (ascii ''UA1'')), (''language'', Str (ascii ''en'')),
             (''platform'', Str (ascii ''Linux'')), (''screenWidth'', Num 1920),
             (''screenHeight'', Num 1080), (''timezone'', Num 0)]"
  have m: "minimalSignals ?bad = Gives ?m"
    by (simp add: minimalSignals_def sample_env_def or_default_def or_else_def truthy_def
        ascii_def)
  have c: "collectSignals ?bad = Throws"
    by (simp add: collectSignals_def sample_env_def or_default_def joined_def)
  have k: "sort (map fst ?m) = [''language'', ''platform'', ''screenHeight'', ''screenWidth'',
                                 ''timezone'', ''userAgent'']"
    by code_simp
  have 1: "minimal_fingerprint ?m = ''axtqq8''"
    by (simp add: minimal_fingerprint_def stringify_plain_def stringify_def property_list_def
        List.map_filter_simps member_def serialize_def toString_def decimal.simps digit16_def
        quoteJSONString_def ascii_def escape_unit_def leading_surrogate_def
        trailing_surrogate_def fallbackHash_def fallbackHash_loop_rolling spec_rolling_hash_def
        spec_rolling_step_def toInt32_def toString36.simps digit36_def)
  have 2: "minimal_fingerprint
        [(''language'', Str (ascii ''en'')), (''platform'', Str (ascii ''Linux'')),
         (''screenHeight'', Num 1080), (''screenWidth'', Num 1920), (''timezone'', Num 0),
         (''userAgent'', Str (ascii ''UA1''))] = ''vzdi6e''"
    by (simp add: minimal_fingerprint_def stringify_plain_def stringify_def property_list_def
        List.map_filter_simps member_def serialize_def toString_def decimal.simps digit16_def
        quoteJSONString_def ascii_def escape_unit_def leading_surrogate_def
        trailing_surrogate_def fallbackHash_def fallbackHash_loop_rolling spec_rolling_hash_def
        spec_rolling_step_def toInt32_def toString36.simps digit36_def)
  have 3: "fallbackHash (canonical_string ?m) = ''vzdi6e''"
    unfolding canonical_string_def k
    by (simp add: stringify_def property_list_def
        List.map_filter_simps member_def serialize_def toString_def decimal.simps digit16_def
        quoteJSONString_def ascii_def escape_unit_def leading_surrogate_def
        trailing_surrogate_def fallbackHash_def fallbackHash_loop_rolling spec_rolling_hash_def
        spec_rolling_step_def toInt32_def toString36.simps digit36_def)
  have 4: "stringify_plain ?m
       = ascii ''{'' @ [0x22] @ ascii ''userAgent'' @ [0x22] @ ascii '':'' @ [0x22] @ ascii ''UA1''
         @ [0x22] @ ascii '','' @ [0x22] @ ascii ''language'' @ [0x22] @ ascii '':'' @ [0x22]
         @ ascii ''en'' @ [0x22] @ ascii '','' @ [0x22] @ ascii ''platform'' @ [0x22] @ ascii '':''
         @ [0x22] @ ascii ''Linux'' @ [0x22] @ ascii '','' @ [0x22] @ ascii ''screenWidth'' @ [0x22]
         @ ascii '':1920,'' @ [0x22] @ ascii ''screenHeight'' @ [0x22] @ ascii '':1080,'' @ [0x22]
         @ ascii ''timezone'' @ [0x22] @ ascii '':0}''"
    by (simp add: stringify_plain_def stringify_def property_list_def
        List.map_filter_simps member_def serialize_def toString_def decimal.simps digit16_def
        quoteJSONString_def ascii_def escape_unit_def leading_surrogate_def
        trailing_surrogate_def)
  have 5: "generateHashedFingerprint ?bad = Gives ''axtqq8''"
    unfolding generateHashedFingerprint_def c m by (simp add: 1)
  from m 5 1 2 3 4 6 7 show ?thesis by (intro conjI) assumption+
qed

end
